theory Spec2Isabelle
  imports Main "HOL-Library.Sublist" "HOL-Library.Signed_Division"
begin

section \<open>The SQS consumer of mq/sqs/sqs.go\<close>

text \<open>
  The consumer polls a queue, hands every message to a callback and deletes the messages
  whose callback succeeded. Two loops exist: \<open>processMessages\<close> unwraps an SNS envelope
  first, \<open>processMessagesV1\<close> passes the body as it is.

  The AWS SDK, the JSON decoder, the clock and the callback are outside the package. They
  are parameters of the model: functions over a world \<open>'w\<close> that is threaded through
  every call, so that any answer of the queue service (also one that depends on what other
  workers did) is some world. What the worker does is recorded as a list of events: every
  call it makes to a collaborator and every log line, in order.
\<close>

subsection \<open>Data\<close>

text \<open>\<open>HandleTimeoutMS = int64(1000)\<close>\<close>

definition HandleTimeoutMS :: int where
  "HandleTimeoutMS = 1000"

text \<open>The configuration struct, field by field. \<open>ConsumerCnt\<close> is a Go \<open>int\<close>; it is only
  compared with a counter that stays below it, so no arithmetic on it can overflow.\<close>

record SQSConfig =
  ARN :: string
  Region :: string
  APIKey :: string
  SecretKey :: string
  QueueUrl :: string
  MessageGroupId :: "string option"
  ConsumerCnt :: int
  ProducerCnt :: int

text \<open>\<open>MessageCB\<close> is \<open>func(msg string) error\<close>: the result is \<open>None\<close> for a nil error and
  \<open>Some\<close> of the error's text otherwise. The callback may have effects, so it takes and
  returns the world. A callback that panics or does not return is not modelled.\<close>

type_synonym 'w MessageCB = "string \<Rightarrow> 'w \<Rightarrow> string option \<times> 'w"

text \<open>The consumer. A nil callback is \<open>None\<close>.\<close>

record ('l, 'w) SQS =
  config :: SQSConfig
  logger :: 'l
  messageCB :: "'w MessageCB option"

text \<open>\<open>sqs.Message\<close>, with the three fields the package reads. They are pointers to
  strings in the SDK, hence optional.\<close>

record sqs_Message =
  MessageId :: "string option"
  ReceiptHandle :: "string option"
  Body :: "string option"

text \<open>\<open>sqs.DeleteMessageBatchRequestEntry\<close>. Its second field is \<open>ReceiptHandle\<close> in the
  SDK; it is called \<open>EntryReceiptHandle\<close> here because a record field name is global.\<close>

record DeleteMessageBatchRequestEntry =
  Id :: "string option"
  EntryReceiptHandle :: "string option"

text \<open>The anonymous struct that the wrapped loop decodes into.\<close>

record rawMessage =
  Message :: string
  Timestamp :: string

datatype Credentials = NewStaticCredentials string string string

datatype aws_Config = aws_Config string "Credentials option"

datatype Session = Session nat

datatype Service = New Session

datatype ReceiveMessageInput = ReceiveMessageInput string int int

datatype DeleteMessageBatchInput =
  DeleteMessageBatchInput "DeleteMessageBatchRequestEntry list" string

text \<open>The collaborators. A call that returns \<open>(value, error)\<close> in Go returns a sum here,
  \<open>Inl\<close> the error's text; \<open>session.NewSession\<close> returns a nil session with every error.
  The two SDK calls take the timeout of their context in seconds as last argument before
  the world. \<open>Now\<close> reads the monotonic clock in nanoseconds.\<close>

record 'w env =
  NewSession :: "aws_Config \<Rightarrow> 'w \<Rightarrow> (string + Session) \<times> 'w"
  ReceiveMessageWithContext ::
    "Service \<Rightarrow> ReceiveMessageInput \<Rightarrow> int \<Rightarrow> 'w \<Rightarrow> (string + sqs_Message list) \<times> 'w"
  DeleteMessageBatchWithContext ::
    "Service \<Rightarrow> DeleteMessageBatchInput \<Rightarrow> int \<Rightarrow> 'w \<Rightarrow> string option \<times> 'w"
  Unmarshal :: "string \<Rightarrow> string + rawMessage"
  Now :: "'w \<Rightarrow> int"

text \<open>Values of log fields, and the events of a worker.\<close>

datatype fieldval = FStr string | FInt int | FMsg sqs_Message

datatype event =
    Infof string "fieldval list"
  | Info string
  | InfoWithFields string "(string \<times> fieldval) list"
  | ErrorWithFields string "(string \<times> fieldval) list"
  | CallNewSession aws_Config
  | CallNew Session
  | CallReceiveMessage Service ReceiveMessageInput int
  | CallUnmarshal string
  | CallMessageCB string
  | CallDeleteMessageBatch Service DeleteMessageBatchInput int

text \<open>The variables that a worker keeps from one iteration to the next: \<open>cfgSession\<close>,
  \<open>service\<close> and the outer \<open>err\<close>. The list \<open>deleteEntries\<close> and the \<open>err\<close> that
  \<open>msgResult, err :=\<close> declares live inside the closure of one iteration.\<close>

record worker =
  cfgSession :: "Session option"
  service :: "Service option"
  err :: "string option"

text \<open>A goroutine started with \<open>go\<close>.\<close>

datatype goroutine = Go_processMessages int | Go_processMessagesV1 int

subsection \<open>Helpers of the libraries\<close>

text \<open>\<open>strings.Contains\<close>\<close>

fun Contains :: "string \<Rightarrow> string \<Rightarrow> bool" where
  "Contains [] substr = (substr = [])"
| "Contains (c # s) substr = (prefix substr (c # s) \<or> Contains s substr)"

text \<open>\<open>errors.Wrap(err, message).Error()\<close>\<close>

definition Wrap :: "string \<Rightarrow> string \<Rightarrow> string" where
  "Wrap e message = message @ '': '' @ e"

text \<open>\<open>time.Since(tp).Milliseconds()\<close>: the nanoseconds elapsed, divided by \<open>10^6\<close> with
  Go's truncating division.\<close>

definition Milliseconds_Since :: "'w env \<Rightarrow> int \<Rightarrow> 'w \<Rightarrow> int" where
  "Milliseconds_Since env tp w = (Now env w - tp) sdiv 1000000"

subsection \<open>Construction\<close>

text \<open>\<open>for i := 0; i < sqsConfig.ConsumerCnt; i++ { go s.processMessages(i) }\<close>, from
  the current \<open>i\<close>: the goroutines it starts, in order.\<close>

function spawn :: "(int \<Rightarrow> goroutine) \<Rightarrow> int \<Rightarrow> int \<Rightarrow> goroutine list" where
  "spawn g i cnt = (if i < cnt then g i # spawn g (i + 1) cnt else [])"
  by pat_completeness auto
termination
  by (relation "measure (\<lambda>(g, i, cnt). nat (cnt - i))") auto

definition NewSQS ::
  "SQSConfig \<Rightarrow> 'l \<Rightarrow> 'w MessageCB option \<Rightarrow> ('l, 'w) SQS \<times> goroutine list" where
  "NewSQS sqsConfig lg cb =
     (let s = \<lparr>config = sqsConfig, logger = lg, messageCB = cb\<rparr>
      in (s, spawn Go_processMessages 0 (ConsumerCnt sqsConfig)))"

definition NewSQSV1 ::
  "SQSConfig \<Rightarrow> 'l \<Rightarrow> 'w MessageCB option \<Rightarrow> ('l, 'w) SQS \<times> goroutine list" where
  "NewSQSV1 sqsConfig lg cb =
     (let s = \<lparr>config = sqsConfig, logger = lg, messageCB = cb\<rparr>
      in (s, spawn Go_processMessagesV1 0 (ConsumerCnt sqsConfig)))"

subsection \<open>Bringing the client up\<close>

text \<open>The \<open>aws.Config\<close> of both loops: static credentials when both keys are set.\<close>

definition newConfig :: "('l, 'w) SQS \<Rightarrow> aws_Config" where
  "newConfig s =
     (if APIKey (config s) \<noteq> [] \<and> SecretKey (config s) \<noteq> []
      then aws_Config (Region (config s))
             (Some (NewStaticCredentials (APIKey (config s)) (SecretKey (config s)) []))
      else aws_Config (Region (config s)) None)"

text \<open>
  The head of the closure: \<open>if cfgSession == nil { ... }\<close>. The two loops differ in the
  name they log only, which is the parameter \<open>fname\<close>. The result is the session to
  use, or \<open>None\<close> when the closure has returned, with the worker's variables, the events
  and the world.
\<close>

definition initSession ::
  "string \<Rightarrow> ('l, 'w) SQS \<Rightarrow> 'w env \<Rightarrow> worker \<Rightarrow> 'w
     \<Rightarrow> Session option \<times> worker \<times> event list \<times> 'w" where
  "initSession fname s env wk w =
     (case cfgSession wk of
        Some ses \<Rightarrow> (Some ses, wk, [], w)
      | None \<Rightarrow>
          (case NewSession env (newConfig s) w of
             (Inl e, w1) \<Rightarrow>
               (None, wk\<lparr>cfgSession := None, err := Some (Wrap e (fname @ '' session''))\<rparr>,
                [CallNewSession (newConfig s),
                 ErrorWithFields (fname @ '' session'')
                   [(''err'', FStr (Wrap e (fname @ '' session'')))]], w1)
           | (Inr ses, w1) \<Rightarrow>
               (Some ses, wk\<lparr>cfgSession := Some ses, err := None\<rparr>,
                [CallNewSession (newConfig s),
                 Info (fname @ '' session init success'')], w1)))"

text \<open>Then \<open>if service == nil { service = sqs.New(cfgSession) }\<close>: the service to use, or
  \<open>None\<close> when the closure has returned.\<close>

definition initClient ::
  "string \<Rightarrow> ('l, 'w) SQS \<Rightarrow> 'w env \<Rightarrow> worker \<Rightarrow> 'w
     \<Rightarrow> Service option \<times> worker \<times> event list \<times> 'w" where
  "initClient fname s env wk w =
     (case initSession fname s env wk w of
        (None, wk1, ev1, w1) \<Rightarrow> (None, wk1, ev1, w1)
      | (Some ses, wk1, ev1, w1) \<Rightarrow>
          (case service wk1 of
             None \<Rightarrow> (Some (New ses), wk1\<lparr>service := Some (New ses)\<rparr>, ev1 @ [CallNew ses], w1)
           | Some svc \<Rightarrow> (Some svc, wk1, ev1, w1)))"

subsection \<open>The messages of a batch\<close>

text \<open>The entry that both loops append for a message.\<close>

definition entryOf :: "sqs_Message \<Rightarrow> DeleteMessageBatchRequestEntry" where
  "entryOf msg = \<lparr>Id = MessageId msg, EntryReceiptHandle = ReceiptHandle msg\<rparr>"

text \<open>
  The body of \<open>for _, msg := range msgResult.Messages\<close> in \<open>processMessages\<close>: from the
  entries staged so far and the world, the entries, the events of this message and the
  world after it.
\<close>

definition handleMessage ::
  "('l, 'w) SQS \<Rightarrow> 'w env \<Rightarrow> sqs_Message \<Rightarrow> DeleteMessageBatchRequestEntry list \<Rightarrow> 'w
     \<Rightarrow> DeleteMessageBatchRequestEntry list \<times> event list \<times> 'w" where
  "handleMessage s env msg deleteEntries w =
     (case Body msg of
        None \<Rightarrow> (deleteEntries, [], w)
      | Some body \<Rightarrow>
          (case Unmarshal env body of
             Inl e \<Rightarrow>
               (deleteEntries @ [entryOf msg],
                [CallUnmarshal body,
                 ErrorWithFields ''sqs SQS.processMessages unmarshal raw message fail.''
                   [(''err'', FStr e), (''msg'', FStr body)]], w)
           | Inr raw \<Rightarrow>
               (case messageCB s of
                  None \<Rightarrow> (deleteEntries, [CallUnmarshal body], w)
                | Some cb \<Rightarrow>
                    (let tp = Now env w in
                     case cb (Message raw) w of
                       (Some e, w1) \<Rightarrow>
                         (deleteEntries,
                          [CallUnmarshal body, CallMessageCB (Message raw),
                           ErrorWithFields ''sqs SQS.processMessages handle msg fail.''
                             [(''err'', FStr e), (''msg'', FStr (Message raw))]], w1)
                     | (None, w1) \<Rightarrow>
                         (let cost = Milliseconds_Since env tp w1 in
                          (deleteEntries @ [entryOf msg],
                           [CallUnmarshal body, CallMessageCB (Message raw)] @
                           (if cost > HandleTimeoutMS
                            then [ErrorWithFields ''sqs SQS.processMessages handle msg cost.''
                                    [(''sqsArn'', FStr (ARN (config s))), (''cost'', FInt cost)]]
                            else []), w1))))))"

fun handleMessages ::
  "('l, 'w) SQS \<Rightarrow> 'w env \<Rightarrow> sqs_Message list \<Rightarrow> DeleteMessageBatchRequestEntry list \<Rightarrow> 'w
     \<Rightarrow> DeleteMessageBatchRequestEntry list \<times> event list \<times> 'w" where
  "handleMessages s env [] deleteEntries w = (deleteEntries, [], w)"
| "handleMessages s env (msg # msgs) deleteEntries w =
     (case handleMessage s env msg deleteEntries w of
        (deleteEntries1, ev1, w1) \<Rightarrow>
          (case handleMessages s env msgs deleteEntries1 w1 of
             (deleteEntries2, ev2, w2) \<Rightarrow> (deleteEntries2, ev1 @ ev2, w2)))"

text \<open>The body of \<open>for i, msg := range msgResult.Messages\<close> in \<open>processMessagesV1\<close>.\<close>

definition handleMessageV1 ::
  "('l, 'w) SQS \<Rightarrow> 'w env \<Rightarrow> int \<Rightarrow> sqs_Message \<Rightarrow> DeleteMessageBatchRequestEntry list \<Rightarrow> 'w
     \<Rightarrow> DeleteMessageBatchRequestEntry list \<times> event list \<times> 'w" where
  "handleMessageV1 s env i msg deleteEntries w =
     (case Body msg of
        None \<Rightarrow> (deleteEntries, [], w)
      | Some body \<Rightarrow>
          (let ev0 = [InfoWithFields ''sqs SQS.processMessagesV1 handle message''
                        [(''index'', FInt i), (''msg'', FMsg msg)]] in
           case messageCB s of
             None \<Rightarrow> (deleteEntries, ev0, w)
           | Some cb \<Rightarrow>
               (let tp = Now env w in
                case cb body w of
                  (Some e, w1) \<Rightarrow>
                    (deleteEntries,
                     ev0 @ [CallMessageCB body,
                            ErrorWithFields ''sqs SQS.processMessagesV1 handle msg fail.''
                              [(''err'', FStr e), (''msg'', FStr body)]], w1)
                | (None, w1) \<Rightarrow>
                    (let cost = Milliseconds_Since env tp w1 in
                     (deleteEntries @ [entryOf msg],
                      ev0 @ [CallMessageCB body] @
                      (if cost > HandleTimeoutMS
                       then [ErrorWithFields ''sqs SQS.processMessagesV1 handle msg cost.''
                               [(''sqsArn'', FStr (ARN (config s))), (''cost'', FInt cost)]]
                       else []), w1)))))"

fun handleMessagesV1 ::
  "('l, 'w) SQS \<Rightarrow> 'w env \<Rightarrow> int \<Rightarrow> sqs_Message list \<Rightarrow> DeleteMessageBatchRequestEntry list
     \<Rightarrow> 'w \<Rightarrow> DeleteMessageBatchRequestEntry list \<times> event list \<times> 'w" where
  "handleMessagesV1 s env i [] deleteEntries w = (deleteEntries, [], w)"
| "handleMessagesV1 s env i (msg # msgs) deleteEntries w =
     (case handleMessageV1 s env i msg deleteEntries w of
        (deleteEntries1, ev1, w1) \<Rightarrow>
          (case handleMessagesV1 s env (i + 1) msgs deleteEntries1 w1 of
             (deleteEntries2, ev2, w2) \<Rightarrow> (deleteEntries2, ev1 @ ev2, w2)))"

subsection \<open>The end of an iteration: the batch delete\<close>

text \<open>
  From \<open>if len(deleteEntries) == 0 { return }\<close> to the end of the closure, the same in
  both loops but for the name logged: the events and the world.
\<close>

definition deleteMessages ::
  "string \<Rightarrow> ('l, 'w) SQS \<Rightarrow> 'w env \<Rightarrow> Service \<Rightarrow> DeleteMessageBatchRequestEntry list \<Rightarrow> 'w
     \<Rightarrow> event list \<times> 'w" where
  "deleteMessages fname s env svc deleteEntries w =
     (if length deleteEntries = 0 then ([], w)
      else
        (case DeleteMessageBatchWithContext env svc
                (DeleteMessageBatchInput deleteEntries (QueueUrl (config s))) 1 w of
           (Some e, w1) \<Rightarrow>
             ([CallDeleteMessageBatch svc
                 (DeleteMessageBatchInput deleteEntries (QueueUrl (config s))) 1,
               ErrorWithFields (fname @ '' delete message fail.'') [(''error'', FStr e)]], w1)
         | (None, w1) \<Rightarrow>
             ([CallDeleteMessageBatch svc
                 (DeleteMessageBatchInput deleteEntries (QueueUrl (config s))) 1], w1)))"

subsection \<open>One iteration of each loop\<close>

text \<open>The closure that \<open>processMessages\<close> calls in its \<open>for\<close>: the worker's variables
  after it, its events and the world.\<close>

definition processMessages_iter ::
  "('l, 'w) SQS \<Rightarrow> 'w env \<Rightarrow> worker \<Rightarrow> 'w \<Rightarrow> worker \<times> event list \<times> 'w" where
  "processMessages_iter s env wk w =
     (case initClient ''sqs SQS.processMessages'' s env wk w of
        (None, wk1, ev1, w1) \<Rightarrow> (wk1, ev1, w1)
      | (Some svc, wk1, ev1, w1) \<Rightarrow>
          (let waitSeconds = 20; messageCount = 10;
               inp = ReceiveMessageInput (QueueUrl (config s)) messageCount waitSeconds;
               ev2 = ev1 @ [CallReceiveMessage svc inp (waitSeconds + 1)] in
           case ReceiveMessageWithContext env svc inp (waitSeconds + 1) w1 of
             (Inl e, w2) \<Rightarrow>
               (wk1, ev2 @ [ErrorWithFields ''sqs SQS.processMessages receive message fail.''
                              [(''err'', FStr e)]], w2)
           | (Inr msgs, w2) \<Rightarrow>
               (if length msgs = 0 then (wk1, ev2, w2)
                else
                  (case handleMessages s env msgs [] w2 of
                     (deleteEntries, ev3, w3) \<Rightarrow>
                       (case deleteMessages ''sqs SQS.processMessages'' s env svc deleteEntries w3 of
                          (ev4, w4) \<Rightarrow> (wk1, ev2 @ ev3 @ ev4, w4))))))"

text \<open>The closure of \<open>processMessagesV1\<close>.\<close>

definition processMessagesV1_iter ::
  "('l, 'w) SQS \<Rightarrow> 'w env \<Rightarrow> worker \<Rightarrow> 'w \<Rightarrow> worker \<times> event list \<times> 'w" where
  "processMessagesV1_iter s env wk w =
     (case initClient ''sqs SQS.processMessagesV1'' s env wk w of
        (None, wk1, ev1, w1) \<Rightarrow> (wk1, ev1, w1)
      | (Some svc, wk1, ev1, w1) \<Rightarrow>
          (let waitSeconds = 5; messageCount = 10;
               inp = ReceiveMessageInput (QueueUrl (config s)) messageCount waitSeconds;
               ev2 = ev1 @ [CallReceiveMessage svc inp (waitSeconds + 1)] in
           case ReceiveMessageWithContext env svc inp (waitSeconds + 1) w1 of
             (Inl e, w2) \<Rightarrow>
               (wk1,
                ev2 @ (if \<not> Contains e ''context deadline exceeded''
                       then [ErrorWithFields ''sqs SQS.processMessagesV1 receive message fail.''
                               [(''err'', FStr e)]]
                       else []), w2)
           | (Inr msgs, w2) \<Rightarrow>
               (if length msgs = 0 then (wk1, ev2, w2)
                else
                  (case handleMessagesV1 s env 0 msgs [] w2 of
                     (deleteEntries, ev3, w3) \<Rightarrow>
                       (case deleteMessages ''sqs SQS.processMessagesV1'' s env svc deleteEntries w3 of
                          (ev4, w4) \<Rightarrow>
                            (wk1,
                             ev2 @ [InfoWithFields ''sqs SQS.processMessagesV1 received messages''
                                      [(''len'', FInt (int (length msgs)))]] @ ev3 @ ev4,
                             w4))))))"

subsection \<open>The loops\<close>

text \<open>
  \<open>for { func() { ... }() }\<close> has no exit: neither function ever returns. The model runs
  the first \<open>n\<close> iterations and gives the worker's variables and the world after them,
  with the events of each iteration in turn.
\<close>

fun processMessages_loop ::
  "nat \<Rightarrow> ('l, 'w) SQS \<Rightarrow> 'w env \<Rightarrow> worker \<Rightarrow> 'w \<Rightarrow> worker \<times> event list list \<times> 'w" where
  "processMessages_loop 0 s env wk w = (wk, [], w)"
| "processMessages_loop (Suc n) s env wk w =
     (case processMessages_iter s env wk w of
        (wk1, ev, w1) \<Rightarrow>
          (case processMessages_loop n s env wk1 w1 of
             (wk2, evs, w2) \<Rightarrow> (wk2, ev # evs, w2)))"

fun processMessagesV1_loop ::
  "nat \<Rightarrow> ('l, 'w) SQS \<Rightarrow> 'w env \<Rightarrow> worker \<Rightarrow> 'w \<Rightarrow> worker \<times> event list list \<times> 'w" where
  "processMessagesV1_loop 0 s env wk w = (wk, [], w)"
| "processMessagesV1_loop (Suc n) s env wk w =
     (case processMessagesV1_iter s env wk w of
        (wk1, ev, w1) \<Rightarrow>
          (case processMessagesV1_loop n s env wk1 w1 of
             (wk2, evs, w2) \<Rightarrow> (wk2, ev # evs, w2)))"

text \<open>The variables as declared: \<open>var cfgSession *session.Session\<close>,
  \<open>var service *sqs.SQS\<close>, \<open>var err error\<close>, all nil.\<close>

definition worker0 :: worker where
  "worker0 = \<lparr>cfgSession = None, service = None, err = None\<rparr>"

text \<open>The two functions, for their first \<open>n\<close> iterations: the start line, then the loop.\<close>

definition processMessages ::
  "nat \<Rightarrow> ('l, 'w) SQS \<Rightarrow> 'w env \<Rightarrow> int \<Rightarrow> 'w \<Rightarrow> worker \<times> event list list \<times> 'w" where
  "processMessages n s env i w =
     (case processMessages_loop n s env worker0 w of
        (wk, evs, w1) \<Rightarrow>
          (wk, [Infof ''sqs SQS.processMessages start. task_id:%d'' [FInt i]] # evs, w1))"

definition processMessagesV1 ::
  "nat \<Rightarrow> ('l, 'w) SQS \<Rightarrow> 'w env \<Rightarrow> int \<Rightarrow> 'w \<Rightarrow> worker \<times> event list list \<times> 'w" where
  "processMessagesV1 n s env i w =
     (case processMessagesV1_loop n s env worker0 w of
        (wk, evs, w1) \<Rightarrow>
          (wk, [Infof ''sqs SQS.processMessagesV1 start. task_id:%d'' [FInt i]] # evs, w1))"

subsection \<open>Reading a list of events\<close>

text \<open>The inputs of the batch deletes among some events, in order.\<close>

fun deleteCalls :: "event list \<Rightarrow> DeleteMessageBatchInput list" where
  "deleteCalls [] = []"
| "deleteCalls (CallDeleteMessageBatch svc inp t # evs) = inp # deleteCalls evs"
| "deleteCalls (ev # evs) = deleteCalls evs"

text \<open>The arguments of the callback among some events, in order.\<close>

fun handlerCalls :: "event list \<Rightarrow> string list" where
  "handlerCalls [] = []"
| "handlerCalls (CallMessageCB p # evs) = p # handlerCalls evs"
| "handlerCalls (ev # evs) = handlerCalls evs"

text \<open>The bodies handed to the JSON decoder.\<close>

fun unmarshalCalls :: "event list \<Rightarrow> string list" where
  "unmarshalCalls [] = []"
| "unmarshalCalls (CallUnmarshal b # evs) = b # unmarshalCalls evs"
| "unmarshalCalls (ev # evs) = unmarshalCalls evs"

text \<open>The configurations of the sessions asked for, and the sessions a service was built
  from.\<close>

fun sessionCalls :: "event list \<Rightarrow> aws_Config list" where
  "sessionCalls [] = []"
| "sessionCalls (CallNewSession cfg # evs) = cfg # sessionCalls evs"
| "sessionCalls (ev # evs) = sessionCalls evs"

fun newCalls :: "event list \<Rightarrow> Session list" where
  "newCalls [] = []"
| "newCalls (CallNew ses # evs) = ses # newCalls evs"
| "newCalls (ev # evs) = newCalls evs"

text \<open>The services that the receives and the batch deletes were sent through.\<close>

fun servicesUsed :: "event list \<Rightarrow> Service list" where
  "servicesUsed [] = []"
| "servicesUsed (CallReceiveMessage svc inp t # evs) = svc # servicesUsed evs"
| "servicesUsed (CallDeleteMessageBatch svc inp t # evs) = svc # servicesUsed evs"
| "servicesUsed (ev # evs) = servicesUsed evs"

text \<open>The error lines.\<close>

fun errorLines :: "event list \<Rightarrow> string list" where
  "errorLines [] = []"
| "errorLines (ErrorWithFields l fs # evs) = l # errorLines evs"
| "errorLines (ev # evs) = errorLines evs"

text \<open>A message of the wrapped loop is poison when it has a body that does not decode.\<close>

definition poison :: "'w env \<Rightarrow> sqs_Message \<Rightarrow> bool" where
  "poison env msg = (case Body msg of None \<Rightarrow> False | Some body \<Rightarrow> isl (Unmarshal env body))"

subsection \<open>Test doubles\<close>

text \<open>
  A scripted queue service for running the loops on concrete inputs: the world holds the
  batches still to deliver, the entries deleted and the payloads the callback has seen.
\<close>

record scripted =
  inbox :: "sqs_Message list list"
  deleted :: "DeleteMessageBatchRequestEntry list"
  seen :: "string list"
  clock :: int

definition dq :: char where
  "dq = CHR 0x22"

text \<open>The JSON text \<open>{"Message":"p"}\<close>.\<close>

definition envelope :: "string \<Rightarrow> string" where
  "envelope p = ''{'' @ [dq] @ ''Message'' @ [dq] @ '':'' @ [dq] @ p @ [dq] @ ''}''"

text \<open>A decoder that knows three envelopes and rejects every other text.\<close>

definition stubUnmarshal :: "string \<Rightarrow> string + rawMessage" where
  "stubUnmarshal b =
     (case List.find (\<lambda>p. b = envelope p) [''first'', ''bad'', ''third''] of
        Some p \<Rightarrow> Inr \<lparr>Message = p, Timestamp = []\<rparr>
      | None \<Rightarrow> Inl ''invalid character'')"

text \<open>The service delivers the next batch of the inbox, and times out when there is none.
  \<open>stubEnv ok\<close> deletes when \<open>ok\<close> holds and fails every delete otherwise.\<close>

definition stubReceive ::
  "Service \<Rightarrow> ReceiveMessageInput \<Rightarrow> int \<Rightarrow> scripted \<Rightarrow> (string + sqs_Message list) \<times> scripted" where
  "stubReceive svc inp t w =
     (case inbox w of
        [] \<Rightarrow> (Inl ''RequestCanceled: request context canceled caused by: context deadline exceeded'',
               w\<lparr>clock := clock w + t * 1000000000\<rparr>)
      | b # bs \<Rightarrow> (Inr b, w\<lparr>inbox := bs\<rparr>))"

text \<open>A service that answers every receive with an empty batch after the wait.\<close>

definition emptyReceive ::
  "Service \<Rightarrow> ReceiveMessageInput \<Rightarrow> int \<Rightarrow> scripted \<Rightarrow> (string + sqs_Message list) \<times> scripted" where
  "emptyReceive svc inp t w = (Inr [], w\<lparr>clock := clock w + t * 1000000000\<rparr>)"

definition stubDelete ::
  "bool \<Rightarrow> Service \<Rightarrow> DeleteMessageBatchInput \<Rightarrow> int \<Rightarrow> scripted \<Rightarrow> string option \<times> scripted" where
  "stubDelete ok svc inp t w =
     (case inp of
        DeleteMessageBatchInput es url \<Rightarrow>
          (if ok then (None, w\<lparr>deleted := deleted w @ es\<rparr>)
           else (Some ''ServiceUnavailable'', w)))"

definition stubEnv :: "bool \<Rightarrow> scripted env" where
  "stubEnv ok =
     \<lparr>NewSession = (\<lambda>cfg w. (Inr (Session 7), w)),
      ReceiveMessageWithContext = stubReceive,
      DeleteMessageBatchWithContext = stubDelete ok,
      Unmarshal = stubUnmarshal,
      Now = clock\<rparr>"

text \<open>An environment in which no session can be built.\<close>

definition downEnv :: "scripted env" where
  "downEnv = (stubEnv True)\<lparr>NewSession := (\<lambda>cfg w. (Inl ''no region'', w))\<rparr>"

text \<open>An environment in which the first attempt to build a session fails and the later
  ones succeed.\<close>

definition flakyEnv :: "scripted env" where
  "flakyEnv =
     (stubEnv True)\<lparr>NewSession :=
        (\<lambda>cfg w. if clock w = 0 then (Inl ''no region'', w\<lparr>clock := 1\<rparr>)
                  else (Inr (Session 7), w))\<rparr>"

text \<open>A callback that records its payload and fails on \<open>bad\<close>.\<close>

definition stubCB :: "scripted MessageCB" where
  "stubCB p w =
     (if p = ''bad'' then (Some ''boom'', w\<lparr>seen := seen w @ [p]\<rparr>)
      else (None, w\<lparr>seen := seen w @ [p], clock := clock w + 2000000\<rparr>))"

definition stubConfig :: "int \<Rightarrow> SQSConfig" where
  "stubConfig n =
     \<lparr>ARN = ''arn:aws:sqs:q'', Region = ''eu-west-1'', APIKey = [], SecretKey = [],
      QueueUrl = ''https://q'', MessageGroupId = None, ConsumerCnt = n, ProducerCnt = 0\<rparr>"

definition stubSQS :: "scripted MessageCB option \<Rightarrow> (unit, scripted) SQS" where
  "stubSQS cb = \<lparr>config = stubConfig 1, logger = (), messageCB = cb\<rparr>"

definition msg :: "string \<Rightarrow> string \<Rightarrow> sqs_Message" where
  "msg i b = \<lparr>MessageId = Some i, ReceiptHandle = Some (''rh-'' @ i), Body = Some b\<rparr>"

definition wrappedBatch :: "sqs_Message list" where
  "wrappedBatch = [msg ''1'' (envelope ''first''), msg ''2'' (envelope ''bad''),
                   msg ''3'' (envelope ''third''), msg ''4'' ''not json'']"

definition rawBatch :: "sqs_Message list" where
  "rawBatch = [msg ''1'' ''first'', msg ''2'' ''bad'', msg ''3'' ''third'']"

definition scripted0 :: "sqs_Message list list \<Rightarrow> scripted" where
  "scripted0 bs = \<lparr>inbox = bs, deleted = [], seen = [], clock = 0\<rparr>"

section \<open>Properties\<close>

subsection \<open>Construction\<close>

lemma spawn_none: "cnt \<le> i \<Longrightarrow> spawn g i cnt = []"
  by simp

text \<open>
  C10. For every configuration whose \<open>ConsumerCnt\<close> is zero or negative, \<open>NewSQS\<close> and
  \<open>NewSQSV1\<close> start no goroutine and return the consumer built from their three
  arguments.
\<close>

theorem NewSQS_inert:
  assumes "ConsumerCnt sqsConfig \<le> 0"
  shows "NewSQS sqsConfig lg cb = (\<lparr>config = sqsConfig, logger = lg, messageCB = cb\<rparr>, [])
       \<and> NewSQSV1 sqsConfig lg cb = (\<lparr>config = sqsConfig, logger = lg, messageCB = cb\<rparr>, [])"
  using assms by (simp add: NewSQS_def NewSQSV1_def)

theorem NewSQS_inert_witness:
  "ConsumerCnt (stubConfig (- 3)) \<le> 0
   \<and> snd (NewSQS (stubConfig (- 3)) () (Some stubCB)) = []
   \<and> snd (NewSQSV1 (stubConfig (- 3)) () (Some stubCB)) = []
   \<and> config (fst (NewSQS (stubConfig (- 3)) () (Some stubCB))) = stubConfig (- 3)
   \<and> snd (NewSQS (stubConfig 0) () (Some stubCB)) = []
   \<and> snd (NewSQS (stubConfig 2) () (Some stubCB)) = [Go_processMessages 0, Go_processMessages 1]"
proof -
  have neg: "ConsumerCnt (stubConfig (- 3)) \<le> 0"
    by (simp add: stubConfig_def)
  have zero: "ConsumerCnt (stubConfig 0) \<le> 0"
    by (simp add: stubConfig_def)
  have two: "snd (NewSQS (stubConfig 2) () (Some stubCB)) = [Go_processMessages 0, Go_processMessages 1]"
    by (simp add: NewSQS_def stubConfig_def)
  from NewSQS_inert [OF neg, of "()" "Some stubCB"] NewSQS_inert [OF zero, of "()" "Some stubCB"] neg two
  show ?thesis by simp
qed

subsection \<open>The substring test\<close>

text \<open>\<open>Contains\<close> is the contiguous-sublist relation of the library, as \<open>strings.Contains\<close>
  is.\<close>

lemma Contains_sublist: "Contains s substr \<longleftrightarrow> sublist substr s"
  by (induction s) (auto simp: sublist_Cons_right)

subsection \<open>Lists of events and the two message loops\<close>

lemma deleteCalls_append: "deleteCalls (xs @ ys) = deleteCalls xs @ deleteCalls ys"
  by (induction xs rule: deleteCalls.induct) simp_all

lemma handlerCalls_append: "handlerCalls (xs @ ys) = handlerCalls xs @ handlerCalls ys"
  by (induction xs rule: handlerCalls.induct) simp_all

lemma unmarshalCalls_append: "unmarshalCalls (xs @ ys) = unmarshalCalls xs @ unmarshalCalls ys"
  by (induction xs rule: unmarshalCalls.induct) simp_all

lemma sessionCalls_append: "sessionCalls (xs @ ys) = sessionCalls xs @ sessionCalls ys"
  by (induction xs rule: sessionCalls.induct) simp_all

lemma newCalls_append: "newCalls (xs @ ys) = newCalls xs @ newCalls ys"
  by (induction xs rule: newCalls.induct) simp_all

lemma errorLines_append: "errorLines (xs @ ys) = errorLines xs @ errorLines ys"
  by (induction xs rule: errorLines.induct) simp_all

lemma handleMessage_acc:
  "handleMessage s env m d w =
     (case handleMessage s env m [] w of (d', ev, w') \<Rightarrow> (d @ d', ev, w'))"
  by (simp add: handleMessage_def Let_def split: option.splits sum.splits prod.splits)

lemma handleMessages_acc:
  "handleMessages s env msgs d w =
     (case handleMessages s env msgs [] w of (d', ev, w') \<Rightarrow> (d @ d', ev, w'))"
proof (induction msgs arbitrary: d w)
  case Nil
  show ?case by simp
next
  case (Cons m msgs)
  obtain d1 e1 w1 where m: "handleMessage s env m [] w = (d1, e1, w1)"
    by (cases "handleMessage s env m [] w") auto
  obtain d2 e2 w2 where r: "handleMessages s env msgs [] w1 = (d2, e2, w2)"
    by (cases "handleMessages s env msgs [] w1") auto
  have md: "handleMessage s env m d w = (d @ d1, e1, w1)"
    using handleMessage_acc [of s env m d w] m by simp
  have "handleMessages s env msgs (d @ d1) w1 = ((d @ d1) @ d2, e2, w2)"
    using Cons.IH [of "d @ d1" w1] r by simp
  moreover have "handleMessages s env msgs d1 w1 = (d1 @ d2, e2, w2)"
    using Cons.IH [of d1 w1] r by simp
  ultimately show ?case
    using m md by simp
qed

lemma handleMessages_append:
  "handleMessages s env (xs @ ys) d w =
     (case handleMessages s env xs d w of
        (d1, e1, w1) \<Rightarrow>
          (case handleMessages s env ys d1 w1 of (d2, e2, w2) \<Rightarrow> (d2, e1 @ e2, w2)))"
  by (induction xs arbitrary: d w) (auto split: prod.splits)

lemma handleMessageV1_acc:
  "handleMessageV1 s env i m d w =
     (case handleMessageV1 s env i m [] w of (d', ev, w') \<Rightarrow> (d @ d', ev, w'))"
  by (simp add: handleMessageV1_def Let_def split: option.splits sum.splits prod.splits)

lemma handleMessagesV1_acc:
  "handleMessagesV1 s env i msgs d w =
     (case handleMessagesV1 s env i msgs [] w of (d', ev, w') \<Rightarrow> (d @ d', ev, w'))"
proof (induction msgs arbitrary: i d w)
  case Nil
  show ?case by simp
next
  case (Cons m msgs)
  obtain d1 e1 w1 where m: "handleMessageV1 s env i m [] w = (d1, e1, w1)"
    by (cases "handleMessageV1 s env i m [] w") auto
  obtain d2 e2 w2 where r: "handleMessagesV1 s env (i + 1) msgs [] w1 = (d2, e2, w2)"
    by (cases "handleMessagesV1 s env (i + 1) msgs [] w1") auto
  have md: "handleMessageV1 s env i m d w = (d @ d1, e1, w1)"
    using handleMessageV1_acc [of s env i m d w] m by simp
  have "handleMessagesV1 s env (i + 1) msgs (d @ d1) w1 = ((d @ d1) @ d2, e2, w2)"
    using Cons.IH [of "i + 1" "d @ d1" w1] r by simp
  moreover have "handleMessagesV1 s env (i + 1) msgs d1 w1 = (d1 @ d2, e2, w2)"
    using Cons.IH [of "i + 1" d1 w1] r by simp
  ultimately show ?case
    using m md by simp
qed

lemma handleMessagesV1_append:
  "handleMessagesV1 s env i (xs @ ys) d w =
     (case handleMessagesV1 s env i xs d w of
        (d1, e1, w1) \<Rightarrow>
          (case handleMessagesV1 s env (i + int (length xs)) ys d1 w1 of
             (d2, e2, w2) \<Rightarrow> (d2, e1 @ e2, w2)))"
  by (induction xs arbitrary: i d w) (auto split: prod.splits simp: algebra_simps)

lemma handleMessage_entries:
  "handleMessage s env m d w = (d', ev, w') \<Longrightarrow> set d' \<subseteq> set d \<union> {entryOf m}"
  by (auto simp: handleMessage_def Let_def split: option.splits sum.splits prod.splits if_splits)

lemma handleMessages_entries:
  "handleMessages s env msgs d w = (d', ev, w') \<Longrightarrow> set d' \<subseteq> set d \<union> entryOf ` set msgs"
proof (induction msgs arbitrary: d w d' ev w')
  case Nil
  then show ?case by simp
next
  case (Cons m msgs)
  obtain d1 e1 w1 where m: "handleMessage s env m d w = (d1, e1, w1)"
    by (cases "handleMessage s env m d w") auto
  obtain d2 e2 w2 where r: "handleMessages s env msgs d1 w1 = (d2, e2, w2)"
    by (cases "handleMessages s env msgs d1 w1") auto
  from Cons.prems m r have "d' = d2" by simp
  with handleMessage_entries [OF m] Cons.IH [OF r] show ?case by auto
qed

lemma handleMessageV1_entries:
  "handleMessageV1 s env i m d w = (d', ev, w') \<Longrightarrow> set d' \<subseteq> set d \<union> {entryOf m}"
  by (auto simp: handleMessageV1_def Let_def split: option.splits sum.splits prod.splits if_splits)

lemma handleMessagesV1_entries:
  "handleMessagesV1 s env i msgs d w = (d', ev, w') \<Longrightarrow> set d' \<subseteq> set d \<union> entryOf ` set msgs"
proof (induction msgs arbitrary: i d w d' ev w')
  case Nil
  then show ?case by simp
next
  case (Cons m msgs)
  obtain d1 e1 w1 where m: "handleMessageV1 s env i m d w = (d1, e1, w1)"
    by (cases "handleMessageV1 s env i m d w") auto
  obtain d2 e2 w2 where r: "handleMessagesV1 s env (i + 1) msgs d1 w1 = (d2, e2, w2)"
    by (cases "handleMessagesV1 s env (i + 1) msgs d1 w1") auto
  from Cons.prems m r have "d' = d2" by simp
  with handleMessageV1_entries [OF m] Cons.IH [OF r] show ?case by auto
qed

lemma handleMessage_no_delete:
  "handleMessage s env m d w = (d', ev, w') \<Longrightarrow> deleteCalls ev = []"
  by (auto simp: handleMessage_def Let_def split: option.splits sum.splits prod.splits if_splits)

lemma handleMessages_no_delete:
  "handleMessages s env msgs d w = (d', ev, w') \<Longrightarrow> deleteCalls ev = []"
proof (induction msgs arbitrary: d w d' ev w')
  case Nil
  then show ?case by simp
next
  case (Cons m msgs)
  obtain d1 e1 w1 where m: "handleMessage s env m d w = (d1, e1, w1)"
    by (cases "handleMessage s env m d w") auto
  obtain d2 e2 w2 where r: "handleMessages s env msgs d1 w1 = (d2, e2, w2)"
    by (cases "handleMessages s env msgs d1 w1") auto
  from Cons.prems m r have "ev = e1 @ e2" by simp
  with handleMessage_no_delete [OF m] Cons.IH [OF r] show ?case
    by (simp add: deleteCalls_append)
qed

lemma handleMessageV1_no_delete:
  "handleMessageV1 s env i m d w = (d', ev, w') \<Longrightarrow> deleteCalls ev = []"
  by (auto simp: handleMessageV1_def Let_def split: option.splits sum.splits prod.splits if_splits)

lemma handleMessagesV1_no_delete:
  "handleMessagesV1 s env i msgs d w = (d', ev, w') \<Longrightarrow> deleteCalls ev = []"
proof (induction msgs arbitrary: i d w d' ev w')
  case Nil
  then show ?case by simp
next
  case (Cons m msgs)
  obtain d1 e1 w1 where m: "handleMessageV1 s env i m d w = (d1, e1, w1)"
    by (cases "handleMessageV1 s env i m d w") auto
  obtain d2 e2 w2 where r: "handleMessagesV1 s env (i + 1) msgs d1 w1 = (d2, e2, w2)"
    by (cases "handleMessagesV1 s env (i + 1) msgs d1 w1") auto
  from Cons.prems m r have "ev = e1 @ e2" by simp
  with handleMessageV1_no_delete [OF m] Cons.IH [OF r] show ?case
    by (simp add: deleteCalls_append)
qed

lemma initClient_no_delete:
  "initClient fname s env wk w = (r, wk1, ev1, w1) \<Longrightarrow> deleteCalls ev1 = []"
  by (auto simp: initClient_def initSession_def deleteCalls_append
           split: option.splits sum.splits prod.splits)

lemma deleteMessages_calls:
  "deleteMessages fname s env svc d w = (ev, w') \<Longrightarrow>
     deleteCalls ev = (if d = [] then [] else [DeleteMessageBatchInput d (QueueUrl (config s))])"
  by (auto simp: deleteMessages_def split: option.splits prod.splits if_splits)

lemma processMessages_iter_batch:
  assumes "initClient ''sqs SQS.processMessages'' s env wk w = (Some svc, wk1, ev1, w1)"
    and "ReceiveMessageWithContext env svc (ReceiveMessageInput (QueueUrl (config s)) 10 20) 21 w1
           = (Inr msgs, w2)"
    and "handleMessages s env msgs [] w2 = (d, ev3, w3)"
    and "deleteMessages ''sqs SQS.processMessages'' s env svc d w3 = (ev4, w4)"
  shows "processMessages_iter s env wk w =
           (wk1, ev1 @ [CallReceiveMessage svc (ReceiveMessageInput (QueueUrl (config s)) 10 20) 21]
                   @ ev3 @ ev4, w4)"
  using assms by (cases msgs) (auto simp: processMessages_iter_def deleteMessages_def)

lemma processMessagesV1_iter_batch:
  assumes "initClient ''sqs SQS.processMessagesV1'' s env wk w = (Some svc, wk1, ev1, w1)"
    and "ReceiveMessageWithContext env svc (ReceiveMessageInput (QueueUrl (config s)) 10 5) 6 w1
           = (Inr msgs, w2)"
    and "msgs \<noteq> []"
    and "handleMessagesV1 s env 0 msgs [] w2 = (d, ev3, w3)"
    and "deleteMessages ''sqs SQS.processMessagesV1'' s env svc d w3 = (ev4, w4)"
  shows "processMessagesV1_iter s env wk w =
           (wk1, ev1 @ [CallReceiveMessage svc (ReceiveMessageInput (QueueUrl (config s)) 10 5) 6,
                        InfoWithFields ''sqs SQS.processMessagesV1 received messages''
                          [(''len'', FInt (int (length msgs)))]]
                   @ ev3 @ ev4, w4)"
  using assms by (cases msgs) (auto simp: processMessagesV1_iter_def)

lemma handleMessages_split:
  assumes "handleMessages s env pre [] w = (d1, e1, w1)"
    and "handleMessage s env m d1 w1 = (dm, em, w2)"
    and "handleMessages s env post [] w2 = (d2, e2, w3)"
  shows "handleMessages s env (pre @ m # post) [] w = (dm @ d2, e1 @ em @ e2, w3)"
proof -
  have "handleMessages s env post dm w2 = (dm @ d2, e2, w3)"
    using handleMessages_acc [of s env post dm w2] assms(3) by simp
  then show ?thesis
    using assms(1,2) by (simp add: handleMessages_append)
qed

lemma handleMessagesV1_split:
  assumes "handleMessagesV1 s env 0 pre [] w = (d1, e1, w1)"
    and "handleMessageV1 s env (int (length pre)) m d1 w1 = (dm, em, w2)"
    and "handleMessagesV1 s env (int (length pre) + 1) post [] w2 = (d2, e2, w3)"
  shows "handleMessagesV1 s env 0 (pre @ m # post) [] w = (dm @ d2, e1 @ em @ e2, w3)"
proof -
  have "handleMessagesV1 s env (int (length pre) + 1) post dm w2 = (dm @ d2, e2, w3)"
    using handleMessagesV1_acc [of s env "int (length pre) + 1" post dm w2] assms(3) by simp
  then show ?thesis
    using assms(1,2) by (simp add: handleMessagesV1_append)
qed

lemma handleMessage_success:
  assumes "messageCB s = Some cb" and "Body m = Some body" and "Unmarshal env body = Inr raw"
    and "cb (Message raw) w = (None, w')"
  shows "handleMessage s env m d w =
           (d @ [entryOf m],
            [CallUnmarshal body, CallMessageCB (Message raw)] @
            (if Milliseconds_Since env (Now env w) w' > HandleTimeoutMS
             then [ErrorWithFields ''sqs SQS.processMessages handle msg cost.''
                     [(''sqsArn'', FStr (ARN (config s))),
                      (''cost'', FInt (Milliseconds_Since env (Now env w) w'))]]
             else []), w')"
  using assms by (simp add: handleMessage_def Let_def)

lemma handleMessageV1_success:
  assumes "messageCB s = Some cb" and "Body m = Some body"
    and "cb body w = (None, w')"
  shows "handleMessageV1 s env i m d w =
           (d @ [entryOf m],
            [InfoWithFields ''sqs SQS.processMessagesV1 handle message''
               [(''index'', FInt i), (''msg'', FMsg m)], CallMessageCB body] @
            (if Milliseconds_Since env (Now env w) w' > HandleTimeoutMS
             then [ErrorWithFields ''sqs SQS.processMessagesV1 handle msg cost.''
                     [(''sqsArn'', FStr (ARN (config s))),
                      (''cost'', FInt (Milliseconds_Since env (Now env w) w'))]]
             else []), w')"
  using assms by (simp add: handleMessageV1_def Let_def)

lemma handleMessage_failure:
  assumes "messageCB s = Some cb" and "Body m = Some body" and "Unmarshal env body = Inr raw"
    and "cb (Message raw) w = (Some e, w')"
  shows "handleMessage s env m d w =
           (d, [CallUnmarshal body, CallMessageCB (Message raw),
                ErrorWithFields ''sqs SQS.processMessages handle msg fail.''
                  [(''err'', FStr e), (''msg'', FStr (Message raw))]], w')"
  using assms by (simp add: handleMessage_def Let_def)

lemma handleMessageV1_failure:
  assumes "messageCB s = Some cb" and "Body m = Some body"
    and "cb body w = (Some e, w')"
  shows "handleMessageV1 s env i m d w =
           (d, [InfoWithFields ''sqs SQS.processMessagesV1 handle message''
                  [(''index'', FInt i), (''msg'', FMsg m)],
                CallMessageCB body,
                ErrorWithFields ''sqs SQS.processMessagesV1 handle msg fail.''
                  [(''err'', FStr e), (''msg'', FStr body)]], w')"
  using assms by (simp add: handleMessageV1_def Let_def)


lemma count_once:
  assumes "distinct (map f (pre @ m # post))"
    and "set d1 \<subseteq> f ` set pre" and "set d2 \<subseteq> f ` set post"
  shows "count_list (d1 @ f m # d2) (f m) = 1"
proof -
  from assms(1) have "f m \<notin> f ` set pre" and "f m \<notin> f ` set post"
    by auto
  with assms(2,3) have "f m \<notin> set d1" and "f m \<notin> set d2"
    by auto
  then show ?thesis
    by (simp add: count_list_0_iff)
qed

lemmas model_defs =
  processMessages_iter_def processMessagesV1_iter_def initClient_def initSession_def
  newConfig_def handleMessage_def handleMessageV1_def deleteMessages_def entryOf_def
  Milliseconds_Since_def HandleTimeoutMS_def signed_divide_int_def worker0_def Wrap_def

lemmas stub_defs =
  stubSQS_def stubEnv_def stubConfig_def stubReceive_def stubDelete_def stubUnmarshal_def
  stubCB_def envelope_def dq_def msg_def scripted0_def wrappedBatch_def rawBatch_def downEnv_def

text \<open>
  C2. In an iteration that receives the batch \<open>pre @ m # post\<close>, let \<open>m\<close> have a body and
  let the callback return an error when it is called for \<open>m\<close>. Then nothing is staged for
  \<open>m\<close>: the entries of the iteration are those staged for \<open>pre\<close> followed by those staged
  for \<open>post\<close> (so the entry of \<open>m\<close> is not among them when the entries of the batch are
  distinct), the failure is logged, and the messages of \<open>post\<close> are processed after it, from
  the world the failed call left, before the batch delete. This holds in both loops.
\<close>

theorem failed_message_not_deleted:
  assumes cb: "messageCB s = Some cb" and body: "Body m = Some body"
  shows
    "(initClient ''sqs SQS.processMessages'' s env wk w = (Some svc, wk1, ev1, w1) \<and>
      ReceiveMessageWithContext env svc (ReceiveMessageInput (QueueUrl (config s)) 10 20) 21 w1
        = (Inr (pre @ m # post), w2) \<and>
      handleMessages s env pre [] w2 = (d1, e1, w3) \<and>
      Unmarshal env body = Inr raw \<and>
      cb (Message raw) w3 = (Some e, w4) \<and>
      handleMessages s env post [] w4 = (d2, e2, w5) \<and>
      deleteMessages ''sqs SQS.processMessages'' s env svc (d1 @ d2) w5 = (ev4, w6)
      \<longrightarrow>
      processMessages_iter s env wk w
        = (wk1,
           ev1 @ [CallReceiveMessage svc (ReceiveMessageInput (QueueUrl (config s)) 10 20) 21]
             @ e1
             @ [CallUnmarshal body, CallMessageCB (Message raw),
                ErrorWithFields ''sqs SQS.processMessages handle msg fail.''
                  [(''err'', FStr e), (''msg'', FStr (Message raw))]]
             @ e2 @ ev4, w6) \<and>
      deleteCalls (fst (snd (processMessages_iter s env wk w)))
        = (if d1 @ d2 = [] then []
           else [DeleteMessageBatchInput (d1 @ d2) (QueueUrl (config s))]) \<and>
      (distinct (map entryOf (pre @ m # post)) \<longrightarrow> entryOf m \<notin> set (d1 @ d2)))
     \<and>
     (initClient ''sqs SQS.processMessagesV1'' s env wk w = (Some svc, wk1, ev1, w1) \<and>
      ReceiveMessageWithContext env svc (ReceiveMessageInput (QueueUrl (config s)) 10 5) 6 w1
        = (Inr (pre @ m # post), w2) \<and>
      handleMessagesV1 s env 0 pre [] w2 = (d1, e1, w3) \<and>
      cb body w3 = (Some e, w4) \<and>
      handleMessagesV1 s env (int (length pre) + 1) post [] w4 = (d2, e2, w5) \<and>
      deleteMessages ''sqs SQS.processMessagesV1'' s env svc (d1 @ d2) w5 = (ev4, w6)
      \<longrightarrow>
      processMessagesV1_iter s env wk w
        = (wk1,
           ev1 @ [CallReceiveMessage svc (ReceiveMessageInput (QueueUrl (config s)) 10 5) 6,
                  InfoWithFields ''sqs SQS.processMessagesV1 received messages''
                    [(''len'', FInt (int (length (pre @ m # post))))]]
             @ e1
             @ [InfoWithFields ''sqs SQS.processMessagesV1 handle message''
                  [(''index'', FInt (int (length pre))), (''msg'', FMsg m)],
                CallMessageCB body,
                ErrorWithFields ''sqs SQS.processMessagesV1 handle msg fail.''
                  [(''err'', FStr e), (''msg'', FStr body)]]
             @ e2 @ ev4, w6) \<and>
      deleteCalls (fst (snd (processMessagesV1_iter s env wk w)))
        = (if d1 @ d2 = [] then []
           else [DeleteMessageBatchInput (d1 @ d2) (QueueUrl (config s))]) \<and>
      (distinct (map entryOf (pre @ m # post)) \<longrightarrow> entryOf m \<notin> set (d1 @ d2)))"
proof (intro conjI impI; elim conjE)
  assume init: "initClient ''sqs SQS.processMessages'' s env wk w = (Some svc, wk1, ev1, w1)"
    and recv: "ReceiveMessageWithContext env svc (ReceiveMessageInput (QueueUrl (config s)) 10 20) 21 w1
        = (Inr (pre @ m # post), w2)"
    and pre: "handleMessages s env pre [] w2 = (d1, e1, w3)"
    and raw: "Unmarshal env body = Inr raw"
    and ko: "cb (Message raw) w3 = (Some e, w4)"
    and post: "handleMessages s env post [] w4 = (d2, e2, w5)"
    and del: "deleteMessages ''sqs SQS.processMessages'' s env svc (d1 @ d2) w5 = (ev4, w6)"
  let ?em = "[CallUnmarshal body, CallMessageCB (Message raw),
              ErrorWithFields ''sqs SQS.processMessages handle msg fail.''
                [(''err'', FStr e), (''msg'', FStr (Message raw))]]"
  have m: "handleMessage s env m d1 w3 = (d1, ?em, w4)"
    using handleMessage_failure [OF cb body raw ko] .
  have all: "handleMessages s env (pre @ m # post) [] w2 = (d1 @ d2, e1 @ ?em @ e2, w5)"
    using handleMessages_split [OF pre m post] .
  show iter: "processMessages_iter s env wk w
        = (wk1,
           ev1 @ [CallReceiveMessage svc (ReceiveMessageInput (QueueUrl (config s)) 10 20) 21]
             @ e1 @ ?em @ e2 @ ev4, w6)"
    using processMessages_iter_batch [OF init recv all del] by simp
  have "deleteCalls (e1 @ ?em @ e2) = []"
    using handleMessages_no_delete [OF all] .
  then show "deleteCalls (fst (snd (processMessages_iter s env wk w)))
        = (if d1 @ d2 = [] then []
           else [DeleteMessageBatchInput (d1 @ d2) (QueueUrl (config s))])"
    using iter initClient_no_delete [OF init] deleteMessages_calls [OF del]
    by (simp add: deleteCalls_append)
  assume "distinct (map entryOf (pre @ m # post))"
  then show "entryOf m \<notin> set (d1 @ d2)"
    using handleMessages_entries [OF pre] handleMessages_entries [OF post] by auto
next
  assume init: "initClient ''sqs SQS.processMessagesV1'' s env wk w = (Some svc, wk1, ev1, w1)"
    and recv: "ReceiveMessageWithContext env svc (ReceiveMessageInput (QueueUrl (config s)) 10 5) 6 w1
        = (Inr (pre @ m # post), w2)"
    and pre: "handleMessagesV1 s env 0 pre [] w2 = (d1, e1, w3)"
    and ko: "cb body w3 = (Some e, w4)"
    and post: "handleMessagesV1 s env (int (length pre) + 1) post [] w4 = (d2, e2, w5)"
    and del: "deleteMessages ''sqs SQS.processMessagesV1'' s env svc (d1 @ d2) w5 = (ev4, w6)"
  let ?em = "[InfoWithFields ''sqs SQS.processMessagesV1 handle message''
                [(''index'', FInt (int (length pre))), (''msg'', FMsg m)],
              CallMessageCB body,
              ErrorWithFields ''sqs SQS.processMessagesV1 handle msg fail.''
                [(''err'', FStr e), (''msg'', FStr body)]]"
  have m: "handleMessageV1 s env (int (length pre)) m d1 w3 = (d1, ?em, w4)"
    using handleMessageV1_failure [OF cb body ko] .
  have all: "handleMessagesV1 s env 0 (pre @ m # post) [] w2 = (d1 @ d2, e1 @ ?em @ e2, w5)"
    using handleMessagesV1_split [OF pre m post] .
  show iter: "processMessagesV1_iter s env wk w
        = (wk1,
           ev1 @ [CallReceiveMessage svc (ReceiveMessageInput (QueueUrl (config s)) 10 5) 6,
                  InfoWithFields ''sqs SQS.processMessagesV1 received messages''
                    [(''len'', FInt (int (length (pre @ m # post))))]]
             @ e1 @ ?em @ e2 @ ev4, w6)"
    using processMessagesV1_iter_batch [OF init recv _ all del] by simp
  have "deleteCalls (e1 @ ?em @ e2) = []"
    using handleMessagesV1_no_delete [OF all] .
  then show "deleteCalls (fst (snd (processMessagesV1_iter s env wk w)))
        = (if d1 @ d2 = [] then []
           else [DeleteMessageBatchInput (d1 @ d2) (QueueUrl (config s))])"
    using iter initClient_no_delete [OF init] deleteMessages_calls [OF del]
    by (simp add: deleteCalls_append)
  assume "distinct (map entryOf (pre @ m # post))"
  then show "entryOf m \<notin> set (d1 @ d2)"
    using handleMessagesV1_entries [OF pre] handleMessagesV1_entries [OF post] by auto
qed

theorem failed_message_not_deleted_witness:
  "messageCB (stubSQS (Some stubCB)) = Some stubCB
   \<and> Body (msg ''2'' (envelope ''bad'')) = Some (envelope ''bad'')
   \<and> Body (msg ''2'' ''bad'') = Some ''bad''
   \<and> deleteCalls (fst (snd (processMessages_iter (stubSQS (Some stubCB)) (stubEnv True) worker0
         (scripted0 [wrappedBatch]))))
       = [DeleteMessageBatchInput
            [entryOf (msg ''1'' (envelope ''first'')), entryOf (msg ''3'' (envelope ''third'')),
             entryOf (msg ''4'' ''not json'')] ''https://q'']
   \<and> handlerCalls (fst (snd (processMessages_iter (stubSQS (Some stubCB)) (stubEnv True) worker0
         (scripted0 [wrappedBatch]))))
       = [''first'', ''bad'', ''third'']
   \<and> deleteCalls (fst (snd (processMessagesV1_iter (stubSQS (Some stubCB)) (stubEnv True) worker0
         (scripted0 [rawBatch]))))
       = [DeleteMessageBatchInput
            [entryOf (msg ''1'' ''first''), entryOf (msg ''3'' ''third'')] ''https://q'']
   \<and> handlerCalls (fst (snd (processMessagesV1_iter (stubSQS (Some stubCB)) (stubEnv True) worker0
         (scripted0 [rawBatch]))))
       = [''first'', ''bad'', ''third'']
   \<and> distinct (map entryOf wrappedBatch)
   \<and> entryOf (msg ''2'' (envelope ''bad''))
       \<notin> set [entryOf (msg ''1'' (envelope ''first'')), entryOf (msg ''3'' (envelope ''third'')),
              entryOf (msg ''4'' ''not json'')]
   \<and> distinct (map entryOf rawBatch)
   \<and> entryOf (msg ''2'' ''bad'') \<notin> set [entryOf (msg ''1'' ''first''), entryOf (msg ''3'' ''third'')]"
proof -
  let ?s = "stubSQS (Some stubCB)"
  let ?env = "stubEnv True"
  let ?wk1 = "\<lparr>cfgSession = Some (Session 7), service = Some (New (Session 7)), err = None\<rparr>"
  let ?w3 = "\<lparr>inbox = [], deleted = [], seen = [''first''], clock = 2000000\<rparr>"
  let ?w4 = "\<lparr>inbox = [], deleted = [], seen = [''first'', ''bad''], clock = 2000000\<rparr>"
  let ?w5 = "\<lparr>inbox = [], deleted = [], seen = [''first'', ''bad'', ''third''], clock = 4000000\<rparr>"
  let ?wpost = "[msg ''3'' (envelope ''third''), msg ''4'' ''not json'']"
  let ?wd2 = "[entryOf (msg ''3'' (envelope ''third'')), entryOf (msg ''4'' ''not json'')]"
  let ?wd = "entryOf (msg ''1'' (envelope ''first'')) # ?wd2"
  let ?rd = "[entryOf (msg ''1'' ''first''), entryOf (msg ''3'' ''third'')]"
  have cb: "messageCB ?s = Some stubCB"
    by (simp add: stubSQS_def)
  have wbody: "Body (msg ''2'' (envelope ''bad'')) = Some (envelope ''bad'')"
    by (simp add: msg_def)
  have rbody: "Body (msg ''2'' ''bad'') = Some ''bad''"
    by (simp add: msg_def)
  have whyp:
    "initClient ''sqs SQS.processMessages'' ?s ?env worker0 (scripted0 [wrappedBatch])
       = (Some (New (Session 7)), ?wk1,
          [CallNewSession (aws_Config ''eu-west-1'' None),
           Info ''sqs SQS.processMessages session init success'', CallNew (Session 7)],
          scripted0 [wrappedBatch]) \<and>
     ReceiveMessageWithContext ?env (New (Session 7))
         (ReceiveMessageInput (QueueUrl (config ?s)) 10 20) 21 (scripted0 [wrappedBatch])
       = (Inr ([msg ''1'' (envelope ''first'')] @ msg ''2'' (envelope ''bad'') # ?wpost),
          scripted0 []) \<and>
     handleMessages ?s ?env [msg ''1'' (envelope ''first'')] [] (scripted0 [])
       = ([entryOf (msg ''1'' (envelope ''first''))],
          [CallUnmarshal (envelope ''first''), CallMessageCB ''first''], ?w3) \<and>
     Unmarshal ?env (envelope ''bad'') = Inr \<lparr>Message = ''bad'', Timestamp = []\<rparr> \<and>
     stubCB (Message \<lparr>Message = ''bad'', Timestamp = []\<rparr>) ?w3 = (Some ''boom'', ?w4) \<and>
     handleMessages ?s ?env ?wpost [] ?w4
       = (?wd2,
          [CallUnmarshal (envelope ''third''), CallMessageCB ''third'',
           CallUnmarshal ''not json'',
           ErrorWithFields ''sqs SQS.processMessages unmarshal raw message fail.''
             [(''err'', FStr ''invalid character''), (''msg'', FStr ''not json'')]], ?w5) \<and>
     deleteMessages ''sqs SQS.processMessages'' ?s ?env (New (Session 7))
         ([entryOf (msg ''1'' (envelope ''first''))] @ ?wd2) ?w5
       = ([CallDeleteMessageBatch (New (Session 7))
             (DeleteMessageBatchInput ?wd ''https://q'') 1],
          ?w5\<lparr>deleted := ?wd\<rparr>)"
    by (simp add: model_defs stub_defs)
  have rhyp:
    "initClient ''sqs SQS.processMessagesV1'' ?s ?env worker0 (scripted0 [rawBatch])
       = (Some (New (Session 7)), ?wk1,
          [CallNewSession (aws_Config ''eu-west-1'' None),
           Info ''sqs SQS.processMessagesV1 session init success'', CallNew (Session 7)],
          scripted0 [rawBatch]) \<and>
     ReceiveMessageWithContext ?env (New (Session 7))
         (ReceiveMessageInput (QueueUrl (config ?s)) 10 5) 6 (scripted0 [rawBatch])
       = (Inr ([msg ''1'' ''first''] @ msg ''2'' ''bad'' # [msg ''3'' ''third'']), scripted0 []) \<and>
     handleMessagesV1 ?s ?env 0 [msg ''1'' ''first''] [] (scripted0 [])
       = ([entryOf (msg ''1'' ''first'')],
          [InfoWithFields ''sqs SQS.processMessagesV1 handle message''
             [(''index'', FInt 0), (''msg'', FMsg (msg ''1'' ''first''))],
           CallMessageCB ''first''], ?w3) \<and>
     stubCB ''bad'' ?w3 = (Some ''boom'', ?w4) \<and>
     handleMessagesV1 ?s ?env (int (length [msg ''1'' ''first'']) + 1) [msg ''3'' ''third''] [] ?w4
       = ([entryOf (msg ''3'' ''third'')],
          [InfoWithFields ''sqs SQS.processMessagesV1 handle message''
             [(''index'', FInt 2), (''msg'', FMsg (msg ''3'' ''third''))],
           CallMessageCB ''third''], ?w5) \<and>
     deleteMessages ''sqs SQS.processMessagesV1'' ?s ?env (New (Session 7))
         ([entryOf (msg ''1'' ''first'')] @ [entryOf (msg ''3'' ''third'')]) ?w5
       = ([CallDeleteMessageBatch (New (Session 7))
             (DeleteMessageBatchInput ?rd ''https://q'') 1],
          ?w5\<lparr>deleted := ?rd\<rparr>)"
    by (simp add: model_defs stub_defs)
  have wdist: "distinct (map entryOf ([msg ''1'' (envelope ''first'')] @ msg ''2'' (envelope ''bad'') # ?wpost))"
    by (simp add: entryOf_def msg_def)
  have rdist: "distinct (map entryOf ([msg ''1'' ''first''] @ msg ''2'' ''bad'' # [msg ''3'' ''third'']))"
    by (simp add: entryOf_def msg_def)
  note w = failed_message_not_deleted [OF cb wbody, THEN conjunct1, rule_format, OF whyp]
  note r = failed_message_not_deleted [OF cb rbody, THEN conjunct2, rule_format, OF rhyp]
  note wnot = w [THEN conjunct2, THEN conjunct2, rule_format, OF wdist]
  note rnot = r [THEN conjunct2, THEN conjunct2, rule_format, OF rdist]
  from w r wnot rnot wdist rdist cb wbody rbody show ?thesis
    by (simp add: wrappedBatch_def rawBatch_def stubSQS_def stubConfig_def)
qed



lemma handleMessages_nil:
  assumes "messageCB s = None"
  shows "fst (handleMessages s env msgs d w) = d @ map entryOf (filter (poison env) msgs)
       \<and> handlerCalls (fst (snd (handleMessages s env msgs d w))) = []
       \<and> snd (snd (handleMessages s env msgs d w)) = w"
  using assms
  by (induction msgs arbitrary: d)
     (auto simp: handleMessage_def poison_def handlerCalls_append case_prod_beta
           split: option.splits sum.splits)

lemma handleMessagesV1_nil:
  assumes "messageCB s = None"
  shows "fst (handleMessagesV1 s env i msgs d w) = d
       \<and> handlerCalls (fst (snd (handleMessagesV1 s env i msgs d w))) = []
       \<and> snd (snd (handleMessagesV1 s env i msgs d w)) = w"
  using assms
  by (induction msgs arbitrary: i d)
     (auto simp: handleMessageV1_def handlerCalls_append case_prod_beta
           split: option.splits sum.splits)

lemma initClient_no_handler:
  "initClient fname s env wk w = (r, wk1, ev1, w1) \<Longrightarrow> handlerCalls ev1 = []"
  by (auto simp: initClient_def initSession_def handlerCalls_append
           split: option.splits sum.splits prod.splits)

lemma deleteMessages_no_handler:
  "deleteMessages fname s env svc d w = (ev, w') \<Longrightarrow> handlerCalls ev = []"
  by (auto simp: deleteMessages_def split: option.splits prod.splits if_splits)

lemma processMessagesV1_iter_nil:
  assumes "messageCB s = None"
  shows "deleteCalls (fst (snd (processMessagesV1_iter s env wk w))) = []
       \<and> handlerCalls (fst (snd (processMessagesV1_iter s env wk w))) = []"
proof (cases "initClient ''sqs SQS.processMessagesV1'' s env wk w")
  case (fields r wk1 ev1 w1)
  note init = this
  show ?thesis
  proof (cases r)
    case None
    with init initClient_no_delete [OF init] initClient_no_handler [OF init] show ?thesis
      by (simp add: processMessagesV1_iter_def)
  next
    case (Some svc)
    obtain res w2 where recv:
      "ReceiveMessageWithContext env svc (ReceiveMessageInput (QueueUrl (config s)) 10 5) 6 w1
         = (res, w2)"
      by (cases "ReceiveMessageWithContext env svc (ReceiveMessageInput (QueueUrl (config s)) 10 5) 6 w1")
    show ?thesis
    proof (cases res)
      case (Inl e)
      with init Some recv initClient_no_delete [OF init] initClient_no_handler [OF init]
      show ?thesis
        by (simp add: processMessagesV1_iter_def deleteCalls_append handlerCalls_append)
    next
      case (Inr msgs)
      obtain d ev3 w3 where loop: "handleMessagesV1 s env 0 msgs [] w2 = (d, ev3, w3)"
        by (cases "handleMessagesV1 s env 0 msgs [] w2")
      from handleMessagesV1_nil [OF assms, of env 0 msgs "[]" w2] loop
      have d: "d = []" and h3: "handlerCalls ev3 = []" by simp_all
      from init Some recv Inr loop d h3 initClient_no_delete [OF init]
        initClient_no_handler [OF init] handleMessagesV1_no_delete [OF loop]
      show ?thesis
        by (simp add: processMessagesV1_iter_def deleteMessages_def deleteCalls_append
             handlerCalls_append Let_def)
    qed
  qed
qed

lemma processMessagesV1_loop_nil:
  assumes "messageCB s = None"
  shows "deleteCalls (concat (fst (snd (processMessagesV1_loop n s env wk w)))) = []
       \<and> handlerCalls (concat (fst (snd (processMessagesV1_loop n s env wk w)))) = []"
proof (induction n arbitrary: wk w)
  case 0
  show ?case by simp
next
  case (Suc n)
  obtain wk1 ev w1 where it: "processMessagesV1_iter s env wk w = (wk1, ev, w1)"
    by (cases "processMessagesV1_iter s env wk w")
  with processMessagesV1_iter_nil [OF assms, of env wk w] Suc.IH [of wk1 w1] show ?case
    by (simp add: deleteCalls_append handlerCalls_append case_prod_beta)
qed

lemma processMessages_iter_nil:
  assumes "messageCB s = None"
  shows "handlerCalls (fst (snd (processMessages_iter s env wk w))) = []"
proof (cases "initClient ''sqs SQS.processMessages'' s env wk w")
  case (fields r wk1 ev1 w1)
  note init = this
  show ?thesis
  proof (cases r)
    case None
    with init initClient_no_handler [OF init] show ?thesis
      by (simp add: processMessages_iter_def)
  next
    case (Some svc)
    obtain res w2 where recv:
      "ReceiveMessageWithContext env svc (ReceiveMessageInput (QueueUrl (config s)) 10 20) 21 w1
         = (res, w2)"
      by (cases "ReceiveMessageWithContext env svc (ReceiveMessageInput (QueueUrl (config s)) 10 20) 21 w1")
    show ?thesis
    proof (cases res)
      case (Inl e)
      with init Some recv initClient_no_handler [OF init]
      show ?thesis
        by (simp add: processMessages_iter_def handlerCalls_append)
    next
      case (Inr msgs)
      obtain d ev3 w3 where loop: "handleMessages s env msgs [] w2 = (d, ev3, w3)"
        by (cases "handleMessages s env msgs [] w2")
      obtain ev4 w4 where del: "deleteMessages ''sqs SQS.processMessages'' s env svc d w3 = (ev4, w4)"
        by (cases "deleteMessages ''sqs SQS.processMessages'' s env svc d w3")
      from handleMessages_nil [OF assms, of env msgs "[]" w2] loop
      have h3: "handlerCalls ev3 = []" by simp
      from init Some recv Inr h3 initClient_no_handler [OF init] deleteMessages_no_handler [OF del]
        processMessages_iter_batch [OF _ _ loop del, of wk w wk1 ev1 w1]
      show ?thesis
        by (simp add: handlerCalls_append)
    qed
  qed
qed

lemma processMessages_loop_nil:
  assumes "messageCB s = None"
  shows "handlerCalls (concat (fst (snd (processMessages_loop n s env wk w)))) = []"
proof (induction n arbitrary: wk w)
  case 0
  show ?case by simp
next
  case (Suc n)
  obtain wk1 ev w1 where it: "processMessages_iter s env wk w = (wk1, ev, w1)"
    by (cases "processMessages_iter s env wk w")
  with processMessages_iter_nil [OF assms, of env wk w] Suc.IH [of wk1 w1] show ?case
    by (simp add: handlerCalls_append case_prod_beta)
qed

text \<open>
  C4 as the specification states it fails in \<open>processMessages\<close>: with a nil callback and a
  batch that holds a message whose body is not JSON, the iteration stages the entry of that
  message and sends it to the batch delete, and the service has deleted it afterwards.
\<close>

theorem nil_callback_counterexample:
  "messageCB (stubSQS None) = None
   \<and> deleteCalls (fst (snd (processMessages_iter (stubSQS None) (stubEnv True) worker0
         (scripted0 [wrappedBatch]))))
       = [DeleteMessageBatchInput [entryOf (msg ''4'' ''not json'')] ''https://q'']
   \<and> deleted (snd (snd (processMessages_iter (stubSQS None) (stubEnv True) worker0
         (scripted0 [wrappedBatch]))))
       = [entryOf (msg ''4'' ''not json'')]"
  by (simp add: model_defs stub_defs)

lemma handleMessagesV1_handler:
  assumes "messageCB s = Some cb"
  shows "handlerCalls (fst (snd (handleMessagesV1 s env i msgs d w))) = List.map_filter Body msgs"
  using assms
  by (induction msgs arbitrary: i d w)
     (auto simp: handleMessageV1_def handlerCalls_append case_prod_beta Let_def map_filter_simps
           split: option.splits)

lemma handleMessagesV1_no_unmarshal:
  "unmarshalCalls (fst (snd (handleMessagesV1 s env i msgs d w))) = []"
  by (induction msgs arbitrary: i d w)
     (auto simp: handleMessageV1_def unmarshalCalls_append case_prod_beta Let_def
           split: option.splits)

lemma initClient_no_unmarshal:
  "initClient fname s env wk w = (r, wk1, ev1, w1) \<Longrightarrow> unmarshalCalls ev1 = []"
  by (auto simp: initClient_def initSession_def unmarshalCalls_append
           split: option.splits sum.splits prod.splits)

lemma deleteMessages_no_unmarshal:
  "deleteMessages fname s env svc d w = (ev, w') \<Longrightarrow> unmarshalCalls ev = []"
  by (auto simp: deleteMessages_def split: option.splits prod.splits if_splits)

lemma processMessagesV1_iter_no_unmarshal:
  "unmarshalCalls (fst (snd (processMessagesV1_iter s env wk w))) = []"
proof (cases "initClient ''sqs SQS.processMessagesV1'' s env wk w")
  case (fields r wk1 ev1 w1)
  note init = this
  show ?thesis
  proof (cases r)
    case None
    with init initClient_no_unmarshal [OF init] show ?thesis
      by (simp add: processMessagesV1_iter_def)
  next
    case (Some svc)
    obtain res w2 where recv:
      "ReceiveMessageWithContext env svc (ReceiveMessageInput (QueueUrl (config s)) 10 5) 6 w1
         = (res, w2)"
      by (cases "ReceiveMessageWithContext env svc (ReceiveMessageInput (QueueUrl (config s)) 10 5) 6 w1")
    show ?thesis
    proof (cases res)
      case (Inl e)
      with init Some recv initClient_no_unmarshal [OF init]
      show ?thesis
        by (simp add: processMessagesV1_iter_def unmarshalCalls_append)
    next
      case (Inr msgs)
      obtain d ev3 w3 where loop: "handleMessagesV1 s env 0 msgs [] w2 = (d, ev3, w3)"
        by (cases "handleMessagesV1 s env 0 msgs [] w2")
      obtain ev4 w4 where del:
        "deleteMessages ''sqs SQS.processMessagesV1'' s env svc d w3 = (ev4, w4)"
        by (cases "deleteMessages ''sqs SQS.processMessagesV1'' s env svc d w3")
      from handleMessagesV1_no_unmarshal [of s env 0 msgs "[]" w2] loop
      have u3: "unmarshalCalls ev3 = []" by simp
      from init Some recv Inr loop del u3 initClient_no_unmarshal [OF init]
        deleteMessages_no_unmarshal [OF del]
      show ?thesis
        by (simp add: processMessagesV1_iter_def unmarshalCalls_append Let_def)
    qed
  qed
qed

lemma handleMessageV1_decoder:
  "handleMessageV1 s (env\<lparr>Unmarshal := u\<rparr>) i m d w = handleMessageV1 s env i m d w"
  by (simp add: handleMessageV1_def Milliseconds_Since_def Let_def
        split: option.splits prod.splits)

lemma handleMessagesV1_decoder:
  "handleMessagesV1 s (env\<lparr>Unmarshal := u\<rparr>) i msgs d w = handleMessagesV1 s env i msgs d w"
  by (induction msgs arbitrary: i d w) (simp_all add: handleMessageV1_decoder)

lemma processMessagesV1_iter_decoder:
  "processMessagesV1_iter s (env\<lparr>Unmarshal := u\<rparr>) wk w = processMessagesV1_iter s env wk w"
  by (simp add: processMessagesV1_iter_def initClient_def initSession_def deleteMessages_def
        handleMessagesV1_decoder Let_def
        cong: option.case_cong prod.case_cong sum.case_cong if_cong)

lemma processMessagesV1_loop_decoder:
  "processMessagesV1_loop n s (env\<lparr>Unmarshal := u\<rparr>) wk w = processMessagesV1_loop n s env wk w"
  by (induction n arbitrary: wk w) (simp_all add: processMessagesV1_iter_decoder)

lemma processMessagesV1_loop_no_unmarshal:
  "unmarshalCalls (concat (fst (snd (processMessagesV1_loop n s env wk w)))) = []"
proof (induction n arbitrary: wk w)
  case 0
  show ?case by simp
next
  case (Suc n)
  obtain wk1 ev w1 where it: "processMessagesV1_iter s env wk w = (wk1, ev, w1)"
    by (cases "processMessagesV1_iter s env wk w")
  with processMessagesV1_iter_no_unmarshal [of s env wk w] Suc.IH [of wk1 w1] show ?case
    by (simp add: unmarshalCalls_append case_prod_beta)
qed

lemma initClient_receiver:
  "initClient fname s (env\<lparr>ReceiveMessageWithContext := r\<rparr>) wk w = initClient fname s env wk w"
  by (simp add: initClient_def initSession_def cong: option.case_cong)

lemma initClient_ready_no_error:
  "initClient fname s env wk w = (Some svc, wk1, ev1, w1) \<Longrightarrow> errorLines ev1 = []"
  by (auto simp: initClient_def initSession_def errorLines_append
           split: option.splits sum.splits prod.splits)

text \<open>
  C6. In \<open>processMessagesV1\<close>, a receive error whose text contains
  \<open>context deadline exceeded\<close> logs nothing and ends the iteration with the events, the
  worker and the world of an iteration whose receive returned no message: the result is
  the same when the service answers with an empty batch instead. \<open>processMessages\<close> does
  not look at the text: every receive error \<open>e'\<close>, that one included, is logged as
  \<open>receive message fail\<close> and ends the iteration.
\<close>

theorem deadline_quiet_in_V1_only:
  assumes deadline: "Contains e ''context deadline exceeded''"
  shows
    "(initClient ''sqs SQS.processMessagesV1'' s env wk w = (Some svc, wk1, ev1, w1) \<and>
      ReceiveMessageWithContext env svc (ReceiveMessageInput (QueueUrl (config s)) 10 5) 6 w1
        = (Inl e, w2) \<and>
      r svc (ReceiveMessageInput (QueueUrl (config s)) 10 5) 6 w1 = (Inr [], w2)
      \<longrightarrow>
      processMessagesV1_iter s env wk w
        = (wk1, ev1 @ [CallReceiveMessage svc (ReceiveMessageInput (QueueUrl (config s)) 10 5) 6],
           w2) \<and>
      processMessagesV1_iter s (env\<lparr>ReceiveMessageWithContext := r\<rparr>) wk w
        = processMessagesV1_iter s env wk w \<and>
      errorLines (fst (snd (processMessagesV1_iter s env wk w))) = [])
     \<and>
     (initClient ''sqs SQS.processMessages'' s env wk w = (Some svc, wk1, ev1, w1) \<and>
      ReceiveMessageWithContext env svc (ReceiveMessageInput (QueueUrl (config s)) 10 20) 21 w1
        = (Inl e', w2)
      \<longrightarrow>
      processMessages_iter s env wk w
        = (wk1,
           ev1 @ [CallReceiveMessage svc (ReceiveMessageInput (QueueUrl (config s)) 10 20) 21,
                  ErrorWithFields ''sqs SQS.processMessages receive message fail.''
                    [(''err'', FStr e')]], w2) \<and>
      errorLines (fst (snd (processMessages_iter s env wk w)))
        = [''sqs SQS.processMessages receive message fail.''])"
proof (intro conjI impI; elim conjE)
  assume init: "initClient ''sqs SQS.processMessagesV1'' s env wk w = (Some svc, wk1, ev1, w1)"
    and recv: "ReceiveMessageWithContext env svc (ReceiveMessageInput (QueueUrl (config s)) 10 5) 6 w1
        = (Inl e, w2)"
    and empty: "r svc (ReceiveMessageInput (QueueUrl (config s)) 10 5) 6 w1 = (Inr [], w2)"
  show quiet: "processMessagesV1_iter s env wk w
        = (wk1, ev1 @ [CallReceiveMessage svc (ReceiveMessageInput (QueueUrl (config s)) 10 5) 6],
           w2)"
    using init recv deadline by (simp add: processMessagesV1_iter_def)
  have "processMessagesV1_iter s (env\<lparr>ReceiveMessageWithContext := r\<rparr>) wk w
        = (wk1, ev1 @ [CallReceiveMessage svc (ReceiveMessageInput (QueueUrl (config s)) 10 5) 6],
           w2)"
    using init empty by (simp add: processMessagesV1_iter_def initClient_receiver)
  with quiet show "processMessagesV1_iter s (env\<lparr>ReceiveMessageWithContext := r\<rparr>) wk w
        = processMessagesV1_iter s env wk w"
    by simp
  show "errorLines (fst (snd (processMessagesV1_iter s env wk w))) = []"
    using quiet initClient_ready_no_error [OF init] by (simp add: errorLines_append)
next
  assume init: "initClient ''sqs SQS.processMessages'' s env wk w = (Some svc, wk1, ev1, w1)"
    and recv: "ReceiveMessageWithContext env svc (ReceiveMessageInput (QueueUrl (config s)) 10 20) 21 w1
        = (Inl e', w2)"
  show loud: "processMessages_iter s env wk w
        = (wk1,
           ev1 @ [CallReceiveMessage svc (ReceiveMessageInput (QueueUrl (config s)) 10 20) 21,
                  ErrorWithFields ''sqs SQS.processMessages receive message fail.''
                    [(''err'', FStr e')]], w2)"
    using init recv by (simp add: processMessages_iter_def)
  show "errorLines (fst (snd (processMessages_iter s env wk w)))
        = [''sqs SQS.processMessages receive message fail.'']"
    using loud initClient_ready_no_error [OF init] by (simp add: errorLines_append)
qed

theorem deadline_quiet_in_V1_only_witness:
  "Contains ''RequestCanceled: request context canceled caused by: context deadline exceeded''
     ''context deadline exceeded''
   \<and> processMessagesV1_iter (stubSQS (Some stubCB)) (stubEnv True) worker0 (scripted0 [])
       = processMessagesV1_iter (stubSQS (Some stubCB))
           ((stubEnv True)\<lparr>ReceiveMessageWithContext := emptyReceive\<rparr>)
           worker0 (scripted0 [])
   \<and> errorLines (fst (snd (processMessagesV1_iter (stubSQS (Some stubCB)) (stubEnv True) worker0
         (scripted0 [])))) = []
   \<and> errorLines (fst (snd (processMessages_iter (stubSQS (Some stubCB)) (stubEnv True) worker0
         (scripted0 [])))) = [''sqs SQS.processMessages receive message fail.'']"
proof -
  let ?s = "stubSQS (Some stubCB)"
  let ?env = "stubEnv True"
  let ?e = "''RequestCanceled: request context canceled caused by: context deadline exceeded''"
  let ?wk1 = "\<lparr>cfgSession = Some (Session 7), service = Some (New (Session 7)), err = None\<rparr>"
  have deadline: "Contains ?e ''context deadline exceeded''"
    by simp
  have rhyp:
    "initClient ''sqs SQS.processMessagesV1'' ?s ?env worker0 (scripted0 [])
       = (Some (New (Session 7)), ?wk1,
          [CallNewSession (aws_Config ''eu-west-1'' None),
           Info ''sqs SQS.processMessagesV1 session init success'', CallNew (Session 7)],
          scripted0 []) \<and>
     ReceiveMessageWithContext ?env (New (Session 7))
         (ReceiveMessageInput (QueueUrl (config ?s)) 10 5) 6 (scripted0 [])
       = (Inl ?e, (scripted0 [])\<lparr>clock := 6000000000\<rparr>) \<and>
     emptyReceive (New (Session 7)) (ReceiveMessageInput (QueueUrl (config ?s)) 10 5) 6 (scripted0 [])
       = (Inr [], (scripted0 [])\<lparr>clock := 6000000000\<rparr>)"
    by (simp add: model_defs stub_defs emptyReceive_def)
  have whyp:
    "initClient ''sqs SQS.processMessages'' ?s ?env worker0 (scripted0 [])
       = (Some (New (Session 7)), ?wk1,
          [CallNewSession (aws_Config ''eu-west-1'' None),
           Info ''sqs SQS.processMessages session init success'', CallNew (Session 7)],
          scripted0 []) \<and>
     ReceiveMessageWithContext ?env (New (Session 7))
         (ReceiveMessageInput (QueueUrl (config ?s)) 10 20) 21 (scripted0 [])
       = (Inl ?e, (scripted0 [])\<lparr>clock := 21000000000\<rparr>)"
    by (simp add: model_defs stub_defs)
  note r = deadline_quiet_in_V1_only [where r = emptyReceive, OF deadline, THEN conjunct1,
      rule_format, OF rhyp]
  note w = deadline_quiet_in_V1_only [OF deadline, THEN conjunct2, rule_format, OF whyp]
  from deadline r w show ?thesis
    by simp
qed

lemma deleteMessages_failure:
  assumes "d \<noteq> []"
    and "DeleteMessageBatchWithContext env svc (DeleteMessageBatchInput d (QueueUrl (config s))) 1 w
           = (Some e, w')"
  shows "deleteMessages fname s env svc d w
           = ([CallDeleteMessageBatch svc (DeleteMessageBatchInput d (QueueUrl (config s))) 1,
               ErrorWithFields (fname @ '' delete message fail.'') [(''error'', FStr e)]], w')"
  using assms by (simp add: deleteMessages_def)

lemma processMessages_iter_entries:
  assumes init: "initClient ''sqs SQS.processMessages'' s env wk w = (Some svc, wk1, ev1, w1)"
    and recv: "ReceiveMessageWithContext env svc (ReceiveMessageInput (QueueUrl (config s)) 10 20) 21 w1
      = (Inr msgs, w2)"
    and call: "DeleteMessageBatchInput es url \<in> set (deleteCalls (fst (snd (processMessages_iter s env wk w))))"
  shows "set es \<subseteq> entryOf ` set msgs"
proof -
  obtain d ev3 w3 where loop: "handleMessages s env msgs [] w2 = (d, ev3, w3)"
    by (cases "handleMessages s env msgs [] w2")
  obtain ev4 w4 where del: "deleteMessages ''sqs SQS.processMessages'' s env svc d w3 = (ev4, w4)"
    by (cases "deleteMessages ''sqs SQS.processMessages'' s env svc d w3")
  have "deleteCalls (fst (snd (processMessages_iter s env wk w)))
      = (if d = [] then [] else [DeleteMessageBatchInput d (QueueUrl (config s))])"
    using processMessages_iter_batch [OF init recv loop del] initClient_no_delete [OF init]
      handleMessages_no_delete [OF loop] deleteMessages_calls [OF del]
    by (simp add: deleteCalls_append)
  with call have "es = d"
    by (simp split: if_splits)
  with handleMessages_entries [OF loop] show ?thesis by simp
qed

lemma processMessagesV1_iter_entries:
  assumes init: "initClient ''sqs SQS.processMessagesV1'' s env wk w = (Some svc, wk1, ev1, w1)"
    and recv: "ReceiveMessageWithContext env svc (ReceiveMessageInput (QueueUrl (config s)) 10 5) 6 w1
      = (Inr msgs, w2)"
    and call: "DeleteMessageBatchInput es url \<in> set (deleteCalls (fst (snd (processMessagesV1_iter s env wk w))))"
  shows "set es \<subseteq> entryOf ` set msgs"
proof (cases "msgs = []")
  case True
  with init recv call initClient_no_delete [OF init] show ?thesis
    by (simp add: processMessagesV1_iter_def deleteCalls_append)
next
  case False
  obtain d ev3 w3 where loop: "handleMessagesV1 s env 0 msgs [] w2 = (d, ev3, w3)"
    by (cases "handleMessagesV1 s env 0 msgs [] w2")
  obtain ev4 w4 where del: "deleteMessages ''sqs SQS.processMessagesV1'' s env svc d w3 = (ev4, w4)"
    by (cases "deleteMessages ''sqs SQS.processMessagesV1'' s env svc d w3")
  have "deleteCalls (fst (snd (processMessagesV1_iter s env wk w)))
      = (if d = [] then [] else [DeleteMessageBatchInput d (QueueUrl (config s))])"
    using processMessagesV1_iter_batch [OF init recv False loop del] initClient_no_delete [OF init]
      handleMessagesV1_no_delete [OF loop] deleteMessages_calls [OF del]
    by (simp add: deleteCalls_append)
  with call have "es = d"
    by (simp split: if_splits)
  with handleMessagesV1_entries [OF loop] show ?thesis by simp
qed

text \<open>
  C8. Let the batch delete of an iteration fail. Then the iteration logs the failure and
  returns like any other, with the worker's variables as the client set-up left them: they
  are the session, the service and the outer error, and hold no entry. The loop goes on
  with the next iteration from these variables and the world after the failed call. No
  iteration, from whatever variables and world it starts, deletes an entry that is not the
  entry of a message of the batch it has itself received, so the entries of the failed
  delete come back only if the service delivers their messages again. Both loops.
\<close>

theorem delete_failure_not_retried:
  "(initClient ''sqs SQS.processMessages'' s env wk w = (Some svc, wk1, ev1, w1) \<and>
    ReceiveMessageWithContext env svc (ReceiveMessageInput (QueueUrl (config s)) 10 20) 21 w1
      = (Inr msgs, w2) \<and>
    handleMessages s env msgs [] w2 = (d, ev3, w3) \<and> d \<noteq> [] \<and>
    DeleteMessageBatchWithContext env svc (DeleteMessageBatchInput d (QueueUrl (config s))) 1 w3
      = (Some e, w4)
    \<longrightarrow>
    processMessages_iter s env wk w
      = (wk1,
         ev1 @ [CallReceiveMessage svc (ReceiveMessageInput (QueueUrl (config s)) 10 20) 21]
           @ ev3
           @ [CallDeleteMessageBatch svc (DeleteMessageBatchInput d (QueueUrl (config s))) 1,
              ErrorWithFields ''sqs SQS.processMessages delete message fail.''
                [(''error'', FStr e)]], w4) \<and>
    processMessages_loop (Suc n) s env wk w
      = (case processMessages_loop n s env wk1 w4 of
           (wk2, evs, w5) \<Rightarrow> (wk2, fst (snd (processMessages_iter s env wk w)) # evs, w5)))
   \<and>
   (initClient ''sqs SQS.processMessages'' s env wk' w' = (Some svc', wk1', ev1', w1') \<and>
    ReceiveMessageWithContext env svc' (ReceiveMessageInput (QueueUrl (config s)) 10 20) 21 w1'
      = (Inr msgs', w2') \<and>
    DeleteMessageBatchInput es url \<in> set (deleteCalls (fst (snd (processMessages_iter s env wk' w'))))
    \<longrightarrow> set es \<subseteq> entryOf ` set msgs')
   \<and>
   (initClient ''sqs SQS.processMessagesV1'' s env wk w = (Some svc, wk1, ev1, w1) \<and>
    ReceiveMessageWithContext env svc (ReceiveMessageInput (QueueUrl (config s)) 10 5) 6 w1
      = (Inr msgs, w2) \<and>
    handleMessagesV1 s env 0 msgs [] w2 = (d, ev3, w3) \<and> d \<noteq> [] \<and>
    DeleteMessageBatchWithContext env svc (DeleteMessageBatchInput d (QueueUrl (config s))) 1 w3
      = (Some e, w4)
    \<longrightarrow>
    processMessagesV1_iter s env wk w
      = (wk1,
         ev1 @ [CallReceiveMessage svc (ReceiveMessageInput (QueueUrl (config s)) 10 5) 6,
                InfoWithFields ''sqs SQS.processMessagesV1 received messages''
                  [(''len'', FInt (int (length msgs)))]]
           @ ev3
           @ [CallDeleteMessageBatch svc (DeleteMessageBatchInput d (QueueUrl (config s))) 1,
              ErrorWithFields ''sqs SQS.processMessagesV1 delete message fail.''
                [(''error'', FStr e)]], w4) \<and>
    processMessagesV1_loop (Suc n) s env wk w
      = (case processMessagesV1_loop n s env wk1 w4 of
           (wk2, evs, w5) \<Rightarrow> (wk2, fst (snd (processMessagesV1_iter s env wk w)) # evs, w5)))
   \<and>
   (initClient ''sqs SQS.processMessagesV1'' s env wk' w' = (Some svc', wk1', ev1', w1') \<and>
    ReceiveMessageWithContext env svc' (ReceiveMessageInput (QueueUrl (config s)) 10 5) 6 w1'
      = (Inr msgs', w2') \<and>
    DeleteMessageBatchInput es url \<in> set (deleteCalls (fst (snd (processMessagesV1_iter s env wk' w'))))
    \<longrightarrow> set es \<subseteq> entryOf ` set msgs')"
proof (intro conjI impI; (elim conjE)?)
  assume init: "initClient ''sqs SQS.processMessages'' s env wk w = (Some svc, wk1, ev1, w1)"
    and recv: "ReceiveMessageWithContext env svc (ReceiveMessageInput (QueueUrl (config s)) 10 20) 21 w1
      = (Inr msgs, w2)"
    and loop: "handleMessages s env msgs [] w2 = (d, ev3, w3)"
    and d: "d \<noteq> []"
    and fail: "DeleteMessageBatchWithContext env svc (DeleteMessageBatchInput d (QueueUrl (config s))) 1 w3
      = (Some e, w4)"
  show iter: "processMessages_iter s env wk w
      = (wk1,
         ev1 @ [CallReceiveMessage svc (ReceiveMessageInput (QueueUrl (config s)) 10 20) 21]
           @ ev3
           @ [CallDeleteMessageBatch svc (DeleteMessageBatchInput d (QueueUrl (config s))) 1,
              ErrorWithFields ''sqs SQS.processMessages delete message fail.''
                [(''error'', FStr e)]], w4)"
    using processMessages_iter_batch [OF init recv loop
        deleteMessages_failure [OF d fail, of "''sqs SQS.processMessages''"]]
    by simp
  show "processMessages_loop (Suc n) s env wk w
      = (case processMessages_loop n s env wk1 w4 of
           (wk2, evs, w5) \<Rightarrow> (wk2, fst (snd (processMessages_iter s env wk w)) # evs, w5))"
    by (simp add: iter)
next
  assume "initClient ''sqs SQS.processMessages'' s env wk' w' = (Some svc', wk1', ev1', w1')"
    and "ReceiveMessageWithContext env svc' (ReceiveMessageInput (QueueUrl (config s)) 10 20) 21 w1'
      = (Inr msgs', w2')"
    and "DeleteMessageBatchInput es url
           \<in> set (deleteCalls (fst (snd (processMessages_iter s env wk' w'))))"
  then show "set es \<subseteq> entryOf ` set msgs'"
    by (rule processMessages_iter_entries)
next
  assume init: "initClient ''sqs SQS.processMessagesV1'' s env wk w = (Some svc, wk1, ev1, w1)"
    and recv: "ReceiveMessageWithContext env svc (ReceiveMessageInput (QueueUrl (config s)) 10 5) 6 w1
      = (Inr msgs, w2)"
    and loop: "handleMessagesV1 s env 0 msgs [] w2 = (d, ev3, w3)"
    and d: "d \<noteq> []"
    and fail: "DeleteMessageBatchWithContext env svc (DeleteMessageBatchInput d (QueueUrl (config s))) 1 w3
      = (Some e, w4)"
  from loop d have msgs: "msgs \<noteq> []"
    by auto
  show iter: "processMessagesV1_iter s env wk w
      = (wk1,
         ev1 @ [CallReceiveMessage svc (ReceiveMessageInput (QueueUrl (config s)) 10 5) 6,
                InfoWithFields ''sqs SQS.processMessagesV1 received messages''
                  [(''len'', FInt (int (length msgs)))]]
           @ ev3
           @ [CallDeleteMessageBatch svc (DeleteMessageBatchInput d (QueueUrl (config s))) 1,
              ErrorWithFields ''sqs SQS.processMessagesV1 delete message fail.''
                [(''error'', FStr e)]], w4)"
    using processMessagesV1_iter_batch [OF init recv msgs loop
        deleteMessages_failure [OF d fail, of "''sqs SQS.processMessagesV1''"]]
    by simp
  show "processMessagesV1_loop (Suc n) s env wk w
      = (case processMessagesV1_loop n s env wk1 w4 of
           (wk2, evs, w5) \<Rightarrow> (wk2, fst (snd (processMessagesV1_iter s env wk w)) # evs, w5))"
    by (simp add: iter)
next
  assume "initClient ''sqs SQS.processMessagesV1'' s env wk' w' = (Some svc', wk1', ev1', w1')"
    and "ReceiveMessageWithContext env svc' (ReceiveMessageInput (QueueUrl (config s)) 10 5) 6 w1'
      = (Inr msgs', w2')"
    and "DeleteMessageBatchInput es url
           \<in> set (deleteCalls (fst (snd (processMessagesV1_iter s env wk' w'))))"
  then show "set es \<subseteq> entryOf ` set msgs'"
    by (rule processMessagesV1_iter_entries)
qed

theorem delete_failure_not_retried_witness:
  "deleteCalls (concat (fst (snd (processMessages_loop (Suc (Suc 0)) (stubSQS (Some stubCB))
       (stubEnv False) worker0 (scripted0 [wrappedBatch, [msg ''5'' (envelope ''third'')]])))))
     = [DeleteMessageBatchInput [entryOf (msg ''1'' (envelope ''first'')), entryOf (msg ''3'' (envelope ''third'')), entryOf (msg ''4'' ''not json'')] ''https://q'',
        DeleteMessageBatchInput [entryOf (msg ''5'' (envelope ''third''))] ''https://q'']
   \<and> errorLines (concat (fst (snd (processMessages_loop (Suc (Suc 0)) (stubSQS (Some stubCB))
       (stubEnv False) worker0 (scripted0 [wrappedBatch, [msg ''5'' (envelope ''third'')]])))))
     = [''sqs SQS.processMessages handle msg fail.'',
        ''sqs SQS.processMessages unmarshal raw message fail.'',
        ''sqs SQS.processMessages delete message fail.'',
        ''sqs SQS.processMessages delete message fail.'']
   \<and> set [entryOf (msg ''5'' (envelope ''third''))] \<subseteq> entryOf ` set [msg ''5'' (envelope ''third'')]
   \<and> deleteCalls (concat (fst (snd (processMessagesV1_loop (Suc (Suc 0)) (stubSQS (Some stubCB))
       (stubEnv False) worker0 (scripted0 [rawBatch, [msg ''5'' ''fifth'']])))))
     = [DeleteMessageBatchInput [entryOf (msg ''1'' ''first''), entryOf (msg ''3'' ''third'')] ''https://q'',
        DeleteMessageBatchInput [entryOf (msg ''5'' ''fifth'')] ''https://q'']
   \<and> set [entryOf (msg ''5'' ''fifth'')] \<subseteq> entryOf ` set [msg ''5'' ''fifth'']"
proof -
  let ?s = "stubSQS (Some stubCB)"
  let ?env = "stubEnv False"
  let ?wk1 = "\<lparr>cfgSession = Some (Session 7), service = Some (New (Session 7)), err = None\<rparr>"
  have wfirst:
    "initClient ''sqs SQS.processMessages'' ?s ?env worker0 (scripted0 [wrappedBatch, [msg ''5'' (envelope ''third'')]])
       = (Some (New (Session 7)), ?wk1,
          [CallNewSession (aws_Config ''eu-west-1'' None),
           Info ''sqs SQS.processMessages session init success'', CallNew (Session 7)],
          scripted0 [wrappedBatch, [msg ''5'' (envelope ''third'')]]) \<and>
     ReceiveMessageWithContext ?env (New (Session 7))
         (ReceiveMessageInput (QueueUrl (config ?s)) 10 20) 21 (scripted0 [wrappedBatch, [msg ''5'' (envelope ''third'')]])
       = (Inr wrappedBatch, scripted0 [[msg ''5'' (envelope ''third'')]]) \<and>
     handleMessages ?s ?env wrappedBatch [] (scripted0 [[msg ''5'' (envelope ''third'')]])
       = ([entryOf (msg ''1'' (envelope ''first'')), entryOf (msg ''3'' (envelope ''third'')), entryOf (msg ''4'' ''not json'')], fst (snd (handleMessages ?s ?env wrappedBatch [] (scripted0 [[msg ''5'' (envelope ''third'')]]))), \<lparr>inbox = [[msg ''5'' (envelope ''third'')]], deleted = [], seen = [''first'', ''bad'', ''third''], clock = 4000000\<rparr>) \<and>
     [entryOf (msg ''1'' (envelope ''first'')), entryOf (msg ''3'' (envelope ''third'')), entryOf (msg ''4'' ''not json'')] \<noteq> [] \<and>
     DeleteMessageBatchWithContext ?env (New (Session 7))
         (DeleteMessageBatchInput [entryOf (msg ''1'' (envelope ''first'')), entryOf (msg ''3'' (envelope ''third'')), entryOf (msg ''4'' ''not json'')] (QueueUrl (config ?s))) 1 \<lparr>inbox = [[msg ''5'' (envelope ''third'')]], deleted = [], seen = [''first'', ''bad'', ''third''], clock = 4000000\<rparr>
       = (Some ''ServiceUnavailable'', \<lparr>inbox = [[msg ''5'' (envelope ''third'')]], deleted = [], seen = [''first'', ''bad'', ''third''], clock = 4000000\<rparr>)"
    by (simp add: model_defs stub_defs)
  have wsecond:
    "initClient ''sqs SQS.processMessages'' ?s ?env ?wk1 \<lparr>inbox = [[msg ''5'' (envelope ''third'')]], deleted = [], seen = [''first'', ''bad'', ''third''], clock = 4000000\<rparr>
       = (Some (New (Session 7)), ?wk1, [], \<lparr>inbox = [[msg ''5'' (envelope ''third'')]], deleted = [], seen = [''first'', ''bad'', ''third''], clock = 4000000\<rparr>) \<and>
     ReceiveMessageWithContext ?env (New (Session 7))
         (ReceiveMessageInput (QueueUrl (config ?s)) 10 20) 21 \<lparr>inbox = [[msg ''5'' (envelope ''third'')]], deleted = [], seen = [''first'', ''bad'', ''third''], clock = 4000000\<rparr>
       = (Inr [msg ''5'' (envelope ''third'')], \<lparr>inbox = [], deleted = [], seen = [''first'', ''bad'', ''third''], clock = 4000000\<rparr>) \<and>
     DeleteMessageBatchInput [entryOf (msg ''5'' (envelope ''third''))] ''https://q''
       \<in> set (deleteCalls (fst (snd (processMessages_iter ?s ?env ?wk1 \<lparr>inbox = [[msg ''5'' (envelope ''third'')]], deleted = [], seen = [''first'', ''bad'', ''third''], clock = 4000000\<rparr>))))"
    by (simp add: model_defs stub_defs)
  have rfirst:
    "initClient ''sqs SQS.processMessagesV1'' ?s ?env worker0 (scripted0 [rawBatch, [msg ''5'' ''fifth'']])
       = (Some (New (Session 7)), ?wk1,
          [CallNewSession (aws_Config ''eu-west-1'' None),
           Info ''sqs SQS.processMessagesV1 session init success'', CallNew (Session 7)],
          scripted0 [rawBatch, [msg ''5'' ''fifth'']]) \<and>
     ReceiveMessageWithContext ?env (New (Session 7))
         (ReceiveMessageInput (QueueUrl (config ?s)) 10 5) 6 (scripted0 [rawBatch, [msg ''5'' ''fifth'']])
       = (Inr rawBatch, scripted0 [[msg ''5'' ''fifth'']]) \<and>
     handleMessagesV1 ?s ?env 0 rawBatch [] (scripted0 [[msg ''5'' ''fifth'']])
       = ([entryOf (msg ''1'' ''first''), entryOf (msg ''3'' ''third'')], fst (snd (handleMessagesV1 ?s ?env 0 rawBatch [] (scripted0 [[msg ''5'' ''fifth'']]))), \<lparr>inbox = [[msg ''5'' ''fifth'']], deleted = [], seen = [''first'', ''bad'', ''third''], clock = 4000000\<rparr>) \<and>
     [entryOf (msg ''1'' ''first''), entryOf (msg ''3'' ''third'')] \<noteq> [] \<and>
     DeleteMessageBatchWithContext ?env (New (Session 7))
         (DeleteMessageBatchInput [entryOf (msg ''1'' ''first''), entryOf (msg ''3'' ''third'')] (QueueUrl (config ?s))) 1 \<lparr>inbox = [[msg ''5'' ''fifth'']], deleted = [], seen = [''first'', ''bad'', ''third''], clock = 4000000\<rparr>
       = (Some ''ServiceUnavailable'', \<lparr>inbox = [[msg ''5'' ''fifth'']], deleted = [], seen = [''first'', ''bad'', ''third''], clock = 4000000\<rparr>)"
    by (simp add: model_defs stub_defs)
  have rsecond:
    "initClient ''sqs SQS.processMessagesV1'' ?s ?env ?wk1 \<lparr>inbox = [[msg ''5'' ''fifth'']], deleted = [], seen = [''first'', ''bad'', ''third''], clock = 4000000\<rparr>
       = (Some (New (Session 7)), ?wk1, [], \<lparr>inbox = [[msg ''5'' ''fifth'']], deleted = [], seen = [''first'', ''bad'', ''third''], clock = 4000000\<rparr>) \<and>
     ReceiveMessageWithContext ?env (New (Session 7))
         (ReceiveMessageInput (QueueUrl (config ?s)) 10 5) 6 \<lparr>inbox = [[msg ''5'' ''fifth'']], deleted = [], seen = [''first'', ''bad'', ''third''], clock = 4000000\<rparr>
       = (Inr [msg ''5'' ''fifth''], \<lparr>inbox = [], deleted = [], seen = [''first'', ''bad'', ''third''], clock = 4000000\<rparr>) \<and>
     DeleteMessageBatchInput [entryOf (msg ''5'' ''fifth'')] ''https://q''
       \<in> set (deleteCalls (fst (snd (processMessagesV1_iter ?s ?env ?wk1 \<lparr>inbox = [[msg ''5'' ''fifth'']], deleted = [], seen = [''first'', ''bad'', ''third''], clock = 4000000\<rparr>))))"
    by (simp add: model_defs stub_defs)
  note w1 = delete_failure_not_retried [where n = "Suc 0", THEN conjunct1, rule_format, OF wfirst]
  note w2 = delete_failure_not_retried [THEN conjunct2, THEN conjunct1, rule_format, OF wsecond]
  note r1 = delete_failure_not_retried [where n = "Suc 0", THEN conjunct2, THEN conjunct2,
      THEN conjunct1, rule_format, OF rfirst]
  note r2 = delete_failure_not_retried [THEN conjunct2, THEN conjunct2, THEN conjunct2,
      rule_format, OF rsecond]
  have wloop: "deleteCalls (concat (fst (snd (processMessages_loop (Suc (Suc 0)) ?s ?env worker0
       (scripted0 [wrappedBatch, [msg ''5'' (envelope ''third'')]])))))
     = [DeleteMessageBatchInput [entryOf (msg ''1'' (envelope ''first'')), entryOf (msg ''3'' (envelope ''third'')), entryOf (msg ''4'' ''not json'')] ''https://q'',
        DeleteMessageBatchInput [entryOf (msg ''5'' (envelope ''third''))] ''https://q'']
   \<and> errorLines (concat (fst (snd (processMessages_loop (Suc (Suc 0)) ?s ?env worker0
       (scripted0 [wrappedBatch, [msg ''5'' (envelope ''third'')]])))))
     = [''sqs SQS.processMessages handle msg fail.'',
        ''sqs SQS.processMessages unmarshal raw message fail.'',
        ''sqs SQS.processMessages delete message fail.'',
        ''sqs SQS.processMessages delete message fail.'']"
    using w1 by (simp add: model_defs stub_defs deleteCalls_append errorLines_append)
  have rloop: "deleteCalls (concat (fst (snd (processMessagesV1_loop (Suc (Suc 0)) ?s ?env worker0
       (scripted0 [rawBatch, [msg ''5'' ''fifth'']])))))
     = [DeleteMessageBatchInput [entryOf (msg ''1'' ''first''), entryOf (msg ''3'' ''third'')] ''https://q'',
        DeleteMessageBatchInput [entryOf (msg ''5'' ''fifth'')] ''https://q'']"
    using r1 by (simp add: model_defs stub_defs deleteCalls_append)
  from wloop rloop w2 r2 show ?thesis
    by simp
qed

lemma servicesUsed_append: "servicesUsed (xs @ ys) = servicesUsed xs @ servicesUsed ys"
  by (induction xs rule: servicesUsed.induct) simp_all

lemma handleMessages_no_client:
  "sessionCalls (fst (snd (handleMessages s env msgs d w))) = []
   \<and> newCalls (fst (snd (handleMessages s env msgs d w))) = []
   \<and> servicesUsed (fst (snd (handleMessages s env msgs d w))) = []"
  by (induction msgs arbitrary: d w)
     (auto simp: handleMessage_def sessionCalls_append newCalls_append servicesUsed_append
           case_prod_beta Let_def split: option.splits sum.splits)

lemma handleMessagesV1_no_client:
  "sessionCalls (fst (snd (handleMessagesV1 s env i msgs d w))) = []
   \<and> newCalls (fst (snd (handleMessagesV1 s env i msgs d w))) = []
   \<and> servicesUsed (fst (snd (handleMessagesV1 s env i msgs d w))) = []"
  by (induction msgs arbitrary: i d w)
     (auto simp: handleMessageV1_def sessionCalls_append newCalls_append servicesUsed_append
           case_prod_beta Let_def split: option.splits sum.splits)

lemma deleteMessages_client:
  "deleteMessages fname s env svc d w = (ev, w') \<Longrightarrow>
     sessionCalls ev = [] \<and> newCalls ev = [] \<and> set (servicesUsed ev) \<subseteq> {svc}"
  by (auto simp: deleteMessages_def split: option.splits prod.splits if_splits)

lemma initClient_sessionCalls:
  "initClient fname s env wk w = (r, wk1, ev1, w1) \<Longrightarrow>
     sessionCalls ev1 = (if cfgSession wk = None then [newConfig s] else [])
     \<and> servicesUsed ev1 = []"
  by (auto simp: initClient_def initSession_def sessionCalls_append servicesUsed_append
           split: option.splits sum.splits prod.splits)

lemma initClient_ready:
  "cfgSession wk = Some ses \<Longrightarrow> service wk = Some svc \<Longrightarrow>
     initClient fname s env wk w = (Some svc, wk, [], w)"
  by (simp add: initClient_def initSession_def)

lemma initClient_built:
  assumes "cfgSession wk = None" and "service wk = None"
    and "NewSession env (newConfig s) w = (Inr ses, w1)"
  shows "initClient fname s env wk w
           = (Some (New ses), wk\<lparr>cfgSession := Some ses, service := Some (New ses), err := None\<rparr>,
              [CallNewSession (newConfig s), Info (fname @ '' session init success''),
               CallNew ses], w1)"
  using assms by (simp add: initClient_def initSession_def)

lemma initClient_failed:
  assumes "cfgSession wk = None"
    and "NewSession env (newConfig s) w = (Inl e, w1)"
  shows "initClient fname s env wk w
           = (None, wk\<lparr>cfgSession := None, err := Some (Wrap e (fname @ '' session''))\<rparr>,
              [CallNewSession (newConfig s),
               ErrorWithFields (fname @ '' session'')
                 [(''err'', FStr (Wrap e (fname @ '' session'')))]], w1)"
  using assms by (simp add: initClient_def initSession_def)

lemma processMessages_iter_cases:
  obtains (down) wk1 ev1 w1 where
      "initClient ''sqs SQS.processMessages'' s env wk w = (None, wk1, ev1, w1)"
      "processMessages_iter s env wk w = (wk1, ev1, w1)"
  | (fail) svc wk1 ev1 w1 l fs w2 where
      "initClient ''sqs SQS.processMessages'' s env wk w = (Some svc, wk1, ev1, w1)"
      "processMessages_iter s env wk w
         = (wk1, ev1 @ [CallReceiveMessage svc (ReceiveMessageInput (QueueUrl (config s)) 10 20) 21,
                        ErrorWithFields l fs], w2)"
  | (batch) svc wk1 ev1 w1 msgs w2 d ev3 w3 ev4 w4 where
      "initClient ''sqs SQS.processMessages'' s env wk w = (Some svc, wk1, ev1, w1)"
      "handleMessages s env msgs [] w2 = (d, ev3, w3)"
      "deleteMessages ''sqs SQS.processMessages'' s env svc d w3 = (ev4, w4)"
      "processMessages_iter s env wk w
         = (wk1, ev1 @ [CallReceiveMessage svc (ReceiveMessageInput (QueueUrl (config s)) 10 20) 21]
                   @ ev3 @ ev4, w4)"
proof (cases "initClient ''sqs SQS.processMessages'' s env wk w")
  case (fields r wk1 ev1 w1)
  note init = this
  show ?thesis
  proof (cases r)
    case None
    with init show ?thesis
      by (intro down [of wk1 ev1 w1]) (simp_all add: processMessages_iter_def)
  next
    case (Some svc)
    obtain res w2 where recv:
      "ReceiveMessageWithContext env svc (ReceiveMessageInput (QueueUrl (config s)) 10 20) 21 w1
         = (res, w2)"
      by (cases "ReceiveMessageWithContext env svc (ReceiveMessageInput (QueueUrl (config s)) 10 20) 21 w1")
    show ?thesis
    proof (cases res)
      case (Inl e)
      with init Some recv show ?thesis
        by (intro fail [of svc wk1 ev1 w1]) (simp_all add: processMessages_iter_def)
    next
      case (Inr msgs)
      obtain d ev3 w3 where loop: "handleMessages s env msgs [] w2 = (d, ev3, w3)"
        by (cases "handleMessages s env msgs [] w2")
      obtain ev4 w4 where del:
        "deleteMessages ''sqs SQS.processMessages'' s env svc d w3 = (ev4, w4)"
        by (cases "deleteMessages ''sqs SQS.processMessages'' s env svc d w3")
      from init Some have init': "initClient ''sqs SQS.processMessages'' s env wk w = (Some svc, wk1, ev1, w1)"
        by simp
      from recv Inr have recv': "ReceiveMessageWithContext env svc
          (ReceiveMessageInput (QueueUrl (config s)) 10 20) 21 w1 = (Inr msgs, w2)"
        by simp
      show ?thesis
        using init' loop del processMessages_iter_batch [OF init' recv' loop del]
        by (rule batch)
    qed
  qed
qed

lemma processMessagesV1_iter_cases:
  obtains (down) wk1 ev1 w1 where
      "initClient ''sqs SQS.processMessagesV1'' s env wk w = (None, wk1, ev1, w1)"
      "processMessagesV1_iter s env wk w = (wk1, ev1, w1)"
  | (fail) svc wk1 ev1 w1 lg w2 where
      "initClient ''sqs SQS.processMessagesV1'' s env wk w = (Some svc, wk1, ev1, w1)"
      "processMessagesV1_iter s env wk w
         = (wk1, ev1 @ CallReceiveMessage svc (ReceiveMessageInput (QueueUrl (config s)) 10 5) 6 # lg,
            w2)"
      "lg = [] \<or> (\<exists>l fs. lg = [ErrorWithFields l fs])"
  | (batch) svc wk1 ev1 w1 msgs w2 d ev3 w3 ev4 w4 where
      "initClient ''sqs SQS.processMessagesV1'' s env wk w = (Some svc, wk1, ev1, w1)"
      "handleMessagesV1 s env 0 msgs [] w2 = (d, ev3, w3)"
      "deleteMessages ''sqs SQS.processMessagesV1'' s env svc d w3 = (ev4, w4)"
      "processMessagesV1_iter s env wk w
         = (wk1, ev1 @ [CallReceiveMessage svc (ReceiveMessageInput (QueueUrl (config s)) 10 5) 6,
                        InfoWithFields ''sqs SQS.processMessagesV1 received messages''
                          [(''len'', FInt (int (length msgs)))]]
                   @ ev3 @ ev4, w4)"
proof (cases "initClient ''sqs SQS.processMessagesV1'' s env wk w")
  case (fields r wk1 ev1 w1)
  note init = this
  show ?thesis
  proof (cases r)
    case None
    with init show ?thesis
      by (intro down [of wk1 ev1 w1]) (simp_all add: processMessagesV1_iter_def)
  next
    case (Some svc)
    obtain res w2 where recv:
      "ReceiveMessageWithContext env svc (ReceiveMessageInput (QueueUrl (config s)) 10 5) 6 w1
         = (res, w2)"
      by (cases "ReceiveMessageWithContext env svc (ReceiveMessageInput (QueueUrl (config s)) 10 5) 6 w1")
    from init Some have init': "initClient ''sqs SQS.processMessagesV1'' s env wk w = (Some svc, wk1, ev1, w1)"
      by simp
    show ?thesis
    proof (cases res)
      case (Inl e)
      show ?thesis
      proof (cases "Contains e ''context deadline exceeded''")
        case True
        with Inl init' recv show ?thesis
          by (intro fail [of svc wk1 ev1 w1 "[]" w2]) (simp_all add: processMessagesV1_iter_def)
      next
        case False
        with Inl init' recv show ?thesis
          by (intro fail [of svc wk1 ev1 w1
                "[ErrorWithFields ''sqs SQS.processMessagesV1 receive message fail.''
                    [(''err'', FStr e)]]" w2])
             (simp_all add: processMessagesV1_iter_def)
      qed
    next
      case (Inr msgs)
      from recv Inr have recv': "ReceiveMessageWithContext env svc
          (ReceiveMessageInput (QueueUrl (config s)) 10 5) 6 w1 = (Inr msgs, w2)"
        by simp
      show ?thesis
      proof (cases "msgs = []")
        case True
        with init' recv' show ?thesis
          by (intro fail [of svc wk1 ev1 w1 "[]" w2]) (simp_all add: processMessagesV1_iter_def)
      next
        case False
        obtain d ev3 w3 where loop: "handleMessagesV1 s env 0 msgs [] w2 = (d, ev3, w3)"
          by (cases "handleMessagesV1 s env 0 msgs [] w2")
        obtain ev4 w4 where del:
          "deleteMessages ''sqs SQS.processMessagesV1'' s env svc d w3 = (ev4, w4)"
          by (cases "deleteMessages ''sqs SQS.processMessagesV1'' s env svc d w3")
        show ?thesis
          using init' loop del processMessagesV1_iter_batch [OF init' recv' False loop del]
          by (rule batch)
      qed
    qed
  qed
qed

lemma processMessages_iter_client:
  "sessionCalls (fst (snd (processMessages_iter s env wk w)))
     = (if cfgSession wk = None then [newConfig s] else [])
   \<and> (cfgSession wk = Some ses \<and> service wk = Some svc \<longrightarrow>
        fst (processMessages_iter s env wk w) = wk
        \<and> newCalls (fst (snd (processMessages_iter s env wk w))) = []
        \<and> set (servicesUsed (fst (snd (processMessages_iter s env wk w)))) \<subseteq> {svc})"
proof (cases rule: processMessages_iter_cases [of s env wk w])
  case (down wk1 ev1 w1)
  then show ?thesis
    using initClient_sessionCalls [OF down(1)]
    by (auto simp: initClient_ready)
next
  case (fail svc' wk1 ev1 w1 l fs w2)
  then show ?thesis
    using initClient_sessionCalls [OF fail(1)]
    by (auto simp: initClient_ready sessionCalls_append newCalls_append servicesUsed_append)
next
  case (batch svc' wk1 ev1 w1 msgs w2 d ev3 w3 ev4 w4)
  then show ?thesis
    using initClient_sessionCalls [OF batch(1)] deleteMessages_client [OF batch(3)]
      handleMessages_no_client [of s env msgs "[]" w2]
    by (auto simp: initClient_ready sessionCalls_append newCalls_append servicesUsed_append)
qed

lemma processMessagesV1_iter_client:
  "sessionCalls (fst (snd (processMessagesV1_iter s env wk w)))
     = (if cfgSession wk = None then [newConfig s] else [])
   \<and> (cfgSession wk = Some ses \<and> service wk = Some svc \<longrightarrow>
        fst (processMessagesV1_iter s env wk w) = wk
        \<and> newCalls (fst (snd (processMessagesV1_iter s env wk w))) = []
        \<and> set (servicesUsed (fst (snd (processMessagesV1_iter s env wk w)))) \<subseteq> {svc})"
proof (cases rule: processMessagesV1_iter_cases [of s env wk w])
  case (down wk1 ev1 w1)
  then show ?thesis
    using initClient_sessionCalls [OF down(1)]
    by (auto simp: initClient_ready)
next
  case (fail svc' wk1 ev1 w1 lg w2)
  then show ?thesis
    using initClient_sessionCalls [OF fail(1)]
    by (auto simp: initClient_ready sessionCalls_append newCalls_append servicesUsed_append)
next
  case (batch svc' wk1 ev1 w1 msgs w2 d ev3 w3 ev4 w4)
  then show ?thesis
    using initClient_sessionCalls [OF batch(1)] deleteMessages_client [OF batch(3)]
      handleMessagesV1_no_client [of s env 0 msgs "[]" w2]
    by (auto simp: initClient_ready sessionCalls_append newCalls_append servicesUsed_append)
qed

lemma processMessages_loop_ready:
  assumes "cfgSession wk = Some ses" and "service wk = Some svc"
  shows "fst (processMessages_loop n s env wk w) = wk
       \<and> sessionCalls (concat (fst (snd (processMessages_loop n s env wk w)))) = []
       \<and> newCalls (concat (fst (snd (processMessages_loop n s env wk w)))) = []
       \<and> set (servicesUsed (concat (fst (snd (processMessages_loop n s env wk w))))) \<subseteq> {svc}"
proof (induction n arbitrary: w)
  case 0
  show ?case by simp
next
  case (Suc n)
  obtain wk1 ev w1 where it: "processMessages_iter s env wk w = (wk1, ev, w1)"
    by (cases "processMessages_iter s env wk w")
  with processMessages_iter_client [of s env wk w ses svc] assms
  have "wk1 = wk" and "sessionCalls ev = []" and "newCalls ev = []"
    and "set (servicesUsed ev) \<subseteq> {svc}"
    by simp_all
  with it Suc.IH [of w1] show ?case
    by (simp add: case_prod_beta sessionCalls_append newCalls_append servicesUsed_append)
qed

lemma processMessagesV1_loop_ready:
  assumes "cfgSession wk = Some ses" and "service wk = Some svc"
  shows "fst (processMessagesV1_loop n s env wk w) = wk
       \<and> sessionCalls (concat (fst (snd (processMessagesV1_loop n s env wk w)))) = []
       \<and> newCalls (concat (fst (snd (processMessagesV1_loop n s env wk w)))) = []
       \<and> set (servicesUsed (concat (fst (snd (processMessagesV1_loop n s env wk w))))) \<subseteq> {svc}"
proof (induction n arbitrary: w)
  case 0
  show ?case by simp
next
  case (Suc n)
  obtain wk1 ev w1 where it: "processMessagesV1_iter s env wk w = (wk1, ev, w1)"
    by (cases "processMessagesV1_iter s env wk w")
  with processMessagesV1_iter_client [of s env wk w ses svc] assms
  have "wk1 = wk" and "sessionCalls ev = []" and "newCalls ev = []"
    and "set (servicesUsed ev) \<subseteq> {svc}"
    by simp_all
  with it Suc.IH [of w1] show ?case
    by (simp add: case_prod_beta sessionCalls_append newCalls_append servicesUsed_append)
qed

lemma processMessages_iter_worker:
  "fst (processMessages_iter s env wk w)
     = fst (snd (initClient ''sqs SQS.processMessages'' s env wk w))"
  by (cases rule: processMessages_iter_cases [of s env wk w]) simp_all

lemma processMessagesV1_iter_worker:
  "fst (processMessagesV1_iter s env wk w)
     = fst (snd (initClient ''sqs SQS.processMessagesV1'' s env wk w))"
  by (cases rule: processMessagesV1_iter_cases [of s env wk w]) simp_all

text \<open>
  C9. In both loops an iteration asks for a new session exactly when \<open>cfgSession\<close> is nil
  at its start. Once the session and the service are set, every later iteration leaves
  them as they are, asks for no session, builds no service and sends its receives and
  deletes through that service. An iteration that starts without them and gets a session
  sets both. An iteration whose session cannot be built logs the error and returns without
  receiving, and the loop goes on with the next iteration, which starts without a session
  again.
\<close>

theorem session_built_once:
  "sessionCalls (fst (snd (processMessages_iter s env wk w)))
     = (if cfgSession wk = None then [newConfig s] else [])
   \<and> sessionCalls (fst (snd (processMessagesV1_iter s env wk w)))
     = (if cfgSession wk = None then [newConfig s] else [])
   \<and> (cfgSession wk = Some ses \<and> service wk = Some svc
      \<longrightarrow>
      fst (processMessages_loop n s env wk w) = wk \<and>
      sessionCalls (concat (fst (snd (processMessages_loop n s env wk w)))) = [] \<and>
      newCalls (concat (fst (snd (processMessages_loop n s env wk w)))) = [] \<and>
      set (servicesUsed (concat (fst (snd (processMessages_loop n s env wk w))))) \<subseteq> {svc} \<and>
      fst (processMessagesV1_loop n s env wk w) = wk \<and>
      sessionCalls (concat (fst (snd (processMessagesV1_loop n s env wk w)))) = [] \<and>
      newCalls (concat (fst (snd (processMessagesV1_loop n s env wk w)))) = [] \<and>
      set (servicesUsed (concat (fst (snd (processMessagesV1_loop n s env wk w))))) \<subseteq> {svc})
   \<and> (cfgSession wk = None \<and> service wk = None \<and>
      NewSession env (newConfig s) w = (Inr ses, w1)
      \<longrightarrow>
      fst (processMessages_iter s env wk w)
        = wk\<lparr>cfgSession := Some ses, service := Some (New ses), err := None\<rparr> \<and>
      fst (processMessagesV1_iter s env wk w)
        = wk\<lparr>cfgSession := Some ses, service := Some (New ses), err := None\<rparr>)
   \<and> (cfgSession wk = None \<and> NewSession env (newConfig s) w = (Inl e, w1)
      \<longrightarrow>
      processMessages_iter s env wk w
        = (wk\<lparr>cfgSession := None, err := Some (Wrap e ''sqs SQS.processMessages session'')\<rparr>,
           [CallNewSession (newConfig s),
            ErrorWithFields ''sqs SQS.processMessages session''
              [(''err'', FStr (Wrap e ''sqs SQS.processMessages session''))]], w1) \<and>
      processMessages_loop (Suc n) s env wk w
        = (case processMessages_loop n s env
                  (wk\<lparr>cfgSession := None,
                      err := Some (Wrap e ''sqs SQS.processMessages session'')\<rparr>) w1 of
             (wk2, evs, w2) \<Rightarrow>
               (wk2, fst (snd (processMessages_iter s env wk w)) # evs, w2)) \<and>
      processMessagesV1_iter s env wk w
        = (wk\<lparr>cfgSession := None, err := Some (Wrap e ''sqs SQS.processMessagesV1 session'')\<rparr>,
           [CallNewSession (newConfig s),
            ErrorWithFields ''sqs SQS.processMessagesV1 session''
              [(''err'', FStr (Wrap e ''sqs SQS.processMessagesV1 session''))]], w1) \<and>
      processMessagesV1_loop (Suc n) s env wk w
        = (case processMessagesV1_loop n s env
                  (wk\<lparr>cfgSession := None,
                      err := Some (Wrap e ''sqs SQS.processMessagesV1 session'')\<rparr>) w1 of
             (wk2, evs, w2) \<Rightarrow>
               (wk2, fst (snd (processMessagesV1_iter s env wk w)) # evs, w2)))"
proof (intro conjI impI; (elim conjE)?)
  show "sessionCalls (fst (snd (processMessages_iter s env wk w)))
     = (if cfgSession wk = None then [newConfig s] else [])"
    using processMessages_iter_client [of s env wk w] by simp
  show "sessionCalls (fst (snd (processMessagesV1_iter s env wk w)))
     = (if cfgSession wk = None then [newConfig s] else [])"
    using processMessagesV1_iter_client [of s env wk w] by simp
next
  assume ready: "cfgSession wk = Some ses" "service wk = Some svc"
  note a = processMessages_loop_ready [OF ready, of n s env w]
  note b = processMessagesV1_loop_ready [OF ready, of n s env w]
  show "fst (processMessages_loop n s env wk w) = wk"
    and "sessionCalls (concat (fst (snd (processMessages_loop n s env wk w)))) = []"
    and "newCalls (concat (fst (snd (processMessages_loop n s env wk w)))) = []"
    and "set (servicesUsed (concat (fst (snd (processMessages_loop n s env wk w))))) \<subseteq> {svc}"
    using a by simp_all
  show "fst (processMessagesV1_loop n s env wk w) = wk"
    and "sessionCalls (concat (fst (snd (processMessagesV1_loop n s env wk w)))) = []"
    and "newCalls (concat (fst (snd (processMessagesV1_loop n s env wk w)))) = []"
    and "set (servicesUsed (concat (fst (snd (processMessagesV1_loop n s env wk w))))) \<subseteq> {svc}"
    using b by simp_all
next
  assume none: "cfgSession wk = None" "service wk = None"
    and built: "NewSession env (newConfig s) w = (Inr ses, w1)"
  show "fst (processMessages_iter s env wk w)
        = wk\<lparr>cfgSession := Some ses, service := Some (New ses), err := None\<rparr>"
    using initClient_built [OF none built, of "''sqs SQS.processMessages''"]
    by (simp add: processMessages_iter_worker)
  show "fst (processMessagesV1_iter s env wk w)
        = wk\<lparr>cfgSession := Some ses, service := Some (New ses), err := None\<rparr>"
    using initClient_built [OF none built, of "''sqs SQS.processMessagesV1''"]
    by (simp add: processMessagesV1_iter_worker)
next
  assume none: "cfgSession wk = None"
    and failed: "NewSession env (newConfig s) w = (Inl e, w1)"
  show w: "processMessages_iter s env wk w
        = (wk\<lparr>cfgSession := None, err := Some (Wrap e ''sqs SQS.processMessages session'')\<rparr>,
           [CallNewSession (newConfig s),
            ErrorWithFields ''sqs SQS.processMessages session''
              [(''err'', FStr (Wrap e ''sqs SQS.processMessages session''))]], w1)"
    using initClient_failed [OF none failed, of "''sqs SQS.processMessages''"]
    by (simp add: processMessages_iter_def)
  show "processMessages_loop (Suc n) s env wk w
        = (case processMessages_loop n s env
                  (wk\<lparr>cfgSession := None,
                      err := Some (Wrap e ''sqs SQS.processMessages session'')\<rparr>) w1 of
             (wk2, evs, w2) \<Rightarrow>
               (wk2, fst (snd (processMessages_iter s env wk w)) # evs, w2))"
    by (simp add: w)
  show v: "processMessagesV1_iter s env wk w
        = (wk\<lparr>cfgSession := None, err := Some (Wrap e ''sqs SQS.processMessagesV1 session'')\<rparr>,
           [CallNewSession (newConfig s),
            ErrorWithFields ''sqs SQS.processMessagesV1 session''
              [(''err'', FStr (Wrap e ''sqs SQS.processMessagesV1 session''))]], w1)"
    using initClient_failed [OF none failed, of "''sqs SQS.processMessagesV1''"]
    by (simp add: processMessagesV1_iter_def)
  show "processMessagesV1_loop (Suc n) s env wk w
        = (case processMessagesV1_loop n s env
                  (wk\<lparr>cfgSession := None,
                      err := Some (Wrap e ''sqs SQS.processMessagesV1 session'')\<rparr>) w1 of
             (wk2, evs, w2) \<Rightarrow>
               (wk2, fst (snd (processMessagesV1_iter s env wk w)) # evs, w2))"
    by (simp add: v)
qed

theorem session_built_once_witness:
  "sessionCalls (concat (fst (snd (processMessages_loop (Suc (Suc (Suc 0))) (stubSQS (Some stubCB))
       flakyEnv worker0 (scripted0 [wrappedBatch])))))
     = [aws_Config ''eu-west-1'' None, aws_Config ''eu-west-1'' None]
   \<and> newCalls (concat (fst (snd (processMessages_loop (Suc (Suc (Suc 0))) (stubSQS (Some stubCB))
       flakyEnv worker0 (scripted0 [wrappedBatch])))))
     = [Session 7]
   \<and> fst (processMessages_loop (Suc (Suc (Suc 0))) (stubSQS (Some stubCB))
       flakyEnv worker0 (scripted0 [wrappedBatch]))
     = \<lparr>cfgSession = Some (Session 7), service = Some (New (Session 7)), err = None\<rparr>
   \<and> sessionCalls (concat (fst (snd (processMessagesV1_loop (Suc (Suc (Suc 0))) (stubSQS (Some stubCB))
       flakyEnv worker0 (scripted0 [rawBatch])))))
     = [aws_Config ''eu-west-1'' None, aws_Config ''eu-west-1'' None]
   \<and> newCalls (concat (fst (snd (processMessagesV1_loop (Suc (Suc (Suc 0))) (stubSQS (Some stubCB))
       flakyEnv worker0 (scripted0 [rawBatch])))))
     = [Session 7]
   \<and> fst (processMessagesV1_loop (Suc (Suc (Suc 0))) (stubSQS (Some stubCB))
       flakyEnv worker0 (scripted0 [rawBatch]))
     = \<lparr>cfgSession = Some (Session 7), service = Some (New (Session 7)), err = None\<rparr>"
proof -
  let ?s = "stubSQS (Some stubCB)"
  let ?wk1 = "\<lparr>cfgSession = Some (Session 7), service = Some (New (Session 7)), err = None\<rparr>"
  let ?wkw = "worker0\<lparr>cfgSession := None,
                err := Some (Wrap ''no region'' ''sqs SQS.processMessages session'')\<rparr>"
  let ?wkv = "worker0\<lparr>cfgSession := None,
                err := Some (Wrap ''no region'' ''sqs SQS.processMessagesV1 session'')\<rparr>"
  have failed: "cfgSession worker0 = None \<and>
      NewSession flakyEnv (newConfig ?s) (scripted0 bs)
        = (Inl ''no region'', (scripted0 bs)\<lparr>clock := 1\<rparr>)" for bs
    by (simp add: model_defs stub_defs flakyEnv_def)
  have wbuilt: "cfgSession ?wkw = None \<and> service ?wkw = None \<and>
      NewSession flakyEnv (newConfig ?s) ((scripted0 [wrappedBatch])\<lparr>clock := 1\<rparr>)
        = (Inr (Session 7), (scripted0 [wrappedBatch])\<lparr>clock := 1\<rparr>)"
    by (simp add: model_defs stub_defs flakyEnv_def)
  have vbuilt: "cfgSession ?wkv = None \<and> service ?wkv = None \<and>
      NewSession flakyEnv (newConfig ?s) ((scripted0 [rawBatch])\<lparr>clock := 1\<rparr>)
        = (Inr (Session 7), (scripted0 [rawBatch])\<lparr>clock := 1\<rparr>)"
    by (simp add: model_defs stub_defs flakyEnv_def)
  have ready: "cfgSession ?wk1 = Some (Session 7) \<and> service ?wk1 = Some (New (Session 7))"
    by simp
  note wf = session_built_once [where n = "Suc (Suc 0)", THEN conjunct2, THEN conjunct2,
      THEN conjunct2, THEN conjunct2, rule_format, OF failed [of "[wrappedBatch]"]]
  note vf = session_built_once [where n = "Suc (Suc 0)", THEN conjunct2, THEN conjunct2,
      THEN conjunct2, THEN conjunct2, rule_format, OF failed [of "[rawBatch]"]]
  note wb = session_built_once [THEN conjunct2, THEN conjunct2, THEN conjunct2, THEN conjunct1,
      rule_format, OF wbuilt]
  note vb = session_built_once [THEN conjunct2, THEN conjunct2, THEN conjunct2, THEN conjunct1,
      rule_format, OF vbuilt]
  note wr = session_built_once [where n = "Suc 0" and s = ?s and env = flakyEnv
      and w = "\<lparr>inbox = [], deleted = [], seen = [], clock = 1\<rparr>",
      THEN conjunct2, THEN conjunct2, THEN conjunct1, rule_format, OF ready]
  have w: "sessionCalls (concat (fst (snd (processMessages_loop (Suc (Suc (Suc 0))) ?s
       flakyEnv worker0 (scripted0 [wrappedBatch])))))
     = [aws_Config ''eu-west-1'' None, aws_Config ''eu-west-1'' None]
   \<and> newCalls (concat (fst (snd (processMessages_loop (Suc (Suc (Suc 0))) ?s
       flakyEnv worker0 (scripted0 [wrappedBatch])))))
     = [Session 7]
   \<and> fst (processMessages_loop (Suc (Suc (Suc 0))) ?s
       flakyEnv worker0 (scripted0 [wrappedBatch])) = ?wk1"
    using wf wb wr
    by (simp add: model_defs stub_defs flakyEnv_def sessionCalls_append newCalls_append)
  have v: "sessionCalls (concat (fst (snd (processMessagesV1_loop (Suc (Suc (Suc 0))) ?s
       flakyEnv worker0 (scripted0 [rawBatch])))))
     = [aws_Config ''eu-west-1'' None, aws_Config ''eu-west-1'' None]
   \<and> newCalls (concat (fst (snd (processMessagesV1_loop (Suc (Suc (Suc 0))) ?s
       flakyEnv worker0 (scripted0 [rawBatch])))))
     = [Session 7]
   \<and> fst (processMessagesV1_loop (Suc (Suc (Suc 0))) ?s
       flakyEnv worker0 (scripted0 [rawBatch])) = ?wk1"
    using vf vb wr
    by (simp add: model_defs stub_defs flakyEnv_def sessionCalls_append newCalls_append)
  from w v show ?thesis
    by simp
qed

subsection \<open>The batch delete and the service\<close>

lemma deleteMessages_none: "deleteMessages fname s env svc [] w = ([], w)"
  by (simp add: deleteMessages_def)

lemma deleteMessages_result:
  assumes "d \<noteq> []"
    and "DeleteMessageBatchWithContext env svc (DeleteMessageBatchInput d (QueueUrl (config s))) 1 w
           = (r, w')"
  shows "deleteMessages fname s env svc d w
           = (CallDeleteMessageBatch svc (DeleteMessageBatchInput d (QueueUrl (config s))) 1 #
              (case r of
                 None \<Rightarrow> []
               | Some x \<Rightarrow>
                   [ErrorWithFields (fname @ '' delete message fail.'') [(''error'', FStr x)]]),
              w')"
  using assms by (cases r) (simp_all add: deleteMessages_def)

text \<open>
  C7. In an iteration of either loop that receives a batch, the batch delete is called
  when the list of staged entries is not empty, once and with that list, and is not called
  when the list is empty: with staged entries the iteration ends in the world that
  \<open>DeleteMessageBatchWithContext\<close> returns for that list, with its error logged if it
  returns one; without, it ends in the world the messages left, whatever the service would
  have answered. An iteration whose receive returns no message ends there: its events are
  those of the client set-up and the receive call and its world is the one the receive
  returned, so nothing is decoded, the callback is not called and nothing is deleted. An
  iteration that receives no batch (the session cannot be built, or the receive fails)
  stages nothing and deletes nothing, and ends in the world of the failed call.
\<close>

theorem delete_iff_staged:
  "(initClient ''sqs SQS.processMessages'' s env wk w = (Some svc, wk1, ev1, w1) \<and>
    ReceiveMessageWithContext env svc (ReceiveMessageInput (QueueUrl (config s)) 10 20) 21 w1
      = (Inr msgs, w2) \<and>
    handleMessages s env msgs [] w2 = (d, ev3, w3)
    \<longrightarrow>
    deleteCalls (fst (snd (processMessages_iter s env wk w)))
      = (if d = [] then [] else [DeleteMessageBatchInput d (QueueUrl (config s))]) \<and>
    (msgs = [] \<longrightarrow>
       processMessages_iter s env wk w
         = (wk1, ev1 @ [CallReceiveMessage svc (ReceiveMessageInput (QueueUrl (config s)) 10 20) 21],
            w2)) \<and>
    (d = [] \<longrightarrow>
       processMessages_iter s env wk w
         = (wk1,
            ev1 @ [CallReceiveMessage svc (ReceiveMessageInput (QueueUrl (config s)) 10 20) 21]
              @ ev3, w3)) \<and>
    (d \<noteq> [] \<and>
     DeleteMessageBatchWithContext env svc (DeleteMessageBatchInput d (QueueUrl (config s))) 1 w3
       = (r, w4)
     \<longrightarrow>
       processMessages_iter s env wk w
         = (wk1,
            ev1 @ [CallReceiveMessage svc (ReceiveMessageInput (QueueUrl (config s)) 10 20) 21]
              @ ev3
              @ CallDeleteMessageBatch svc (DeleteMessageBatchInput d (QueueUrl (config s))) 1
                # (case r of
                     None \<Rightarrow> []
                   | Some x \<Rightarrow>
                       [ErrorWithFields ''sqs SQS.processMessages delete message fail.''
                          [(''error'', FStr x)]]), w4)))
   \<and>
   (initClient ''sqs SQS.processMessages'' s env wk w = (Some svc, wk1, ev1, w1) \<and>
    ReceiveMessageWithContext env svc (ReceiveMessageInput (QueueUrl (config s)) 10 20) 21 w1
      = (Inl e, w2)
    \<longrightarrow>
    deleteCalls (fst (snd (processMessages_iter s env wk w))) = [] \<and>
    processMessages_iter s env wk w
      = (wk1,
         ev1 @ [CallReceiveMessage svc (ReceiveMessageInput (QueueUrl (config s)) 10 20) 21,
                ErrorWithFields ''sqs SQS.processMessages receive message fail.''
                  [(''err'', FStr e)]], w2))
   \<and>
   (initClient ''sqs SQS.processMessages'' s env wk w = (None, wk1, ev1, w1)
    \<longrightarrow>
    deleteCalls (fst (snd (processMessages_iter s env wk w))) = [] \<and>
    processMessages_iter s env wk w = (wk1, ev1, w1))
   \<and>
   (initClient ''sqs SQS.processMessagesV1'' s env wk w = (Some svc, wk1, ev1, w1) \<and>
    ReceiveMessageWithContext env svc (ReceiveMessageInput (QueueUrl (config s)) 10 5) 6 w1
      = (Inr msgs, w2) \<and>
    handleMessagesV1 s env 0 msgs [] w2 = (d, ev3, w3)
    \<longrightarrow>
    deleteCalls (fst (snd (processMessagesV1_iter s env wk w)))
      = (if d = [] then [] else [DeleteMessageBatchInput d (QueueUrl (config s))]) \<and>
    (msgs = [] \<longrightarrow>
       processMessagesV1_iter s env wk w
         = (wk1, ev1 @ [CallReceiveMessage svc (ReceiveMessageInput (QueueUrl (config s)) 10 5) 6],
            w2)) \<and>
    (msgs \<noteq> [] \<and> d = [] \<longrightarrow>
       processMessagesV1_iter s env wk w
         = (wk1,
            ev1 @ [CallReceiveMessage svc (ReceiveMessageInput (QueueUrl (config s)) 10 5) 6,
                   InfoWithFields ''sqs SQS.processMessagesV1 received messages''
                     [(''len'', FInt (int (length msgs)))]]
              @ ev3, w3)) \<and>
    (d \<noteq> [] \<and>
     DeleteMessageBatchWithContext env svc (DeleteMessageBatchInput d (QueueUrl (config s))) 1 w3
       = (r, w4)
     \<longrightarrow>
       processMessagesV1_iter s env wk w
         = (wk1,
            ev1 @ [CallReceiveMessage svc (ReceiveMessageInput (QueueUrl (config s)) 10 5) 6,
                   InfoWithFields ''sqs SQS.processMessagesV1 received messages''
                     [(''len'', FInt (int (length msgs)))]]
              @ ev3
              @ CallDeleteMessageBatch svc (DeleteMessageBatchInput d (QueueUrl (config s))) 1
                # (case r of
                     None \<Rightarrow> []
                   | Some x \<Rightarrow>
                       [ErrorWithFields ''sqs SQS.processMessagesV1 delete message fail.''
                          [(''error'', FStr x)]]), w4)))
   \<and>
   (initClient ''sqs SQS.processMessagesV1'' s env wk w = (Some svc, wk1, ev1, w1) \<and>
    ReceiveMessageWithContext env svc (ReceiveMessageInput (QueueUrl (config s)) 10 5) 6 w1
      = (Inl e, w2)
    \<longrightarrow>
    deleteCalls (fst (snd (processMessagesV1_iter s env wk w))) = [] \<and>
    processMessagesV1_iter s env wk w
      = (wk1,
         ev1 @ CallReceiveMessage svc (ReceiveMessageInput (QueueUrl (config s)) 10 5) 6
           # (if \<not> Contains e ''context deadline exceeded''
              then [ErrorWithFields ''sqs SQS.processMessagesV1 receive message fail.''
                      [(''err'', FStr e)]]
              else []), w2))
   \<and>
   (initClient ''sqs SQS.processMessagesV1'' s env wk w = (None, wk1, ev1, w1)
    \<longrightarrow>
    deleteCalls (fst (snd (processMessagesV1_iter s env wk w))) = [] \<and>
    processMessagesV1_iter s env wk w = (wk1, ev1, w1))"
proof (intro conjI impI; (elim conjE)?)
  assume init: "initClient ''sqs SQS.processMessages'' s env wk w = (Some svc, wk1, ev1, w1)"
    and recv: "ReceiveMessageWithContext env svc (ReceiveMessageInput (QueueUrl (config s)) 10 20) 21 w1
      = (Inr msgs, w2)"
    and loop: "handleMessages s env msgs [] w2 = (d, ev3, w3)"
  obtain ev4 w4' where del: "deleteMessages ''sqs SQS.processMessages'' s env svc d w3 = (ev4, w4')"
    by (cases "deleteMessages ''sqs SQS.processMessages'' s env svc d w3")
  show "deleteCalls (fst (snd (processMessages_iter s env wk w)))
      = (if d = [] then [] else [DeleteMessageBatchInput d (QueueUrl (config s))])"
    using processMessages_iter_batch [OF init recv loop del] initClient_no_delete [OF init]
      handleMessages_no_delete [OF loop] deleteMessages_calls [OF del]
    by (simp add: deleteCalls_append)
  {
    assume "msgs = []"
    with init recv show "processMessages_iter s env wk w
         = (wk1, ev1 @ [CallReceiveMessage svc (ReceiveMessageInput (QueueUrl (config s)) 10 20) 21],
            w2)"
      by (simp add: processMessages_iter_def)
  }
  {
    assume "d = []"
    then show "processMessages_iter s env wk w
         = (wk1,
            ev1 @ [CallReceiveMessage svc (ReceiveMessageInput (QueueUrl (config s)) 10 20) 21]
              @ ev3, w3)"
      using processMessages_iter_batch [OF init recv loop, of "[]" w3]
      by (simp add: deleteMessages_none)
  }
  {
    assume d: "d \<noteq> []"
      and call: "DeleteMessageBatchWithContext env svc
          (DeleteMessageBatchInput d (QueueUrl (config s))) 1 w3 = (r, w4)"
    show "processMessages_iter s env wk w
         = (wk1,
            ev1 @ [CallReceiveMessage svc (ReceiveMessageInput (QueueUrl (config s)) 10 20) 21]
              @ ev3
              @ CallDeleteMessageBatch svc (DeleteMessageBatchInput d (QueueUrl (config s))) 1
                # (case r of
                     None \<Rightarrow> []
                   | Some x \<Rightarrow>
                       [ErrorWithFields ''sqs SQS.processMessages delete message fail.''
                          [(''error'', FStr x)]]), w4)"
      using processMessages_iter_batch [OF init recv loop
          deleteMessages_result [OF d call, of "''sqs SQS.processMessages''"]]
      by (cases r) simp_all
  }
next
  assume init: "initClient ''sqs SQS.processMessages'' s env wk w = (Some svc, wk1, ev1, w1)"
    and recv: "ReceiveMessageWithContext env svc (ReceiveMessageInput (QueueUrl (config s)) 10 20) 21 w1
      = (Inl e, w2)"
  show it: "processMessages_iter s env wk w
      = (wk1,
         ev1 @ [CallReceiveMessage svc (ReceiveMessageInput (QueueUrl (config s)) 10 20) 21,
                ErrorWithFields ''sqs SQS.processMessages receive message fail.''
                  [(''err'', FStr e)]], w2)"
    using init recv by (simp add: processMessages_iter_def)
  show "deleteCalls (fst (snd (processMessages_iter s env wk w))) = []"
    using it initClient_no_delete [OF init] by (simp add: deleteCalls_append)
next
  assume init: "initClient ''sqs SQS.processMessages'' s env wk w = (None, wk1, ev1, w1)"
  show it: "processMessages_iter s env wk w = (wk1, ev1, w1)"
    using init by (simp add: processMessages_iter_def)
  show "deleteCalls (fst (snd (processMessages_iter s env wk w))) = []"
    using it initClient_no_delete [OF init] by simp
next
  assume init: "initClient ''sqs SQS.processMessagesV1'' s env wk w = (Some svc, wk1, ev1, w1)"
    and recv: "ReceiveMessageWithContext env svc (ReceiveMessageInput (QueueUrl (config s)) 10 5) 6 w1
      = (Inr msgs, w2)"
    and loop: "handleMessagesV1 s env 0 msgs [] w2 = (d, ev3, w3)"
  obtain ev4 w4' where del: "deleteMessages ''sqs SQS.processMessagesV1'' s env svc d w3 = (ev4, w4')"
    by (cases "deleteMessages ''sqs SQS.processMessagesV1'' s env svc d w3")
  show "deleteCalls (fst (snd (processMessagesV1_iter s env wk w)))
      = (if d = [] then [] else [DeleteMessageBatchInput d (QueueUrl (config s))])"
  proof (cases "msgs = []")
    case True
    with init recv loop initClient_no_delete [OF init] show ?thesis
      by (simp add: processMessagesV1_iter_def deleteCalls_append)
  next
    case False
    from processMessagesV1_iter_batch [OF init recv False loop del] initClient_no_delete [OF init]
      handleMessagesV1_no_delete [OF loop] deleteMessages_calls [OF del]
    show ?thesis
      by (simp add: deleteCalls_append)
  qed
  {
    assume "msgs = []"
    with init recv show "processMessagesV1_iter s env wk w
         = (wk1, ev1 @ [CallReceiveMessage svc (ReceiveMessageInput (QueueUrl (config s)) 10 5) 6],
            w2)"
      by (simp add: processMessagesV1_iter_def)
  }
  {
    assume msgs: "msgs \<noteq> []" and "d = []"
    then show "processMessagesV1_iter s env wk w
         = (wk1,
            ev1 @ [CallReceiveMessage svc (ReceiveMessageInput (QueueUrl (config s)) 10 5) 6,
                   InfoWithFields ''sqs SQS.processMessagesV1 received messages''
                     [(''len'', FInt (int (length msgs)))]]
              @ ev3, w3)"
      using processMessagesV1_iter_batch [OF init recv msgs loop, of "[]" w3]
      by (simp add: deleteMessages_none)
  }
  {
    assume d: "d \<noteq> []"
      and call: "DeleteMessageBatchWithContext env svc
          (DeleteMessageBatchInput d (QueueUrl (config s))) 1 w3 = (r, w4)"
    from loop d have msgs: "msgs \<noteq> []"
      by auto
    show "processMessagesV1_iter s env wk w
         = (wk1,
            ev1 @ [CallReceiveMessage svc (ReceiveMessageInput (QueueUrl (config s)) 10 5) 6,
                   InfoWithFields ''sqs SQS.processMessagesV1 received messages''
                     [(''len'', FInt (int (length msgs)))]]
              @ ev3
              @ CallDeleteMessageBatch svc (DeleteMessageBatchInput d (QueueUrl (config s))) 1
                # (case r of
                     None \<Rightarrow> []
                   | Some x \<Rightarrow>
                       [ErrorWithFields ''sqs SQS.processMessagesV1 delete message fail.''
                          [(''error'', FStr x)]]), w4)"
      using processMessagesV1_iter_batch [OF init recv msgs loop
          deleteMessages_result [OF d call, of "''sqs SQS.processMessagesV1''"]]
      by (cases r) simp_all
  }
next
  assume init: "initClient ''sqs SQS.processMessagesV1'' s env wk w = (Some svc, wk1, ev1, w1)"
    and recv: "ReceiveMessageWithContext env svc (ReceiveMessageInput (QueueUrl (config s)) 10 5) 6 w1
      = (Inl e, w2)"
  show it: "processMessagesV1_iter s env wk w
      = (wk1,
         ev1 @ CallReceiveMessage svc (ReceiveMessageInput (QueueUrl (config s)) 10 5) 6
           # (if \<not> Contains e ''context deadline exceeded''
              then [ErrorWithFields ''sqs SQS.processMessagesV1 receive message fail.''
                      [(''err'', FStr e)]]
              else []), w2)"
    using init recv by (simp add: processMessagesV1_iter_def)
  show "deleteCalls (fst (snd (processMessagesV1_iter s env wk w))) = []"
    using it initClient_no_delete [OF init] by (simp add: deleteCalls_append)
next
  assume init: "initClient ''sqs SQS.processMessagesV1'' s env wk w = (None, wk1, ev1, w1)"
  show it: "processMessagesV1_iter s env wk w = (wk1, ev1, w1)"
    using init by (simp add: processMessagesV1_iter_def)
  show "deleteCalls (fst (snd (processMessagesV1_iter s env wk w))) = []"
    using it initClient_no_delete [OF init] by simp
qed

theorem delete_iff_staged_witness:
  "deleteCalls (fst (snd (processMessages_iter (stubSQS (Some stubCB)) (stubEnv True) worker0 (scripted0 [[msg ''2'' (envelope ''bad'')]])))) = []
   \<and> snd (snd (processMessages_iter (stubSQS (Some stubCB)) (stubEnv True) worker0 (scripted0 [[msg ''2'' (envelope ''bad'')]])))
       = \<lparr>inbox = [], deleted = [], seen = [''bad''], clock = 0\<rparr>
   \<and> deleteCalls (fst (snd (processMessages_iter (stubSQS (Some stubCB)) (stubEnv True) worker0 (scripted0 [[msg ''9'' ''not json'']]))))
       = [DeleteMessageBatchInput [entryOf (msg ''9'' ''not json'')] ''https://q'']
   \<and> snd (snd (processMessages_iter (stubSQS (Some stubCB)) (stubEnv True) worker0 (scripted0 [[msg ''9'' ''not json'']])))
       = \<lparr>inbox = [], deleted = [entryOf (msg ''9'' ''not json'')], seen = [], clock = 0\<rparr>
   \<and> deleteCalls (fst (snd (processMessages_iter (stubSQS (Some stubCB)) (stubEnv False) worker0 (scripted0 [[msg ''9'' ''not json'']]))))
       = [DeleteMessageBatchInput [entryOf (msg ''9'' ''not json'')] ''https://q'']
   \<and> snd (snd (processMessages_iter (stubSQS (Some stubCB)) (stubEnv False) worker0 (scripted0 [[msg ''9'' ''not json'']])))
       = \<lparr>inbox = [], deleted = [], seen = [], clock = 0\<rparr>
   \<and> last (errorLines (fst (snd (processMessages_iter (stubSQS (Some stubCB)) (stubEnv False) worker0 (scripted0 [[msg ''9'' ''not json'']])))))
       = ''sqs SQS.processMessages delete message fail.''
   \<and> processMessages_iter (stubSQS (Some stubCB)) (stubEnv True) worker0 (scripted0 [[]])
       = (\<lparr>cfgSession = Some (Session 7), service = Some (New (Session 7)), err = None\<rparr>,
          [CallNewSession (aws_Config ''eu-west-1'' None),
           Info ''sqs SQS.processMessages session init success'', CallNew (Session 7),
           CallReceiveMessage (New (Session 7)) (ReceiveMessageInput ''https://q'' 10 20) 21],
          scripted0 [])
   \<and> deleteCalls (fst (snd (processMessages_iter (stubSQS (Some stubCB)) (stubEnv True) worker0 (scripted0 [])))) = []
   \<and> snd (snd (processMessages_iter (stubSQS (Some stubCB)) (stubEnv True) worker0 (scripted0 [])))
       = \<lparr>inbox = [], deleted = [], seen = [], clock = 21000000000\<rparr>
   \<and> deleteCalls (fst (snd (processMessages_iter (stubSQS (Some stubCB)) downEnv worker0 (scripted0 [wrappedBatch])))) = []
   \<and> snd (snd (processMessages_iter (stubSQS (Some stubCB)) downEnv worker0 (scripted0 [wrappedBatch]))) = scripted0 [wrappedBatch]
   \<and> deleteCalls (fst (snd (processMessagesV1_iter (stubSQS (Some stubCB)) (stubEnv True) worker0 (scripted0 [[msg ''2'' ''bad'']])))) = []
   \<and> snd (snd (processMessagesV1_iter (stubSQS (Some stubCB)) (stubEnv True) worker0 (scripted0 [[msg ''2'' ''bad'']])))
       = \<lparr>inbox = [], deleted = [], seen = [''bad''], clock = 0\<rparr>
   \<and> deleteCalls (fst (snd (processMessagesV1_iter (stubSQS (Some stubCB)) (stubEnv True) worker0 (scripted0 [[msg ''9'' ''not json'']]))))
       = [DeleteMessageBatchInput [entryOf (msg ''9'' ''not json'')] ''https://q'']
   \<and> snd (snd (processMessagesV1_iter (stubSQS (Some stubCB)) (stubEnv True) worker0 (scripted0 [[msg ''9'' ''not json'']])))
       = \<lparr>inbox = [], deleted = [entryOf (msg ''9'' ''not json'')], seen = [''not json''], clock = 2000000\<rparr>
   \<and> deleteCalls (fst (snd (processMessagesV1_iter (stubSQS (Some stubCB)) (stubEnv False) worker0 (scripted0 [[msg ''9'' ''not json'']]))))
       = [DeleteMessageBatchInput [entryOf (msg ''9'' ''not json'')] ''https://q'']
   \<and> snd (snd (processMessagesV1_iter (stubSQS (Some stubCB)) (stubEnv False) worker0 (scripted0 [[msg ''9'' ''not json'']])))
       = \<lparr>inbox = [], deleted = [], seen = [''not json''], clock = 2000000\<rparr>
   \<and> last (errorLines (fst (snd (processMessagesV1_iter (stubSQS (Some stubCB)) (stubEnv False) worker0 (scripted0 [[msg ''9'' ''not json'']])))))
       = ''sqs SQS.processMessagesV1 delete message fail.''
   \<and> processMessagesV1_iter (stubSQS (Some stubCB)) (stubEnv True) worker0 (scripted0 [[]])
       = (\<lparr>cfgSession = Some (Session 7), service = Some (New (Session 7)), err = None\<rparr>,
          [CallNewSession (aws_Config ''eu-west-1'' None),
           Info ''sqs SQS.processMessagesV1 session init success'', CallNew (Session 7),
           CallReceiveMessage (New (Session 7)) (ReceiveMessageInput ''https://q'' 10 5) 6],
          scripted0 [])
   \<and> deleteCalls (fst (snd (processMessagesV1_iter (stubSQS (Some stubCB)) (stubEnv True) worker0 (scripted0 [])))) = []
   \<and> snd (snd (processMessagesV1_iter (stubSQS (Some stubCB)) (stubEnv True) worker0 (scripted0 [])))
       = \<lparr>inbox = [], deleted = [], seen = [], clock = 6000000000\<rparr>
   \<and> deleteCalls (fst (snd (processMessagesV1_iter (stubSQS (Some stubCB)) downEnv worker0 (scripted0 [wrappedBatch])))) = []
   \<and> snd (snd (processMessagesV1_iter (stubSQS (Some stubCB)) downEnv worker0 (scripted0 [wrappedBatch]))) = scripted0 [wrappedBatch]"
proof -
  let ?s = "stubSQS (Some stubCB)"
  let ?envT = "stubEnv True"
  let ?envF = "stubEnv False"
  let ?wk1 = "\<lparr>cfgSession = Some (Session 7), service = Some (New (Session 7)), err = None\<rparr>"
  let ?e = "''RequestCanceled: request context canceled caused by: context deadline exceeded''"
  have wbad:
    "initClient ''sqs SQS.processMessages'' ?s ?envT worker0 (scripted0 [[msg ''2'' (envelope ''bad'')]])
       = (Some (New (Session 7)), ?wk1,
          [CallNewSession (aws_Config ''eu-west-1'' None),
           Info ''sqs SQS.processMessages session init success'', CallNew (Session 7)],
          scripted0 [[msg ''2'' (envelope ''bad'')]]) \<and>
     ReceiveMessageWithContext ?envT (New (Session 7))
         (ReceiveMessageInput (QueueUrl (config ?s)) 10 20) 21 (scripted0 [[msg ''2'' (envelope ''bad'')]])
       = (Inr [msg ''2'' (envelope ''bad'')], scripted0 []) \<and>
     handleMessages ?s ?envT [msg ''2'' (envelope ''bad'')] [] (scripted0 [])
       = ([], fst (snd (handleMessages ?s ?envT [msg ''2'' (envelope ''bad'')] [] (scripted0 []))), \<lparr>inbox = [], deleted = [], seen = [''bad''], clock = 0\<rparr>)"
    by (simp add: model_defs stub_defs)
  have wpok:
    "initClient ''sqs SQS.processMessages'' ?s ?envT worker0 (scripted0 [[msg ''9'' ''not json'']])
       = (Some (New (Session 7)), ?wk1,
          [CallNewSession (aws_Config ''eu-west-1'' None),
           Info ''sqs SQS.processMessages session init success'', CallNew (Session 7)],
          scripted0 [[msg ''9'' ''not json'']]) \<and>
     ReceiveMessageWithContext ?envT (New (Session 7))
         (ReceiveMessageInput (QueueUrl (config ?s)) 10 20) 21 (scripted0 [[msg ''9'' ''not json'']])
       = (Inr [msg ''9'' ''not json''], scripted0 []) \<and>
     handleMessages ?s ?envT [msg ''9'' ''not json''] [] (scripted0 [])
       = ([entryOf (msg ''9'' ''not json'')], fst (snd (handleMessages ?s ?envT [msg ''9'' ''not json''] [] (scripted0 []))), \<lparr>inbox = [], deleted = [], seen = [], clock = 0\<rparr>)"
    by (simp add: model_defs stub_defs)
  have wdok:
    "[entryOf (msg ''9'' ''not json'')] \<noteq> [] \<and>
     DeleteMessageBatchWithContext ?envT (New (Session 7))
         (DeleteMessageBatchInput [entryOf (msg ''9'' ''not json'')] (QueueUrl (config ?s))) 1 \<lparr>inbox = [], deleted = [], seen = [], clock = 0\<rparr>
       = (None, \<lparr>inbox = [], deleted = [entryOf (msg ''9'' ''not json'')], seen = [], clock = 0\<rparr>)"
    by (simp add: model_defs stub_defs)
  have wpko:
    "initClient ''sqs SQS.processMessages'' ?s ?envF worker0 (scripted0 [[msg ''9'' ''not json'']])
       = (Some (New (Session 7)), ?wk1,
          [CallNewSession (aws_Config ''eu-west-1'' None),
           Info ''sqs SQS.processMessages session init success'', CallNew (Session 7)],
          scripted0 [[msg ''9'' ''not json'']]) \<and>
     ReceiveMessageWithContext ?envF (New (Session 7))
         (ReceiveMessageInput (QueueUrl (config ?s)) 10 20) 21 (scripted0 [[msg ''9'' ''not json'']])
       = (Inr [msg ''9'' ''not json''], scripted0 []) \<and>
     handleMessages ?s ?envF [msg ''9'' ''not json''] [] (scripted0 [])
       = ([entryOf (msg ''9'' ''not json'')], fst (snd (handleMessages ?s ?envF [msg ''9'' ''not json''] [] (scripted0 []))), \<lparr>inbox = [], deleted = [], seen = [], clock = 0\<rparr>)"
    by (simp add: model_defs stub_defs)
  have wdko:
    "[entryOf (msg ''9'' ''not json'')] \<noteq> [] \<and>
     DeleteMessageBatchWithContext ?envF (New (Session 7))
         (DeleteMessageBatchInput [entryOf (msg ''9'' ''not json'')] (QueueUrl (config ?s))) 1 \<lparr>inbox = [], deleted = [], seen = [], clock = 0\<rparr>
       = (Some ''ServiceUnavailable'', \<lparr>inbox = [], deleted = [], seen = [], clock = 0\<rparr>)"
    by (simp add: model_defs stub_defs)
  have wempty:
    "initClient ''sqs SQS.processMessages'' ?s ?envT worker0 (scripted0 [[]])
       = (Some (New (Session 7)), ?wk1,
          [CallNewSession (aws_Config ''eu-west-1'' None),
           Info ''sqs SQS.processMessages session init success'', CallNew (Session 7)],
          scripted0 [[]]) \<and>
     ReceiveMessageWithContext ?envT (New (Session 7))
         (ReceiveMessageInput (QueueUrl (config ?s)) 10 20) 21 (scripted0 [[]])
       = (Inr [], scripted0 []) \<and>
     handleMessages ?s ?envT [] [] (scripted0 [])
       = ([], fst (snd (handleMessages ?s ?envT [] [] (scripted0 []))), scripted0 [])"
    by (simp add: model_defs stub_defs)
  have wfail:
    "initClient ''sqs SQS.processMessages'' ?s ?envT worker0 (scripted0 [])
       = (Some (New (Session 7)), ?wk1,
          [CallNewSession (aws_Config ''eu-west-1'' None),
           Info ''sqs SQS.processMessages session init success'', CallNew (Session 7)],
          scripted0 []) \<and>
     ReceiveMessageWithContext ?envT (New (Session 7))
         (ReceiveMessageInput (QueueUrl (config ?s)) 10 20) 21 (scripted0 [])
       = (Inl ?e, (scripted0 [])\<lparr>clock := 21000000000\<rparr>)"
    by (simp add: model_defs stub_defs)
  have wdown:
    "initClient ''sqs SQS.processMessages'' ?s downEnv worker0 (scripted0 [wrappedBatch])
       = (None, worker0\<lparr>err := Some ''sqs SQS.processMessages session: no region''\<rparr>,
          [CallNewSession (aws_Config ''eu-west-1'' None),
           ErrorWithFields ''sqs SQS.processMessages session''
             [(''err'', FStr ''sqs SQS.processMessages session: no region'')]],
          scripted0 [wrappedBatch])"
    by (simp add: model_defs stub_defs)
  have rbad:
    "initClient ''sqs SQS.processMessagesV1'' ?s ?envT worker0 (scripted0 [[msg ''2'' ''bad'']])
       = (Some (New (Session 7)), ?wk1,
          [CallNewSession (aws_Config ''eu-west-1'' None),
           Info ''sqs SQS.processMessagesV1 session init success'', CallNew (Session 7)],
          scripted0 [[msg ''2'' ''bad'']]) \<and>
     ReceiveMessageWithContext ?envT (New (Session 7))
         (ReceiveMessageInput (QueueUrl (config ?s)) 10 5) 6 (scripted0 [[msg ''2'' ''bad'']])
       = (Inr [msg ''2'' ''bad''], scripted0 []) \<and>
     handleMessagesV1 ?s ?envT 0 [msg ''2'' ''bad''] [] (scripted0 [])
       = ([], fst (snd (handleMessagesV1 ?s ?envT 0 [msg ''2'' ''bad''] [] (scripted0 []))), \<lparr>inbox = [], deleted = [], seen = [''bad''], clock = 0\<rparr>)"
    by (simp add: model_defs stub_defs)
  have rne: "[msg ''2'' ''bad''] \<noteq> [] \<and> ([] :: DeleteMessageBatchRequestEntry list) = []"
    by simp
  have rpok:
    "initClient ''sqs SQS.processMessagesV1'' ?s ?envT worker0 (scripted0 [[msg ''9'' ''not json'']])
       = (Some (New (Session 7)), ?wk1,
          [CallNewSession (aws_Config ''eu-west-1'' None),
           Info ''sqs SQS.processMessagesV1 session init success'', CallNew (Session 7)],
          scripted0 [[msg ''9'' ''not json'']]) \<and>
     ReceiveMessageWithContext ?envT (New (Session 7))
         (ReceiveMessageInput (QueueUrl (config ?s)) 10 5) 6 (scripted0 [[msg ''9'' ''not json'']])
       = (Inr [msg ''9'' ''not json''], scripted0 []) \<and>
     handleMessagesV1 ?s ?envT 0 [msg ''9'' ''not json''] [] (scripted0 [])
       = ([entryOf (msg ''9'' ''not json'')], fst (snd (handleMessagesV1 ?s ?envT 0 [msg ''9'' ''not json''] [] (scripted0 []))), \<lparr>inbox = [], deleted = [], seen = [''not json''], clock = 2000000\<rparr>)"
    by (simp add: model_defs stub_defs)
  have rdok:
    "[entryOf (msg ''9'' ''not json'')] \<noteq> [] \<and>
     DeleteMessageBatchWithContext ?envT (New (Session 7))
         (DeleteMessageBatchInput [entryOf (msg ''9'' ''not json'')] (QueueUrl (config ?s))) 1 \<lparr>inbox = [], deleted = [], seen = [''not json''], clock = 2000000\<rparr>
       = (None, \<lparr>inbox = [], deleted = [entryOf (msg ''9'' ''not json'')], seen = [''not json''], clock = 2000000\<rparr>)"
    by (simp add: model_defs stub_defs)
  have rpko:
    "initClient ''sqs SQS.processMessagesV1'' ?s ?envF worker0 (scripted0 [[msg ''9'' ''not json'']])
       = (Some (New (Session 7)), ?wk1,
          [CallNewSession (aws_Config ''eu-west-1'' None),
           Info ''sqs SQS.processMessagesV1 session init success'', CallNew (Session 7)],
          scripted0 [[msg ''9'' ''not json'']]) \<and>
     ReceiveMessageWithContext ?envF (New (Session 7))
         (ReceiveMessageInput (QueueUrl (config ?s)) 10 5) 6 (scripted0 [[msg ''9'' ''not json'']])
       = (Inr [msg ''9'' ''not json''], scripted0 []) \<and>
     handleMessagesV1 ?s ?envF 0 [msg ''9'' ''not json''] [] (scripted0 [])
       = ([entryOf (msg ''9'' ''not json'')], fst (snd (handleMessagesV1 ?s ?envF 0 [msg ''9'' ''not json''] [] (scripted0 []))), \<lparr>inbox = [], deleted = [], seen = [''not json''], clock = 2000000\<rparr>)"
    by (simp add: model_defs stub_defs)
  have rdko:
    "[entryOf (msg ''9'' ''not json'')] \<noteq> [] \<and>
     DeleteMessageBatchWithContext ?envF (New (Session 7))
         (DeleteMessageBatchInput [entryOf (msg ''9'' ''not json'')] (QueueUrl (config ?s))) 1 \<lparr>inbox = [], deleted = [], seen = [''not json''], clock = 2000000\<rparr>
       = (Some ''ServiceUnavailable'', \<lparr>inbox = [], deleted = [], seen = [''not json''], clock = 2000000\<rparr>)"
    by (simp add: model_defs stub_defs)
  have rempty:
    "initClient ''sqs SQS.processMessagesV1'' ?s ?envT worker0 (scripted0 [[]])
       = (Some (New (Session 7)), ?wk1,
          [CallNewSession (aws_Config ''eu-west-1'' None),
           Info ''sqs SQS.processMessagesV1 session init success'', CallNew (Session 7)],
          scripted0 [[]]) \<and>
     ReceiveMessageWithContext ?envT (New (Session 7))
         (ReceiveMessageInput (QueueUrl (config ?s)) 10 5) 6 (scripted0 [[]])
       = (Inr [], scripted0 []) \<and>
     handleMessagesV1 ?s ?envT 0 [] [] (scripted0 [])
       = ([], fst (snd (handleMessagesV1 ?s ?envT 0 [] [] (scripted0 []))), scripted0 [])"
    by (simp add: model_defs stub_defs)
  have rfail:
    "initClient ''sqs SQS.processMessagesV1'' ?s ?envT worker0 (scripted0 [])
       = (Some (New (Session 7)), ?wk1,
          [CallNewSession (aws_Config ''eu-west-1'' None),
           Info ''sqs SQS.processMessagesV1 session init success'', CallNew (Session 7)],
          scripted0 []) \<and>
     ReceiveMessageWithContext ?envT (New (Session 7))
         (ReceiveMessageInput (QueueUrl (config ?s)) 10 5) 6 (scripted0 [])
       = (Inl ?e, (scripted0 [])\<lparr>clock := 6000000000\<rparr>)"
    by (simp add: model_defs stub_defs)
  have rdown:
    "initClient ''sqs SQS.processMessagesV1'' ?s downEnv worker0 (scripted0 [wrappedBatch])
       = (None, worker0\<lparr>err := Some ''sqs SQS.processMessagesV1 session: no region''\<rparr>,
          [CallNewSession (aws_Config ''eu-west-1'' None),
           ErrorWithFields ''sqs SQS.processMessagesV1 session''
             [(''err'', FStr ''sqs SQS.processMessagesV1 session: no region'')]],
          scripted0 [wrappedBatch])"
    by (simp add: model_defs stub_defs)
  note w1 = delete_iff_staged [THEN conjunct1, rule_format, OF wbad]
  note w1n = w1 [THEN conjunct2, THEN conjunct2, THEN conjunct1, rule_format, OF refl]
  note w2ok = delete_iff_staged [THEN conjunct1, rule_format, OF wpok]
  note w2okd = w2ok [THEN conjunct2, THEN conjunct2, THEN conjunct2, rule_format, OF wdok]
  note w2ko = delete_iff_staged [THEN conjunct1, rule_format, OF wpko]
  note w2kod = w2ko [THEN conjunct2, THEN conjunct2, THEN conjunct2, rule_format, OF wdko]
  note w3 = delete_iff_staged [THEN conjunct1, rule_format, OF wempty, THEN conjunct2, THEN conjunct1, rule_format, OF refl]
  note w4 = delete_iff_staged [THEN conjunct2, THEN conjunct1, rule_format, OF wfail]
  note w5 = delete_iff_staged [THEN conjunct2, THEN conjunct2, THEN conjunct1, rule_format, OF wdown]
  note r1 = delete_iff_staged [THEN conjunct2, THEN conjunct2, THEN conjunct2, THEN conjunct1, rule_format, OF rbad]
  note r1n = r1 [THEN conjunct2, THEN conjunct2, THEN conjunct1, rule_format, OF rne]
  note r2ok = delete_iff_staged [THEN conjunct2, THEN conjunct2, THEN conjunct2, THEN conjunct1, rule_format, OF rpok]
  note r2okd = r2ok [THEN conjunct2, THEN conjunct2, THEN conjunct2, rule_format, OF rdok]
  note r2ko = delete_iff_staged [THEN conjunct2, THEN conjunct2, THEN conjunct2, THEN conjunct1, rule_format, OF rpko]
  note r2kod = r2ko [THEN conjunct2, THEN conjunct2, THEN conjunct2, rule_format, OF rdko]
  note r3 = delete_iff_staged [THEN conjunct2, THEN conjunct2, THEN conjunct2, THEN conjunct1, rule_format, OF rempty, THEN conjunct2, THEN conjunct1, rule_format, OF refl]
  note r4 = delete_iff_staged [THEN conjunct2, THEN conjunct2, THEN conjunct2, THEN conjunct2, THEN conjunct1, rule_format, OF rfail]
  note r5 = delete_iff_staged [THEN conjunct2, THEN conjunct2, THEN conjunct2, THEN conjunct2, THEN conjunct2, rule_format, OF rdown]
  from w1 w1n w2ok w2okd w2ko w2kod w3 w4 w5 r1 r1n r2ok r2okd r2ko r2kod r3 r4 r5 show ?thesis
    by (simp add: model_defs stub_defs errorLines_append)
qed

lemma handleMessages_pairs:
  "handleMessages s env msgs [] w = (d, ev, w') \<Longrightarrow>
     set d \<subseteq> (\<lambda>x. \<lparr>Id = MessageId x, EntryReceiptHandle = ReceiptHandle x\<rparr>) ` set msgs"
  using handleMessages_entries [of s env msgs "[]" w d ev w']
  by (auto simp: entryOf_def)

lemma handleMessagesV1_pairs:
  "handleMessagesV1 s env i msgs [] w = (d, ev, w') \<Longrightarrow>
     set d \<subseteq> (\<lambda>x. \<lparr>Id = MessageId x, EntryReceiptHandle = ReceiptHandle x\<rparr>) ` set msgs"
  using handleMessagesV1_entries [of s env i msgs "[]" w d ev w']
  by (auto simp: entryOf_def)

lemma distinct_pairs:
  "distinct (map (\<lambda>x. (MessageId x, ReceiptHandle x)) msgs) \<Longrightarrow>
     distinct (map (\<lambda>x. \<lparr>Id = MessageId x, EntryReceiptHandle = ReceiptHandle x\<rparr>) msgs)"
  by (induction msgs) auto

text \<open>
  C1, as the code has it. In an iteration that receives the batch \<open>pre @ m # post\<close>, let
  \<open>m\<close> have a body and let the callback return nil when it is called for \<open>m\<close>, in the
  world that the messages before \<open>m\<close> leave behind. Then the iteration stages, at the
  place of \<open>m\<close>, one entry whose \<open>Id\<close> is the \<open>MessageId\<close> of \<open>m\<close> and whose receipt
  handle is the \<open>ReceiptHandle\<close> of \<open>m\<close>, between the entries staged for \<open>pre\<close> and those
  staged for \<open>post\<close>. It calls \<open>DeleteMessageBatchWithContext\<close> once, on that list: the
  iteration ends in the world that this call returns and logs the error it returns, if
  any. The entry occurs exactly once in the list when the pairs of id and receipt handle
  of the batch are distinct. This holds in \<open>processMessages\<close> (the body decodes, the
  callback gets the inner message) and in \<open>processMessagesV1\<close> (the callback gets the
  body).
\<close>

theorem handled_message_deleted_once:
  assumes cb: "messageCB s = Some cb" and body: "Body m = Some body"
  shows
    "(initClient ''sqs SQS.processMessages'' s env wk w = (Some svc, wk1, ev1, w1) \<and>
      ReceiveMessageWithContext env svc (ReceiveMessageInput (QueueUrl (config s)) 10 20) 21 w1
        = (Inr (pre @ m # post), w2) \<and>
      handleMessages s env pre [] w2 = (d1, e1, w3) \<and>
      Unmarshal env body = Inr raw \<and>
      cb (Message raw) w3 = (None, w4) \<and>
      handleMessages s env post [] w4 = (d2, e2, w5) \<and>
      DeleteMessageBatchWithContext env svc
          (DeleteMessageBatchInput
             (d1 @ \<lparr>Id = MessageId m, EntryReceiptHandle = ReceiptHandle m\<rparr> # d2)
             (QueueUrl (config s))) 1 w5
        = (r, w6)
      \<longrightarrow>
      processMessages_iter s env wk w
        = (wk1,
           ev1 @ [CallReceiveMessage svc (ReceiveMessageInput (QueueUrl (config s)) 10 20) 21]
             @ e1
             @ [CallUnmarshal body, CallMessageCB (Message raw)]
             @ (if Milliseconds_Since env (Now env w3) w4 > HandleTimeoutMS
                then [ErrorWithFields ''sqs SQS.processMessages handle msg cost.''
                        [(''sqsArn'', FStr (ARN (config s))),
                         (''cost'', FInt (Milliseconds_Since env (Now env w3) w4))]]
                else [])
             @ e2
             @ CallDeleteMessageBatch svc
                 (DeleteMessageBatchInput
                    (d1 @ \<lparr>Id = MessageId m, EntryReceiptHandle = ReceiptHandle m\<rparr> # d2)
                    (QueueUrl (config s))) 1
               # (case r of
                    None \<Rightarrow> []
                  | Some x \<Rightarrow>
                      [ErrorWithFields ''sqs SQS.processMessages delete message fail.''
                         [(''error'', FStr x)]]), w6) \<and>
      deleteCalls (fst (snd (processMessages_iter s env wk w)))
        = [DeleteMessageBatchInput
             (d1 @ \<lparr>Id = MessageId m, EntryReceiptHandle = ReceiptHandle m\<rparr> # d2)
             (QueueUrl (config s))] \<and>
      (distinct (map (\<lambda>x. (MessageId x, ReceiptHandle x)) (pre @ m # post)) \<longrightarrow>
         count_list (d1 @ \<lparr>Id = MessageId m, EntryReceiptHandle = ReceiptHandle m\<rparr> # d2)
           \<lparr>Id = MessageId m, EntryReceiptHandle = ReceiptHandle m\<rparr> = 1))
     \<and>
     (initClient ''sqs SQS.processMessagesV1'' s env wk w = (Some svc, wk1, ev1, w1) \<and>
      ReceiveMessageWithContext env svc (ReceiveMessageInput (QueueUrl (config s)) 10 5) 6 w1
        = (Inr (pre @ m # post), w2) \<and>
      handleMessagesV1 s env 0 pre [] w2 = (d1, e1, w3) \<and>
      cb body w3 = (None, w4) \<and>
      handleMessagesV1 s env (int (length pre) + 1) post [] w4 = (d2, e2, w5) \<and>
      DeleteMessageBatchWithContext env svc
          (DeleteMessageBatchInput
             (d1 @ \<lparr>Id = MessageId m, EntryReceiptHandle = ReceiptHandle m\<rparr> # d2)
             (QueueUrl (config s))) 1 w5
        = (r, w6)
      \<longrightarrow>
      processMessagesV1_iter s env wk w
        = (wk1,
           ev1 @ [CallReceiveMessage svc (ReceiveMessageInput (QueueUrl (config s)) 10 5) 6,
                  InfoWithFields ''sqs SQS.processMessagesV1 received messages''
                    [(''len'', FInt (int (length (pre @ m # post))))]]
             @ e1
             @ [InfoWithFields ''sqs SQS.processMessagesV1 handle message''
                  [(''index'', FInt (int (length pre))), (''msg'', FMsg m)],
                CallMessageCB body]
             @ (if Milliseconds_Since env (Now env w3) w4 > HandleTimeoutMS
                then [ErrorWithFields ''sqs SQS.processMessagesV1 handle msg cost.''
                        [(''sqsArn'', FStr (ARN (config s))),
                         (''cost'', FInt (Milliseconds_Since env (Now env w3) w4))]]
                else [])
             @ e2
             @ CallDeleteMessageBatch svc
                 (DeleteMessageBatchInput
                    (d1 @ \<lparr>Id = MessageId m, EntryReceiptHandle = ReceiptHandle m\<rparr> # d2)
                    (QueueUrl (config s))) 1
               # (case r of
                    None \<Rightarrow> []
                  | Some x \<Rightarrow>
                      [ErrorWithFields ''sqs SQS.processMessagesV1 delete message fail.''
                         [(''error'', FStr x)]]), w6) \<and>
      deleteCalls (fst (snd (processMessagesV1_iter s env wk w)))
        = [DeleteMessageBatchInput
             (d1 @ \<lparr>Id = MessageId m, EntryReceiptHandle = ReceiptHandle m\<rparr> # d2)
             (QueueUrl (config s))] \<and>
      (distinct (map (\<lambda>x. (MessageId x, ReceiptHandle x)) (pre @ m # post)) \<longrightarrow>
         count_list (d1 @ \<lparr>Id = MessageId m, EntryReceiptHandle = ReceiptHandle m\<rparr> # d2)
           \<lparr>Id = MessageId m, EntryReceiptHandle = ReceiptHandle m\<rparr> = 1))"
proof (intro conjI impI; elim conjE)
  let ?en = "\<lparr>Id = MessageId m, EntryReceiptHandle = ReceiptHandle m\<rparr>"
  let ?f = "\<lambda>x. \<lparr>Id = MessageId x, EntryReceiptHandle = ReceiptHandle x\<rparr>"
  assume init: "initClient ''sqs SQS.processMessages'' s env wk w = (Some svc, wk1, ev1, w1)"
    and recv: "ReceiveMessageWithContext env svc (ReceiveMessageInput (QueueUrl (config s)) 10 20) 21 w1
        = (Inr (pre @ m # post), w2)"
    and pre: "handleMessages s env pre [] w2 = (d1, e1, w3)"
    and raw: "Unmarshal env body = Inr raw"
    and ok: "cb (Message raw) w3 = (None, w4)"
    and post: "handleMessages s env post [] w4 = (d2, e2, w5)"
    and call: "DeleteMessageBatchWithContext env svc
          (DeleteMessageBatchInput (d1 @ ?en # d2) (QueueUrl (config s))) 1 w5 = (r, w6)"
  let ?em1 = "[CallUnmarshal body, CallMessageCB (Message raw)]"
  let ?em2 = "(if Milliseconds_Since env (Now env w3) w4 > HandleTimeoutMS
                then [ErrorWithFields ''sqs SQS.processMessages handle msg cost.''
                        [(''sqsArn'', FStr (ARN (config s))),
                         (''cost'', FInt (Milliseconds_Since env (Now env w3) w4))]]
                else [])"
  have m: "handleMessage s env m d1 w3 = (d1 @ [?en], ?em1 @ ?em2, w4)"
    using handleMessage_success [OF cb body raw ok, where d = d1] by (simp add: entryOf_def)
  have all: "handleMessages s env (pre @ m # post) [] w2 = (d1 @ ?en # d2, e1 @ (?em1 @ ?em2) @ e2, w5)"
    using handleMessages_split [OF pre m post] by simp
  have ne: "d1 @ ?en # d2 \<noteq> []"
    by simp
  show it: "processMessages_iter s env wk w
        = (wk1,
           ev1 @ [CallReceiveMessage svc (ReceiveMessageInput (QueueUrl (config s)) 10 20) 21]
             @ e1 @ ?em1 @ ?em2 @ e2
             @ CallDeleteMessageBatch svc
                 (DeleteMessageBatchInput (d1 @ ?en # d2) (QueueUrl (config s))) 1
               # (case r of
                    None \<Rightarrow> []
                  | Some x \<Rightarrow>
                      [ErrorWithFields ''sqs SQS.processMessages delete message fail.''
                         [(''error'', FStr x)]]), w6)"
    using processMessages_iter_batch [OF init recv all
        deleteMessages_result [OF ne call, of "''sqs SQS.processMessages''"]]
    by (cases r) simp_all
  have "deleteCalls (e1 @ (?em1 @ ?em2) @ e2) = []"
    using handleMessages_no_delete [OF all] .
  then show "deleteCalls (fst (snd (processMessages_iter s env wk w)))
        = [DeleteMessageBatchInput (d1 @ ?en # d2) (QueueUrl (config s))]"
    using it initClient_no_delete [OF init]
    by (cases r) (simp_all add: deleteCalls_append)
  assume "distinct (map (\<lambda>x. (MessageId x, ReceiptHandle x)) (pre @ m # post))"
  then have "distinct (map ?f (pre @ m # post))"
    by (rule distinct_pairs)
  then show "count_list (d1 @ ?en # d2) ?en = 1"
    using handleMessages_pairs [OF pre] handleMessages_pairs [OF post]
    by (intro count_once [where f = ?f]) auto
next
  let ?en = "\<lparr>Id = MessageId m, EntryReceiptHandle = ReceiptHandle m\<rparr>"
  let ?f = "\<lambda>x. \<lparr>Id = MessageId x, EntryReceiptHandle = ReceiptHandle x\<rparr>"
  assume init: "initClient ''sqs SQS.processMessagesV1'' s env wk w = (Some svc, wk1, ev1, w1)"
    and recv: "ReceiveMessageWithContext env svc (ReceiveMessageInput (QueueUrl (config s)) 10 5) 6 w1
        = (Inr (pre @ m # post), w2)"
    and pre: "handleMessagesV1 s env 0 pre [] w2 = (d1, e1, w3)"
    and ok: "cb body w3 = (None, w4)"
    and post: "handleMessagesV1 s env (int (length pre) + 1) post [] w4 = (d2, e2, w5)"
    and call: "DeleteMessageBatchWithContext env svc
          (DeleteMessageBatchInput (d1 @ ?en # d2) (QueueUrl (config s))) 1 w5 = (r, w6)"
  let ?em1 = "[InfoWithFields ''sqs SQS.processMessagesV1 handle message''
                [(''index'', FInt (int (length pre))), (''msg'', FMsg m)],
              CallMessageCB body]"
  let ?em2 = "(if Milliseconds_Since env (Now env w3) w4 > HandleTimeoutMS
                then [ErrorWithFields ''sqs SQS.processMessagesV1 handle msg cost.''
                        [(''sqsArn'', FStr (ARN (config s))),
                         (''cost'', FInt (Milliseconds_Since env (Now env w3) w4))]]
                else [])"
  have m: "handleMessageV1 s env (int (length pre)) m d1 w3 = (d1 @ [?en], ?em1 @ ?em2, w4)"
    using handleMessageV1_success [OF cb body ok, where env = env and i = "int (length pre)" and d = d1]
    by (simp add: entryOf_def)
  have all: "handleMessagesV1 s env 0 (pre @ m # post) [] w2
               = (d1 @ ?en # d2, e1 @ (?em1 @ ?em2) @ e2, w5)"
    using handleMessagesV1_split [OF pre m post] by simp
  have ne: "d1 @ ?en # d2 \<noteq> []"
    by simp
  show it: "processMessagesV1_iter s env wk w
        = (wk1,
           ev1 @ [CallReceiveMessage svc (ReceiveMessageInput (QueueUrl (config s)) 10 5) 6,
                  InfoWithFields ''sqs SQS.processMessagesV1 received messages''
                    [(''len'', FInt (int (length (pre @ m # post))))]]
             @ e1 @ ?em1 @ ?em2 @ e2
             @ CallDeleteMessageBatch svc
                 (DeleteMessageBatchInput (d1 @ ?en # d2) (QueueUrl (config s))) 1
               # (case r of
                    None \<Rightarrow> []
                  | Some x \<Rightarrow>
                      [ErrorWithFields ''sqs SQS.processMessagesV1 delete message fail.''
                         [(''error'', FStr x)]]), w6)"
    using processMessagesV1_iter_batch [OF init recv _ all
        deleteMessages_result [OF ne call, of "''sqs SQS.processMessagesV1''"]]
    by (cases r) simp_all
  have "deleteCalls (e1 @ (?em1 @ ?em2) @ e2) = []"
    using handleMessagesV1_no_delete [OF all] .
  then show "deleteCalls (fst (snd (processMessagesV1_iter s env wk w)))
        = [DeleteMessageBatchInput (d1 @ ?en # d2) (QueueUrl (config s))]"
    using it initClient_no_delete [OF init]
    by (cases r) (simp_all add: deleteCalls_append)
  assume "distinct (map (\<lambda>x. (MessageId x, ReceiptHandle x)) (pre @ m # post))"
  then have "distinct (map ?f (pre @ m # post))"
    by (rule distinct_pairs)
  then show "count_list (d1 @ ?en # d2) ?en = 1"
    using handleMessagesV1_pairs [OF pre] handleMessagesV1_pairs [OF post]
    by (intro count_once [where f = ?f]) auto
qed

theorem handled_message_deleted_once_witness:
  "messageCB (stubSQS (Some stubCB)) = Some stubCB
   \<and> Body (msg ''3'' (envelope ''third'')) = Some (envelope ''third'')
   \<and> Body (msg ''3'' ''third'') = Some ''third''
   \<and> deleteCalls (fst (snd (processMessages_iter (stubSQS (Some stubCB)) (stubEnv True) worker0
         (scripted0 [wrappedBatch]))))
       = [DeleteMessageBatchInput
            [\<lparr>Id = Some ''1'', EntryReceiptHandle = Some ''rh-1''\<rparr>,
             \<lparr>Id = Some ''3'', EntryReceiptHandle = Some ''rh-3''\<rparr>,
             \<lparr>Id = Some ''4'', EntryReceiptHandle = Some ''rh-4''\<rparr>] ''https://q'']
   \<and> deleted (snd (snd (processMessages_iter (stubSQS (Some stubCB)) (stubEnv True) worker0
         (scripted0 [wrappedBatch]))))
       = [\<lparr>Id = Some ''1'', EntryReceiptHandle = Some ''rh-1''\<rparr>,
          \<lparr>Id = Some ''3'', EntryReceiptHandle = Some ''rh-3''\<rparr>,
          \<lparr>Id = Some ''4'', EntryReceiptHandle = Some ''rh-4''\<rparr>]
   \<and> deleteCalls (fst (snd (processMessagesV1_iter (stubSQS (Some stubCB)) (stubEnv True) worker0
         (scripted0 [rawBatch]))))
       = [DeleteMessageBatchInput
            [\<lparr>Id = Some ''1'', EntryReceiptHandle = Some ''rh-1''\<rparr>,
             \<lparr>Id = Some ''3'', EntryReceiptHandle = Some ''rh-3''\<rparr>] ''https://q'']
   \<and> deleted (snd (snd (processMessagesV1_iter (stubSQS (Some stubCB)) (stubEnv True) worker0
         (scripted0 [rawBatch]))))
       = [\<lparr>Id = Some ''1'', EntryReceiptHandle = Some ''rh-1''\<rparr>,
          \<lparr>Id = Some ''3'', EntryReceiptHandle = Some ''rh-3''\<rparr>]
   \<and> distinct (map (\<lambda>x. (MessageId x, ReceiptHandle x)) wrappedBatch)
   \<and> count_list
         [\<lparr>Id = Some ''1'', EntryReceiptHandle = Some ''rh-1''\<rparr>,
          \<lparr>Id = Some ''3'', EntryReceiptHandle = Some ''rh-3''\<rparr>,
          \<lparr>Id = Some ''4'', EntryReceiptHandle = Some ''rh-4''\<rparr>]
         \<lparr>Id = Some ''3'', EntryReceiptHandle = Some ''rh-3''\<rparr> = 1
   \<and> distinct (map (\<lambda>x. (MessageId x, ReceiptHandle x)) rawBatch)
   \<and> count_list
         [\<lparr>Id = Some ''1'', EntryReceiptHandle = Some ''rh-1''\<rparr>,
          \<lparr>Id = Some ''3'', EntryReceiptHandle = Some ''rh-3''\<rparr>]
         \<lparr>Id = Some ''3'', EntryReceiptHandle = Some ''rh-3''\<rparr> = 1"
proof -
  let ?s = "stubSQS (Some stubCB)"
  let ?env = "stubEnv True"
  let ?wk1 = "\<lparr>cfgSession = Some (Session 7), service = Some (New (Session 7)), err = None\<rparr>"
  let ?wm = "msg ''3'' (envelope ''third'')"
  let ?rm = "msg ''3'' ''third''"
  let ?wpre = "[msg ''1'' (envelope ''first''), msg ''2'' (envelope ''bad'')]"
  let ?rpre = "[msg ''1'' ''first'', msg ''2'' ''bad'']"
  let ?e1 = "\<lparr>Id = Some ''1'', EntryReceiptHandle = Some ''rh-1''\<rparr>"
  let ?e3 = "\<lparr>Id = Some ''3'', EntryReceiptHandle = Some ''rh-3''\<rparr>"
  let ?e4 = "\<lparr>Id = Some ''4'', EntryReceiptHandle = Some ''rh-4''\<rparr>"
  let ?w3 = "\<lparr>inbox = [], deleted = [], seen = [''first'', ''bad''], clock = 2000000\<rparr>"
  let ?w4 = "\<lparr>inbox = [], deleted = [], seen = [''first'', ''bad'', ''third''], clock = 4000000\<rparr>"
  have cb: "messageCB ?s = Some stubCB"
    by (simp add: stubSQS_def)
  have wbody: "Body ?wm = Some (envelope ''third'')"
    by (simp add: msg_def)
  have rbody: "Body ?rm = Some ''third''"
    by (simp add: msg_def)
  have whyp:
    "initClient ''sqs SQS.processMessages'' ?s ?env worker0 (scripted0 [wrappedBatch])
       = (Some (New (Session 7)), ?wk1,
          [CallNewSession (aws_Config ''eu-west-1'' None),
           Info ''sqs SQS.processMessages session init success'', CallNew (Session 7)],
          scripted0 [wrappedBatch]) \<and>
     ReceiveMessageWithContext ?env (New (Session 7))
         (ReceiveMessageInput (QueueUrl (config ?s)) 10 20) 21 (scripted0 [wrappedBatch])
       = (Inr (?wpre @ ?wm # [msg ''4'' ''not json'']), scripted0 []) \<and>
     handleMessages ?s ?env ?wpre [] (scripted0 [])
       = ([?e1], fst (snd (handleMessages ?s ?env ?wpre [] (scripted0 []))), ?w3) \<and>
     Unmarshal ?env (envelope ''third'') = Inr \<lparr>Message = ''third'', Timestamp = []\<rparr> \<and>
     stubCB (Message \<lparr>Message = ''third'', Timestamp = []\<rparr>) ?w3 = (None, ?w4) \<and>
     handleMessages ?s ?env [msg ''4'' ''not json''] [] ?w4
       = ([?e4], fst (snd (handleMessages ?s ?env [msg ''4'' ''not json''] [] ?w4)), ?w4) \<and>
     DeleteMessageBatchWithContext ?env (New (Session 7))
         (DeleteMessageBatchInput
            ([?e1] @ \<lparr>Id = MessageId ?wm, EntryReceiptHandle = ReceiptHandle ?wm\<rparr> # [?e4])
            (QueueUrl (config ?s))) 1 ?w4
       = (None, ?w4\<lparr>deleted := [?e1, ?e3, ?e4]\<rparr>)"
    by (simp add: model_defs stub_defs)
  have rhyp:
    "initClient ''sqs SQS.processMessagesV1'' ?s ?env worker0 (scripted0 [rawBatch])
       = (Some (New (Session 7)), ?wk1,
          [CallNewSession (aws_Config ''eu-west-1'' None),
           Info ''sqs SQS.processMessagesV1 session init success'', CallNew (Session 7)],
          scripted0 [rawBatch]) \<and>
     ReceiveMessageWithContext ?env (New (Session 7))
         (ReceiveMessageInput (QueueUrl (config ?s)) 10 5) 6 (scripted0 [rawBatch])
       = (Inr (?rpre @ ?rm # []), scripted0 []) \<and>
     handleMessagesV1 ?s ?env 0 ?rpre [] (scripted0 [])
       = ([?e1], fst (snd (handleMessagesV1 ?s ?env 0 ?rpre [] (scripted0 []))), ?w3) \<and>
     stubCB ''third'' ?w3 = (None, ?w4) \<and>
     handleMessagesV1 ?s ?env (int (length ?rpre) + 1) [] [] ?w4 = ([], [], ?w4) \<and>
     DeleteMessageBatchWithContext ?env (New (Session 7))
         (DeleteMessageBatchInput
            ([?e1] @ \<lparr>Id = MessageId ?rm, EntryReceiptHandle = ReceiptHandle ?rm\<rparr> # [])
            (QueueUrl (config ?s))) 1 ?w4
       = (None, ?w4\<lparr>deleted := [?e1, ?e3]\<rparr>)"
    by (simp add: model_defs stub_defs)
  have wdist: "distinct (map (\<lambda>x. (MessageId x, ReceiptHandle x))
                  (?wpre @ ?wm # [msg ''4'' ''not json'']))"
    by (simp add: msg_def)
  have rdist: "distinct (map (\<lambda>x. (MessageId x, ReceiptHandle x)) (?rpre @ ?rm # []))"
    by (simp add: msg_def)
  note w = handled_message_deleted_once [OF cb wbody, THEN conjunct1, rule_format, OF whyp]
  note r = handled_message_deleted_once [OF cb rbody, THEN conjunct2, rule_format, OF rhyp]
  note wonce = w [THEN conjunct2, THEN conjunct2, rule_format, OF wdist]
  note ronce = r [THEN conjunct2, THEN conjunct2, rule_format, OF rdist]
  from w r wonce ronce wdist rdist cb wbody rbody show ?thesis
    by (simp add: model_defs stub_defs)
qed

text \<open>
  C1 as the specification states it fails, in both loops: a batch that holds a message
  twice, with the same id and receipt handle, and whose callback returns nil both times
  yields a batch delete in which the entry of that message occurs twice.
\<close>

theorem handled_twice_counterexample:
  "Body (msg ''1'' (envelope ''first'')) = Some (envelope ''first'')
   \<and> handlerCalls (fst (snd (processMessages_iter (stubSQS (Some stubCB)) (stubEnv True) worker0
         (scripted0 [[msg ''1'' (envelope ''first''), msg ''1'' (envelope ''first'')]]))))
       = [''first'', ''first'']
   \<and> errorLines (fst (snd (processMessages_iter (stubSQS (Some stubCB)) (stubEnv True) worker0
         (scripted0 [[msg ''1'' (envelope ''first''), msg ''1'' (envelope ''first'')]])))) = []
   \<and> deleteCalls (fst (snd (processMessages_iter (stubSQS (Some stubCB)) (stubEnv True) worker0
         (scripted0 [[msg ''1'' (envelope ''first''), msg ''1'' (envelope ''first'')]]))))
       = [DeleteMessageBatchInput
            [\<lparr>Id = Some ''1'', EntryReceiptHandle = Some ''rh-1''\<rparr>,
             \<lparr>Id = Some ''1'', EntryReceiptHandle = Some ''rh-1''\<rparr>] ''https://q'']
   \<and> count_list
         [\<lparr>Id = Some ''1'', EntryReceiptHandle = Some ''rh-1''\<rparr>,
          \<lparr>Id = Some ''1'', EntryReceiptHandle = Some ''rh-1''\<rparr>]
         \<lparr>Id = Some ''1'', EntryReceiptHandle = Some ''rh-1''\<rparr> = 2
   \<and> Body (msg ''1'' ''first'') = Some ''first''
   \<and> handlerCalls (fst (snd (processMessagesV1_iter (stubSQS (Some stubCB)) (stubEnv True) worker0
         (scripted0 [[msg ''1'' ''first'', msg ''1'' ''first'']]))))
       = [''first'', ''first'']
   \<and> deleteCalls (fst (snd (processMessagesV1_iter (stubSQS (Some stubCB)) (stubEnv True) worker0
         (scripted0 [[msg ''1'' ''first'', msg ''1'' ''first'']]))))
       = [DeleteMessageBatchInput
            [\<lparr>Id = Some ''1'', EntryReceiptHandle = Some ''rh-1''\<rparr>,
             \<lparr>Id = Some ''1'', EntryReceiptHandle = Some ''rh-1''\<rparr>] ''https://q'']"
  by (simp add: model_defs stub_defs)

lemma handleMessageV1_called:
  assumes "messageCB s = Some cb" and "Body m = Some body" and "cb body w = (r, w')"
  shows "handleMessageV1 s env i m d w
           = (d @ (case r of
                     None \<Rightarrow> [\<lparr>Id = MessageId m, EntryReceiptHandle = ReceiptHandle m\<rparr>]
                   | Some x \<Rightarrow> []),
              [InfoWithFields ''sqs SQS.processMessagesV1 handle message''
                 [(''index'', FInt i), (''msg'', FMsg m)],
               CallMessageCB body] @
              (case r of
                 Some x \<Rightarrow>
                   [ErrorWithFields ''sqs SQS.processMessagesV1 handle msg fail.''
                      [(''err'', FStr x), (''msg'', FStr body)]]
               | None \<Rightarrow>
                   (if Milliseconds_Since env (Now env w) w' > HandleTimeoutMS
                    then [ErrorWithFields ''sqs SQS.processMessagesV1 handle msg cost.''
                            [(''sqsArn'', FStr (ARN (config s))),
                             (''cost'', FInt (Milliseconds_Since env (Now env w) w'))]]
                    else [])), w')"
  using assms by (cases r) (simp_all add: handleMessageV1_def Let_def entryOf_def)

text \<open>
  C5. \<open>processMessagesV1\<close> never hands anything to the JSON decoder, in any iteration, and
  what it does is the same whatever the decoder is. When there is a callback, the callback
  is called in an iteration once for every message of the received batch that has a body,
  in the order of the batch, with that body as its argument. For a message \<open>m\<close> of the
  batch \<open>pre @ m # post\<close> that has a body, the iteration is what applying the callback to
  that body gives, in the world that the messages before \<open>m\<close> leave behind: its result
  decides whether the entry of \<open>m\<close> is staged or the failure logged, and the messages
  after \<open>m\<close> and the batch delete go on from the world it returns.
\<close>

theorem raw_body_reaches_callback:
  "unmarshalCalls (concat (fst (snd (processMessagesV1_loop n s env wk w)))) = []
   \<and> processMessagesV1_loop n s (env\<lparr>Unmarshal := u\<rparr>) wk w = processMessagesV1_loop n s env wk w
   \<and> (messageCB s = Some cb \<and>
      initClient ''sqs SQS.processMessagesV1'' s env wk w = (Some svc, wk1, ev1, w1) \<and>
      ReceiveMessageWithContext env svc (ReceiveMessageInput (QueueUrl (config s)) 10 5) 6 w1
        = (Inr msgs, w2)
      \<longrightarrow>
      handlerCalls (fst (snd (processMessagesV1_iter s env wk w))) = List.map_filter Body msgs)
   \<and> (messageCB s = Some cb \<and> Body m = Some body \<and>
      initClient ''sqs SQS.processMessagesV1'' s env wk w = (Some svc, wk1, ev1, w1) \<and>
      ReceiveMessageWithContext env svc (ReceiveMessageInput (QueueUrl (config s)) 10 5) 6 w1
        = (Inr (pre @ m # post), w2) \<and>
      handleMessagesV1 s env 0 pre [] w2 = (d1, e1, w3) \<and>
      cb body w3 = (r, w4) \<and>
      handleMessagesV1 s env (int (length pre) + 1) post [] w4 = (d2, e2, w5) \<and>
      deleteMessages ''sqs SQS.processMessagesV1'' s env svc
          (d1 @ (case r of
                   None \<Rightarrow> [\<lparr>Id = MessageId m, EntryReceiptHandle = ReceiptHandle m\<rparr>]
                 | Some x \<Rightarrow> []) @ d2) w5
        = (ev4, w6)
      \<longrightarrow>
      processMessagesV1_iter s env wk w
        = (wk1,
           ev1 @ [CallReceiveMessage svc (ReceiveMessageInput (QueueUrl (config s)) 10 5) 6,
                  InfoWithFields ''sqs SQS.processMessagesV1 received messages''
                    [(''len'', FInt (int (length (pre @ m # post))))]]
             @ e1
             @ [InfoWithFields ''sqs SQS.processMessagesV1 handle message''
                  [(''index'', FInt (int (length pre))), (''msg'', FMsg m)],
                CallMessageCB body]
             @ (case r of
                  Some x \<Rightarrow>
                    [ErrorWithFields ''sqs SQS.processMessagesV1 handle msg fail.''
                       [(''err'', FStr x), (''msg'', FStr body)]]
                | None \<Rightarrow>
                    (if Milliseconds_Since env (Now env w3) w4 > HandleTimeoutMS
                     then [ErrorWithFields ''sqs SQS.processMessagesV1 handle msg cost.''
                             [(''sqsArn'', FStr (ARN (config s))),
                              (''cost'', FInt (Milliseconds_Since env (Now env w3) w4))]]
                     else []))
             @ e2 @ ev4, w6))"
proof (intro conjI impI; (elim conjE)?)
  show "unmarshalCalls (concat (fst (snd (processMessagesV1_loop n s env wk w)))) = []"
    by (rule processMessagesV1_loop_no_unmarshal)
  show "processMessagesV1_loop n s (env\<lparr>Unmarshal := u\<rparr>) wk w = processMessagesV1_loop n s env wk w"
    by (rule processMessagesV1_loop_decoder)
next
  assume cb: "messageCB s = Some cb"
    and init: "initClient ''sqs SQS.processMessagesV1'' s env wk w = (Some svc, wk1, ev1, w1)"
    and recv: "ReceiveMessageWithContext env svc (ReceiveMessageInput (QueueUrl (config s)) 10 5) 6 w1
        = (Inr msgs, w2)"
  obtain d ev3 w3 where loop: "handleMessagesV1 s env 0 msgs [] w2 = (d, ev3, w3)"
    by (cases "handleMessagesV1 s env 0 msgs [] w2")
  obtain ev4 w4 where del:
    "deleteMessages ''sqs SQS.processMessagesV1'' s env svc d w3 = (ev4, w4)"
    by (cases "deleteMessages ''sqs SQS.processMessagesV1'' s env svc d w3")
  have h3: "handlerCalls ev3 = List.map_filter Body msgs"
    using handleMessagesV1_handler [OF cb, of env 0 msgs "[]" w2] loop by simp
  show "handlerCalls (fst (snd (processMessagesV1_iter s env wk w))) = List.map_filter Body msgs"
  proof (cases "msgs = []")
    case True
    with init recv initClient_no_handler [OF init] show ?thesis
      by (simp add: processMessagesV1_iter_def handlerCalls_append map_filter_simps)
  next
    case False
    from processMessagesV1_iter_batch [OF init recv False loop del] h3
      initClient_no_handler [OF init] deleteMessages_no_handler [OF del]
    show ?thesis
      by (simp add: handlerCalls_append)
  qed
next
  let ?dm = "case r of
               None \<Rightarrow> [\<lparr>Id = MessageId m, EntryReceiptHandle = ReceiptHandle m\<rparr>]
             | Some x \<Rightarrow> []"
  let ?em1 = "[InfoWithFields ''sqs SQS.processMessagesV1 handle message''
                 [(''index'', FInt (int (length pre))), (''msg'', FMsg m)],
               CallMessageCB body]"
  let ?em2 = "case r of
                Some x \<Rightarrow>
                  [ErrorWithFields ''sqs SQS.processMessagesV1 handle msg fail.''
                     [(''err'', FStr x), (''msg'', FStr body)]]
              | None \<Rightarrow>
                  (if Milliseconds_Since env (Now env w3) w4 > HandleTimeoutMS
                   then [ErrorWithFields ''sqs SQS.processMessagesV1 handle msg cost.''
                           [(''sqsArn'', FStr (ARN (config s))),
                            (''cost'', FInt (Milliseconds_Since env (Now env w3) w4))]]
                   else [])"
  assume cb: "messageCB s = Some cb" and body: "Body m = Some body"
    and init: "initClient ''sqs SQS.processMessagesV1'' s env wk w = (Some svc, wk1, ev1, w1)"
    and recv: "ReceiveMessageWithContext env svc (ReceiveMessageInput (QueueUrl (config s)) 10 5) 6 w1
        = (Inr (pre @ m # post), w2)"
    and pre: "handleMessagesV1 s env 0 pre [] w2 = (d1, e1, w3)"
    and call: "cb body w3 = (r, w4)"
    and post: "handleMessagesV1 s env (int (length pre) + 1) post [] w4 = (d2, e2, w5)"
    and del: "deleteMessages ''sqs SQS.processMessagesV1'' s env svc (d1 @ ?dm @ d2) w5 = (ev4, w6)"
  have m: "handleMessageV1 s env (int (length pre)) m d1 w3 = (d1 @ ?dm, ?em1 @ ?em2, w4)"
    using handleMessageV1_called [OF cb body call] .
  have all: "handleMessagesV1 s env 0 (pre @ m # post) [] w2
               = (d1 @ ?dm @ d2, e1 @ (?em1 @ ?em2) @ e2, w5)"
    using handleMessagesV1_split [OF pre m post] by simp
  show "processMessagesV1_iter s env wk w
        = (wk1,
           ev1 @ [CallReceiveMessage svc (ReceiveMessageInput (QueueUrl (config s)) 10 5) 6,
                  InfoWithFields ''sqs SQS.processMessagesV1 received messages''
                    [(''len'', FInt (int (length (pre @ m # post))))]]
             @ e1 @ ?em1 @ ?em2 @ e2 @ ev4, w6)"
    using processMessagesV1_iter_batch [OF init recv _ all del] by simp
qed

theorem raw_body_reaches_callback_witness:
  "messageCB (stubSQS (Some stubCB)) = Some stubCB
   \<and> unmarshalCalls (concat (fst (snd (processMessagesV1_loop 2 (stubSQS (Some stubCB))
         (stubEnv True) worker0 (scripted0 [wrappedBatch]))))) = []
   \<and> handlerCalls (fst (snd (processMessagesV1_iter (stubSQS (Some stubCB)) (stubEnv True) worker0
         (scripted0 [wrappedBatch]))))
       = [envelope ''first'', envelope ''bad'', envelope ''third'', ''not json'']
   \<and> seen (snd (snd (processMessagesV1_iter (stubSQS (Some stubCB)) (stubEnv True) worker0
         (scripted0 [rawBatch]))))
       = [''first'', ''bad'', ''third'']
   \<and> deleted (snd (snd (processMessagesV1_iter (stubSQS (Some stubCB)) (stubEnv True) worker0
         (scripted0 [rawBatch]))))
       = [\<lparr>Id = Some ''1'', EntryReceiptHandle = Some ''rh-1''\<rparr>,
          \<lparr>Id = Some ''3'', EntryReceiptHandle = Some ''rh-3''\<rparr>]
   \<and> errorLines (fst (snd (processMessagesV1_iter (stubSQS (Some stubCB)) (stubEnv True) worker0
         (scripted0 [rawBatch]))))
       = [''sqs SQS.processMessagesV1 handle msg fail.'']"
proof -
  let ?s = "stubSQS (Some stubCB)"
  let ?env = "stubEnv True"
  let ?wk1 = "\<lparr>cfgSession = Some (Session 7), service = Some (New (Session 7)), err = None\<rparr>"
  let ?e1 = "\<lparr>Id = Some ''1'', EntryReceiptHandle = Some ''rh-1''\<rparr>"
  let ?e3 = "\<lparr>Id = Some ''3'', EntryReceiptHandle = Some ''rh-3''\<rparr>"
  let ?w3 = "\<lparr>inbox = [], deleted = [], seen = [''first''], clock = 2000000\<rparr>"
  let ?w4 = "\<lparr>inbox = [], deleted = [], seen = [''first'', ''bad''], clock = 2000000\<rparr>"
  let ?w5 = "\<lparr>inbox = [], deleted = [], seen = [''first'', ''bad'', ''third''], clock = 4000000\<rparr>"
  let ?post = "handleMessagesV1 ?s ?env (int (length [msg ''1'' ''first'']) + 1)
                 [msg ''3'' ''third''] [] ?w4"
  let ?pre = "handleMessagesV1 ?s ?env 0 [msg ''1'' ''first''] [] (scripted0 [])"
  have hyp:
    "messageCB ?s = Some stubCB \<and>
     initClient ''sqs SQS.processMessagesV1'' ?s ?env worker0 (scripted0 [wrappedBatch])
       = (Some (New (Session 7)), ?wk1,
          [CallNewSession (aws_Config ''eu-west-1'' None),
           Info ''sqs SQS.processMessagesV1 session init success'', CallNew (Session 7)],
          scripted0 [wrappedBatch]) \<and>
     ReceiveMessageWithContext ?env (New (Session 7))
         (ReceiveMessageInput (QueueUrl (config ?s)) 10 5) 6 (scripted0 [wrappedBatch])
       = (Inr wrappedBatch, scripted0 [])"
    by (simp add: model_defs stub_defs)
  have called:
    "messageCB ?s = Some stubCB \<and> Body (msg ''2'' ''bad'') = Some ''bad'' \<and>
     initClient ''sqs SQS.processMessagesV1'' ?s ?env worker0 (scripted0 [rawBatch])
       = (Some (New (Session 7)), ?wk1,
          [CallNewSession (aws_Config ''eu-west-1'' None),
           Info ''sqs SQS.processMessagesV1 session init success'', CallNew (Session 7)],
          scripted0 [rawBatch]) \<and>
     ReceiveMessageWithContext ?env (New (Session 7))
         (ReceiveMessageInput (QueueUrl (config ?s)) 10 5) 6 (scripted0 [rawBatch])
       = (Inr ([msg ''1'' ''first''] @ msg ''2'' ''bad'' # [msg ''3'' ''third'']), scripted0 []) \<and>
     ?pre = ([?e1], fst (snd ?pre), ?w3) \<and>
     stubCB ''bad'' ?w3 = (Some ''boom'', ?w4) \<and>
     ?post = ([?e3], fst (snd ?post), ?w5) \<and>
     deleteMessages ''sqs SQS.processMessagesV1'' ?s ?env (New (Session 7))
         ([?e1] @ (case Some ''boom'' of
                     None \<Rightarrow> [\<lparr>Id = MessageId (msg ''2'' ''bad''),
                                 EntryReceiptHandle = ReceiptHandle (msg ''2'' ''bad'')\<rparr>]
                   | Some x \<Rightarrow> []) @ [?e3]) ?w5
       = ([CallDeleteMessageBatch (New (Session 7))
             (DeleteMessageBatchInput [?e1, ?e3] ''https://q'') 1],
          ?w5\<lparr>deleted := [?e1, ?e3]\<rparr>)"
    by (simp add: model_defs stub_defs)
  note t = raw_body_reaches_callback [of 2 ?s ?env worker0 "scripted0 [wrappedBatch]"]
  have a: "unmarshalCalls (concat (fst (snd (processMessagesV1_loop 2 ?s ?env worker0
         (scripted0 [wrappedBatch]))))) = []"
    using t by simp
  have b: "handlerCalls (fst (snd (processMessagesV1_iter ?s ?env worker0
         (scripted0 [wrappedBatch]))))
       = List.map_filter Body wrappedBatch"
    using t [THEN conjunct2, THEN conjunct2, THEN conjunct1, rule_format, OF hyp] .
  have c: "List.map_filter Body wrappedBatch
       = [envelope ''first'', envelope ''bad'', envelope ''third'', ''not json'']"
    by (simp add: wrappedBatch_def msg_def map_filter_simps)
  note d = raw_body_reaches_callback [THEN conjunct2, THEN conjunct2, THEN conjunct2,
      rule_format, OF called]
  have e: "seen (snd (snd (processMessagesV1_iter ?s ?env worker0 (scripted0 [rawBatch]))))
       = [''first'', ''bad'', ''third'']
     \<and> deleted (snd (snd (processMessagesV1_iter ?s ?env worker0 (scripted0 [rawBatch]))))
       = [?e1, ?e3]
     \<and> errorLines (fst (snd (processMessagesV1_iter ?s ?env worker0 (scripted0 [rawBatch]))))
       = [''sqs SQS.processMessagesV1 handle msg fail.'']"
    using d by (simp add: model_defs stub_defs errorLines_append)
  from hyp a b c e show ?thesis by simp
qed

text \<open>
  C4, as the code has it. With a nil callback, \<open>processMessagesV1\<close> never calls the callback,
  stages nothing and makes no batch delete, in any iteration and for any batch. In
  \<open>processMessages\<close> the callback is never called either, but the messages whose body does
  not decode are staged before the callback is looked at: the entries of an iteration are
  exactly those of the poison messages of its batch, each with the id and the receipt
  handle of its message. When there is one, the iteration calls
  \<open>DeleteMessageBatchWithContext\<close> on that list and ends in the world this call returns,
  with its error logged if it returns one; when there is none, the iteration ends in the
  world the receive returned.
\<close>

theorem nil_callback_deletes_only_poison:
  assumes nil: "messageCB s = None"
  shows
    "fst (handleMessagesV1 s env i msgs [] w) = []
     \<and> deleteCalls (concat (fst (snd (processMessagesV1_loop n s env wk w)))) = []
     \<and> handlerCalls (concat (fst (snd (processMessagesV1_loop n s env wk w)))) = []
     \<and> handlerCalls (concat (fst (snd (processMessages_loop n s env wk w)))) = []
     \<and> fst (handleMessages s env msgs [] w)
         = map (\<lambda>x. \<lparr>Id = MessageId x, EntryReceiptHandle = ReceiptHandle x\<rparr>)
             (filter (poison env) msgs)
     \<and> (initClient ''sqs SQS.processMessages'' s env wk w = (Some svc, wk1, ev1, w1) \<and>
        ReceiveMessageWithContext env svc (ReceiveMessageInput (QueueUrl (config s)) 10 20) 21 w1
          = (Inr msgs, w2)
        \<longrightarrow>
        deleteCalls (fst (snd (processMessages_iter s env wk w)))
          = (if filter (poison env) msgs = [] then []
             else [DeleteMessageBatchInput
                     (map (\<lambda>x. \<lparr>Id = MessageId x, EntryReceiptHandle = ReceiptHandle x\<rparr>)
                        (filter (poison env) msgs))
                     (QueueUrl (config s))]) \<and>
        (filter (poison env) msgs = [] \<longrightarrow>
           processMessages_iter s env wk w
             = (wk1,
                ev1 @ [CallReceiveMessage svc (ReceiveMessageInput (QueueUrl (config s)) 10 20) 21]
                  @ fst (snd (handleMessages s env msgs [] w2)), w2)) \<and>
        (filter (poison env) msgs \<noteq> [] \<and>
         DeleteMessageBatchWithContext env svc
             (DeleteMessageBatchInput
                (map (\<lambda>x. \<lparr>Id = MessageId x, EntryReceiptHandle = ReceiptHandle x\<rparr>)
                   (filter (poison env) msgs))
                (QueueUrl (config s))) 1 w2
           = (r, w4)
         \<longrightarrow>
           processMessages_iter s env wk w
             = (wk1,
                ev1 @ [CallReceiveMessage svc (ReceiveMessageInput (QueueUrl (config s)) 10 20) 21]
                  @ fst (snd (handleMessages s env msgs [] w2))
                  @ CallDeleteMessageBatch svc
                      (DeleteMessageBatchInput
                         (map (\<lambda>x. \<lparr>Id = MessageId x, EntryReceiptHandle = ReceiptHandle x\<rparr>)
                            (filter (poison env) msgs))
                         (QueueUrl (config s))) 1
                    # (case r of
                         None \<Rightarrow> []
                       | Some x \<Rightarrow>
                           [ErrorWithFields ''sqs SQS.processMessages delete message fail.''
                              [(''error'', FStr x)]]), w4)))"
proof (intro conjI impI; (elim conjE)?)
  let ?f = "\<lambda>x. \<lparr>Id = MessageId x, EntryReceiptHandle = ReceiptHandle x\<rparr>"
  have f: "map entryOf xs = map ?f xs" for xs
    by (simp add: entryOf_def)
  show "fst (handleMessagesV1 s env i msgs [] w) = []"
    using handleMessagesV1_nil [OF nil] by simp
  show "deleteCalls (concat (fst (snd (processMessagesV1_loop n s env wk w)))) = []"
    using processMessagesV1_loop_nil [OF nil] by simp
  show "handlerCalls (concat (fst (snd (processMessagesV1_loop n s env wk w)))) = []"
    using processMessagesV1_loop_nil [OF nil] by simp
  show "handlerCalls (concat (fst (snd (processMessages_loop n s env wk w)))) = []"
    using processMessages_loop_nil [OF nil] .
  show "fst (handleMessages s env msgs [] w) = map ?f (filter (poison env) msgs)"
    using handleMessages_nil [OF nil, of env msgs "[]" w] by (simp add: f)
  {
    assume init: "initClient ''sqs SQS.processMessages'' s env wk w = (Some svc, wk1, ev1, w1)"
      and recv: "ReceiveMessageWithContext env svc (ReceiveMessageInput (QueueUrl (config s)) 10 20) 21 w1
            = (Inr msgs, w2)"
    obtain d ev3 w3 where loop: "handleMessages s env msgs [] w2 = (d, ev3, w3)"
      by (cases "handleMessages s env msgs [] w2")
    have d: "d = map ?f (filter (poison env) msgs)" and w3: "w3 = w2"
      using handleMessages_nil [OF nil, of env msgs "[]" w2] loop by (simp_all add: f)
    obtain ev4 w4' where del: "deleteMessages ''sqs SQS.processMessages'' s env svc d w3 = (ev4, w4')"
      by (cases "deleteMessages ''sqs SQS.processMessages'' s env svc d w3")
    show "deleteCalls (fst (snd (processMessages_iter s env wk w)))
            = (if filter (poison env) msgs = [] then []
               else [DeleteMessageBatchInput (map ?f (filter (poison env) msgs))
                       (QueueUrl (config s))])"
      using processMessages_iter_batch [OF init recv loop del] initClient_no_delete [OF init]
        handleMessages_no_delete [OF loop] deleteMessages_calls [OF del] d
      by (simp add: deleteCalls_append)
    {
      assume "filter (poison env) msgs = []"
      with d have "d = []" by simp
      then show "processMessages_iter s env wk w
             = (wk1,
                ev1 @ [CallReceiveMessage svc (ReceiveMessageInput (QueueUrl (config s)) 10 20) 21]
                  @ fst (snd (handleMessages s env msgs [] w2)), w2)"
        using processMessages_iter_batch [OF init recv loop, of "[]" w3] loop w3
        by (simp add: deleteMessages_none)
    }
    {
      assume ne: "filter (poison env) msgs \<noteq> []"
        and call: "DeleteMessageBatchWithContext env svc
             (DeleteMessageBatchInput (map ?f (filter (poison env) msgs)) (QueueUrl (config s)))
             1 w2 = (r, w4)"
      from ne d have dne: "d \<noteq> []" by simp
      from call d w3 have call': "DeleteMessageBatchWithContext env svc
             (DeleteMessageBatchInput d (QueueUrl (config s))) 1 w3 = (r, w4)"
        by simp
      show "processMessages_iter s env wk w
             = (wk1,
                ev1 @ [CallReceiveMessage svc (ReceiveMessageInput (QueueUrl (config s)) 10 20) 21]
                  @ fst (snd (handleMessages s env msgs [] w2))
                  @ CallDeleteMessageBatch svc
                      (DeleteMessageBatchInput (map ?f (filter (poison env) msgs))
                         (QueueUrl (config s))) 1
                    # (case r of
                         None \<Rightarrow> []
                       | Some x \<Rightarrow>
                           [ErrorWithFields ''sqs SQS.processMessages delete message fail.''
                              [(''error'', FStr x)]]), w4)"
        using processMessages_iter_batch [OF init recv loop
            deleteMessages_result [OF dne call', of "''sqs SQS.processMessages''"]] loop d
        by (cases r) simp_all
    }
  }
qed

theorem nil_callback_deletes_only_poison_witness:
  "messageCB (stubSQS None) = None
   \<and> filter (poison (stubEnv True)) wrappedBatch = [msg ''4'' ''not json'']
   \<and> fst (handleMessagesV1 (stubSQS None) (stubEnv True) 0 rawBatch [] (scripted0 [])) = []
   \<and> deleteCalls (concat (fst (snd (processMessagesV1_loop 2 (stubSQS None) (stubEnv True) worker0
         (scripted0 [rawBatch, rawBatch]))))) = []
   \<and> handlerCalls (concat (fst (snd (processMessages_loop 2 (stubSQS None) (stubEnv True) worker0
         (scripted0 [rawBatch, rawBatch]))))) = []
   \<and> fst (handleMessages (stubSQS None) (stubEnv True) wrappedBatch [] (scripted0 []))
       = [\<lparr>Id = Some ''4'', EntryReceiptHandle = Some ''rh-4''\<rparr>]
   \<and> deleteCalls (fst (snd (processMessages_iter (stubSQS None) (stubEnv True) worker0
         (scripted0 [wrappedBatch]))))
       = [DeleteMessageBatchInput [\<lparr>Id = Some ''4'', EntryReceiptHandle = Some ''rh-4''\<rparr>]
            ''https://q'']
   \<and> snd (snd (processMessages_iter (stubSQS None) (stubEnv True) worker0
         (scripted0 [wrappedBatch])))
       = \<lparr>inbox = [], deleted = [\<lparr>Id = Some ''4'', EntryReceiptHandle = Some ''rh-4''\<rparr>],
          seen = [], clock = 0\<rparr>
   \<and> snd (snd (processMessages_iter (stubSQS None) (stubEnv False) worker0
         (scripted0 [wrappedBatch])))
       = \<lparr>inbox = [], deleted = [], seen = [], clock = 0\<rparr>
   \<and> last (errorLines (fst (snd (processMessages_iter (stubSQS None) (stubEnv False) worker0
         (scripted0 [wrappedBatch])))))
       = ''sqs SQS.processMessages delete message fail.''
   \<and> filter (poison (stubEnv True)) [msg ''1'' (envelope ''first'')] = []
   \<and> snd (snd (processMessages_iter (stubSQS None) (stubEnv True) worker0
         (scripted0 [[msg ''1'' (envelope ''first'')]])))
       = \<lparr>inbox = [], deleted = [], seen = [], clock = 0\<rparr>"
proof -
  let ?s = "stubSQS None"
  let ?env = "stubEnv True"
  let ?envF = "stubEnv False"
  let ?wk1 = "\<lparr>cfgSession = Some (Session 7), service = Some (New (Session 7)), err = None\<rparr>"
  let ?e4 = "\<lparr>Id = Some ''4'', EntryReceiptHandle = Some ''rh-4''\<rparr>"
  let ?f = "\<lambda>x. \<lparr>Id = MessageId x, EntryReceiptHandle = ReceiptHandle x\<rparr>"
  let ?w0 = "\<lparr>inbox = [], deleted = [], seen = [], clock = 0\<rparr>"
  have nil: "messageCB ?s = None"
    by (simp add: stubSQS_def)
  have bad: "filter (poison ?env) wrappedBatch = [msg ''4'' ''not json'']"
    by (simp add: poison_def stub_defs)
  have badF: "filter (poison ?envF) wrappedBatch = [msg ''4'' ''not json'']"
    by (simp add: poison_def stub_defs)
  have good: "filter (poison ?env) [msg ''1'' (envelope ''first'')] = []"
    by (simp add: poison_def stub_defs)
  have hyp:
    "initClient ''sqs SQS.processMessages'' ?s (stubEnv ok) worker0 (scripted0 [b])
       = (Some (New (Session 7)), ?wk1,
          [CallNewSession (aws_Config ''eu-west-1'' None),
           Info ''sqs SQS.processMessages session init success'', CallNew (Session 7)],
          scripted0 [b]) \<and>
     ReceiveMessageWithContext (stubEnv ok) (New (Session 7))
         (ReceiveMessageInput (QueueUrl (config ?s)) 10 20) 21 (scripted0 [b])
       = (Inr b, scripted0 [])" for ok b
    by (simp add: model_defs stub_defs)
  have callT:
    "filter (poison ?env) wrappedBatch \<noteq> [] \<and>
     DeleteMessageBatchWithContext ?env (New (Session 7))
         (DeleteMessageBatchInput (map ?f (filter (poison ?env) wrappedBatch))
            (QueueUrl (config ?s))) 1 (scripted0 [])
       = (None, ?w0\<lparr>deleted := [?e4]\<rparr>)"
    by (simp add: bad) (simp add: model_defs stub_defs)
  have callF:
    "filter (poison ?envF) wrappedBatch \<noteq> [] \<and>
     DeleteMessageBatchWithContext ?envF (New (Session 7))
         (DeleteMessageBatchInput (map ?f (filter (poison ?envF) wrappedBatch))
            (QueueUrl (config ?s))) 1 (scripted0 [])
       = (Some ''ServiceUnavailable'', ?w0)"
    by (simp add: badF) (simp add: model_defs stub_defs)
  note a = nil_callback_deletes_only_poison [OF nil, of ?env 0 rawBatch "scripted0 []" 2 worker0]
  note b = nil_callback_deletes_only_poison [OF nil, of ?env 0 wrappedBatch "scripted0 []" 2 worker0]
  note d = nil_callback_deletes_only_poison [OF nil, of ?env 0 rawBatch
      "scripted0 [rawBatch, rawBatch]" 2 worker0]
  note cT = nil_callback_deletes_only_poison [OF nil, THEN conjunct2, THEN conjunct2,
      THEN conjunct2, THEN conjunct2, THEN conjunct2, rule_format, OF hyp [of True wrappedBatch]]
  note cF = nil_callback_deletes_only_poison [OF nil, THEN conjunct2, THEN conjunct2,
      THEN conjunct2, THEN conjunct2, THEN conjunct2, rule_format, OF hyp [of False wrappedBatch]]
  note cG = nil_callback_deletes_only_poison [OF nil, THEN conjunct2, THEN conjunct2,
      THEN conjunct2, THEN conjunct2, THEN conjunct2, rule_format,
      OF hyp [of True "[msg ''1'' (envelope ''first'')]"]]
  have v1: "fst (handleMessagesV1 ?s ?env 0 rawBatch [] (scripted0 [])) = []"
    using a by simp
  have v1loop: "deleteCalls (concat (fst (snd (processMessagesV1_loop 2 ?s ?env worker0
         (scripted0 [rawBatch, rawBatch]))))) = []"
    using d by simp
  have wloop: "handlerCalls (concat (fst (snd (processMessages_loop 2 ?s ?env worker0
         (scripted0 [rawBatch, rawBatch]))))) = []"
    using d by simp
  have staged: "fst (handleMessages ?s ?env wrappedBatch [] (scripted0 [])) = [?e4]"
    using b bad by (simp add: msg_def)
  have del: "deleteCalls (fst (snd (processMessages_iter ?s ?env worker0 (scripted0 [wrappedBatch]))))
       = [DeleteMessageBatchInput [?e4] ''https://q'']"
    using cT [THEN conjunct1] bad by (simp add: stubSQS_def stubConfig_def msg_def)
  have wT: "snd (snd (processMessages_iter ?s ?env worker0 (scripted0 [wrappedBatch])))
       = ?w0\<lparr>deleted := [?e4]\<rparr>"
    using cT [THEN conjunct2, THEN conjunct2, rule_format, OF callT] by simp
  have wF: "snd (snd (processMessages_iter ?s ?envF worker0 (scripted0 [wrappedBatch]))) = ?w0
     \<and> last (errorLines (fst (snd (processMessages_iter ?s ?envF worker0
           (scripted0 [wrappedBatch])))))
       = ''sqs SQS.processMessages delete message fail.''"
    using cF [THEN conjunct2, THEN conjunct2, rule_format, OF callF]
    by (simp add: errorLines_append)
  have wG: "snd (snd (processMessages_iter ?s ?env worker0
         (scripted0 [[msg ''1'' (envelope ''first'')]]))) = ?w0"
    using cG [THEN conjunct2, THEN conjunct1, rule_format, OF good] by (simp add: scripted0_def)
  from nil bad good v1 v1loop wloop staged del wT wF wG show ?thesis
    by simp
qed

end
